theory Spec2Isabelle
  imports Complex_Main
begin

section \<open>The relational store of the gym back end\<close>

text \<open>
  The program is a FastAPI application over PostgreSQL.  Its behaviour is divided between
  Python (\<^verbatim>\<open>src/database/queries.py\<close>, \<^verbatim>\<open>src/routes/api.py\<close>,
  \<^verbatim>\<open>src/models/schemas.py\<close>, \<^verbatim>\<open>src/utils/helpers.py\<close>) and the SQL that
  \<^verbatim>\<open>init_database\<close> (\<^verbatim>\<open>src/database/connection.py\<close>) installs: the tables with
  their keys, checks and cascading foreign keys, the trigger \<^verbatim>\<open>verificar_vagas_turma\<close>
  and the stored function \<^verbatim>\<open>atualizar_plano_aluno\<close>.

  The model is sequential.  A table is the list of its rows (in insertion order), a row is a
  record with one field per column, and the database is a record of the eight tables and
  the three \<^verbatim>\<open>SERIAL\<close> sequences.  Every query function of \<^verbatim>\<open>queries.py\<close> becomes
  a function from the working state of the connection to a result and the working state
  after it; an exception is a value \<open>Inl e\<close>.  Column values are taken in their column
  types: \<^verbatim>\<open>INTEGER\<close> is \<open>int\<close>, \<^verbatim>\<open>NUMERIC\<close> is \<open>rat\<close>, \<^verbatim>\<open>VARCHAR\<close> is
  \<open>string\<close>, a nullable column is an \<open>option\<close>; the width of a column (32 bits,
  \<^verbatim>\<open>VARCHAR(45)\<close>, \<^verbatim>\<open>NUMERIC(10,2)\<close>) is not modelled.  A text is the list of its
  characters, so that its length is the number of its characters; the characters are the
  256 of \<open>char\<close>, the code points of Latin-1.  The field names are the
  column names, prefixed by the table alias the source's queries use
  (\<^verbatim>\<open>a\<close>, \<^verbatim>\<open>c\<close>, \<^verbatim>\<open>i\<close>, \<^verbatim>\<open>ci\<close>, \<^verbatim>\<open>t\<close>, \<^verbatim>\<open>tia\<close>) where two tables share
  a column name.
\<close>

type_synonym numeric = rat

datatype date = Date (year: int) (month: int) (day: int)

record plano_row =
  codigo_plano :: int
  nome_plano :: string
  preco :: numeric
  descricao :: "string option"

record aluno_row =
  a_matricula :: int
  a_cpf :: string
  a_nome :: string
  a_sexo :: string
  a_data_nascimento :: date
  a_data_matricula :: date
  a_codigo_plano :: int

record contato_aluno_row =
  c_telefone :: string
  c_email :: "string option"
  c_matricula :: int

record bioimpedancia_row =
  b_matricula :: int
  peso :: numeric
  altura :: numeric
  tmb :: int
  percentual_gordura :: numeric
  quantidade_agua :: numeric

record instrutor_row =
  i_cref :: int
  i_cpf :: string
  i_nome :: string
  i_data_nascimento :: date
  i_data_admissao :: date
  i_turno :: string

record contato_instrutor_row =
  ci_telefone :: string
  ci_email :: "string option"
  ci_cref :: int

record turma_row =
  id_turma :: int
  nome_atividade :: string
  quantidade_vagas :: int
  t_turno :: string
  t_cref :: int

record turma_instrutor_aluno_row =
  tia_id_turma :: int
  tia_matricula :: int

record db =
  plano :: "plano_row list"
  aluno :: "aluno_row list"
  contato_aluno :: "contato_aluno_row list"
  bioimpedancia :: "bioimpedancia_row list"
  instrutor :: "instrutor_row list"
  contato_instrutor :: "contato_instrutor_row list"
  turma :: "turma_row list"
  turma_instrutor_aluno :: "turma_instrutor_aluno_row list"
  plano_codigo_plano_seq :: int
  aluno_matricula_seq :: int
  turma_id_turma_seq :: int

text \<open>
  \<^verbatim>\<open>init_database\<close> drops and recreates every table: the store starts empty, and a
  \<^verbatim>\<open>SERIAL\<close> sequence hands out 1 first.
\<close>

definition init_database :: db where
  "init_database =
     \<lparr>plano = [], aluno = [], contato_aluno = [], bioimpedancia = [], instrutor = [],
      contato_instrutor = [], turma = [], turma_instrutor_aluno = [],
      plano_codigo_plano_seq = 0, aluno_matricula_seq = 0, turma_id_turma_seq = 0\<rparr>"

subsection \<open>Errors\<close>

text \<open>
  \<open>pg_error\<close> is what the store raises (a \<^verbatim>\<open>psycopg2.Error\<close>): a violated key,
  foreign key or check, or the \<^verbatim>\<open>RAISE EXCEPTION\<close> of the trigger.  \<open>error\<close> is
  the Python exception that leaves a query function: \<^verbatim>\<open>execute_query\<close> turns every
  \<^verbatim>\<open>psycopg2.Error\<close> into \<^verbatim>\<open>Exception("Erro ao executar query: ...")\<close>, and the
  query functions raise three messages of their own.  \<open>ValidationError\<close> is pydantic's.
\<close>

datatype pg_error =
  unique_violation
  | foreign_key_violation
  | check_violation
  | raise_exception

datatype error =
  Erro_ao_executar_query pg_error
  | Turma_nao_encontrada
  | Turma_sem_vagas_disponiveis
  | Instrutor_nao_encontrado
  | ValidationError

text \<open>
  \<^verbatim>\<open>execute_query\<close>: the rows of the statement, or the wrapped error.  On an error it
  also calls \<^verbatim>\<open>connection.rollback()\<close>; the statement that failed wrote nothing, and
  what the rollback does to the statements before it is \<open>rollback\<close> below.
\<close>

definition execute_query :: "(pg_error + 'a) \<times> db \<Rightarrow> (error + 'a) \<times> db" where
  "execute_query r =
     (case r of
        (Inl e, db') \<Rightarrow> (Inl (Erro_ao_executar_query e), db')
      | (Inr rows, db') \<Rightarrow> (Inr rows, db'))"

text \<open>
  A rollback restores the tables of the last commit.  A sequence is not transactional: the
  values \<^verbatim>\<open>nextval\<close> handed out stay handed out.
\<close>

definition rollback :: "db \<Rightarrow> db \<Rightarrow> db" where
  "rollback committed working =
     committed\<lparr>plano_codigo_plano_seq := plano_codigo_plano_seq working,
               aluno_matricula_seq := aluno_matricula_seq working,
               turma_id_turma_seq := turma_id_turma_seq working\<rparr>"

text \<open>
  \<^verbatim>\<open>SELECT ... INTO v\<close> of PL/pgSQL and \<^verbatim>\<open>result[0]\<close> after a check that the result
  is not empty: the first row, \<open>None\<close> (SQL \<^verbatim>\<open>NULL\<close>) when there is none.
\<close>

definition first_row :: "'a list \<Rightarrow> 'a option" where
  "first_row rows = (case rows of [] \<Rightarrow> None | r # _ \<Rightarrow> Some r)"

text \<open>
  The \<^verbatim>\<open>SET\<close> list of the partial updates holds the columns whose argument
  \<^verbatim>\<open>is not None\<close>: such a column takes the argument, every other column keeps its value.
\<close>

definition assign :: "'a option \<Rightarrow> 'a \<Rightarrow> 'a" where
  "assign arg old = (case arg of None \<Rightarrow> old | Some v \<Rightarrow> v)"

definition update_where :: "('r \<Rightarrow> bool) \<Rightarrow> ('r \<Rightarrow> 'r) \<Rightarrow> 'r list \<Rightarrow> 'r list" where
  "update_where P f rows = map (\<lambda>r. if P r then f r else r) rows"


section \<open>The query layer: queries.py over the schema of connection.py\<close>

text \<open>
  Each function below is the Python function of the same name together with the SQL
  statement it sends.  The argument \<open>conn\<close> is the working state of the connection.  A
  statement that fails leaves the tables as they were.  The store evaluates the
  constraints of a new row in this order: the \<^verbatim>\<open>BEFORE INSERT\<close> trigger, the
  \<^verbatim>\<open>CHECK\<close> constraints, the primary key and the \<^verbatim>\<open>UNIQUE\<close> indexes, and last the
  foreign keys.  A constraint is evaluated on the values the statement writes; the rows a
  table already holds passed it when they were written.
\<close>

subsection \<open>Planos\<close>

definition create_plano ::
  "db \<Rightarrow> string \<Rightarrow> numeric \<Rightarrow> string option \<Rightarrow> (error + int list) \<times> db" where
  "create_plano conn nome_plano' preco' descricao' =
     execute_query
       (let k = plano_codigo_plano_seq conn + 1;
            conn1 = conn\<lparr>plano_codigo_plano_seq := k\<rparr>
        in if k \<in> set (map codigo_plano (plano conn)) then (Inl unique_violation, conn1)
           else (Inr [k],
                 conn1\<lparr>plano := plano conn @
                   [\<lparr>codigo_plano = k, nome_plano = nome_plano', preco = preco',
                     descricao = descricao'\<rparr>]\<rparr>))"


definition update_plano ::
  "db \<Rightarrow> int \<Rightarrow> string option \<Rightarrow> numeric option \<Rightarrow> string option \<Rightarrow> (error + unit) \<times> db" where
  "update_plano conn codigo_plano' nome_plano' preco' descricao' =
     (if nome_plano' = None \<and> preco' = None \<and> descricao' = None then (Inr (), conn)
      else execute_query
        (Inr (),
         conn\<lparr>plano := update_where (\<lambda>p. codigo_plano p = codigo_plano')
           (\<lambda>p. p\<lparr>nome_plano := assign nome_plano' (nome_plano p),
                  preco := assign preco' (preco p),
                  descricao := (case descricao' of None \<Rightarrow> descricao p | Some d \<Rightarrow> Some d)\<rparr>)
           (plano conn)\<rparr>))"

subsection \<open>Cascading deletes\<close>

text \<open>
  Every foreign key of the schema is \<^verbatim>\<open>ON DELETE CASCADE\<close>.  Deleting rows of
  \<^verbatim>\<open>aluno\<close> deletes the rows of \<^verbatim>\<open>contato_aluno\<close>, \<^verbatim>\<open>bioimpedancia\<close> and
  \<^verbatim>\<open>turma_instrutor_aluno\<close> that reference them; deleting rows of \<^verbatim>\<open>turma\<close> deletes
  the rows of \<^verbatim>\<open>turma_instrutor_aluno\<close> that reference them.  \<open>dead\<close> tells which
  rows the statement (or the cascade above it) deletes.
\<close>

definition cascade_aluno :: "(aluno_row \<Rightarrow> bool) \<Rightarrow> db \<Rightarrow> db" where
  "cascade_aluno dead conn =
     (let gone = set (map a_matricula (filter dead (aluno conn)))
      in conn\<lparr>aluno := filter (\<lambda>a. \<not> dead a) (aluno conn),
              contato_aluno := filter (\<lambda>c. c_matricula c \<notin> gone) (contato_aluno conn),
              bioimpedancia := filter (\<lambda>b. b_matricula b \<notin> gone) (bioimpedancia conn),
              turma_instrutor_aluno :=
                filter (\<lambda>e. tia_matricula e \<notin> gone) (turma_instrutor_aluno conn)\<rparr>)"

definition cascade_turma :: "(turma_row \<Rightarrow> bool) \<Rightarrow> db \<Rightarrow> db" where
  "cascade_turma dead conn =
     (let gone = set (map id_turma (filter dead (turma conn)))
      in conn\<lparr>turma := filter (\<lambda>t. \<not> dead t) (turma conn),
              turma_instrutor_aluno :=
                filter (\<lambda>e. tia_id_turma e \<notin> gone) (turma_instrutor_aluno conn)\<rparr>)"

text \<open>
  \<^verbatim>\<open>DELETE FROM plano WHERE codigo_plano = %s\<close>: the plan, and by
  \<^verbatim>\<open>aluno.codigo_plano REFERENCES plano ON DELETE CASCADE\<close> its students.
\<close>

definition delete_plano :: "db \<Rightarrow> int \<Rightarrow> (error + unit) \<times> db" where
  "delete_plano conn codigo_plano' =
     execute_query
       (Inr (),
        (if codigo_plano' \<in> set (map codigo_plano (plano conn))
         then cascade_aluno (\<lambda>a. a_codigo_plano a = codigo_plano') conn
         else conn)
        \<lparr>plano := filter (\<lambda>p. codigo_plano p \<noteq> codigo_plano') (plano conn)\<rparr>)"


subsection \<open>Turmas\<close>

text \<open>
  \<^verbatim>\<open>quantidade_vagas INTEGER CHECK (quantidade_vagas > 0)\<close> and
  \<^verbatim>\<open>FOREIGN KEY (cref) REFERENCES instrutor(cref)\<close>.
\<close>

definition create_turma ::
  "db \<Rightarrow> string \<Rightarrow> int \<Rightarrow> string \<Rightarrow> int \<Rightarrow> (error + int list) \<times> db" where
  "create_turma conn nome_atividade' quantidade_vagas' turno' cref' =
     execute_query
       (let k = turma_id_turma_seq conn + 1;
            conn1 = conn\<lparr>turma_id_turma_seq := k\<rparr>
        in if \<not> quantidade_vagas' > 0 then (Inl check_violation, conn1)
           else if k \<in> set (map id_turma (turma conn)) then (Inl unique_violation, conn1)
           else if cref' \<notin> set (map i_cref (instrutor conn))
             then (Inl foreign_key_violation, conn1)
           else (Inr [k],
                 conn1\<lparr>turma := turma conn @
                   [\<lparr>id_turma = k, nome_atividade = nome_atividade',
                     quantidade_vagas = quantidade_vagas', t_turno = turno',
                     t_cref = cref'\<rparr>]\<rparr>))"

definition update_turma ::
  "db \<Rightarrow> int \<Rightarrow> string option \<Rightarrow> int option \<Rightarrow> string option \<Rightarrow> int option \<Rightarrow>
     (error + unit) \<times> db" where
  "update_turma conn id_turma' nome_atividade' quantidade_vagas' turno' cref' =
     (if nome_atividade' = None \<and> quantidade_vagas' = None \<and> turno' = None \<and> cref' = None
      then (Inr (), conn)
      else execute_query
        (let matched = filter (\<lambda>t. id_turma t = id_turma') (turma conn)
         in if matched \<noteq> [] \<and> (case quantidade_vagas' of None \<Rightarrow> False | Some v \<Rightarrow> \<not> v > 0)
              then (Inl check_violation, conn)
            else if matched \<noteq> [] \<and>
                (case cref' of None \<Rightarrow> False | Some c \<Rightarrow> c \<notin> set (map i_cref (instrutor conn)))
              then (Inl foreign_key_violation, conn)
            else (Inr (),
                  conn\<lparr>turma := update_where (\<lambda>t. id_turma t = id_turma')
                    (\<lambda>t. t\<lparr>nome_atividade := assign nome_atividade' (nome_atividade t),
                           quantidade_vagas := assign quantidade_vagas' (quantidade_vagas t),
                           t_turno := assign turno' (t_turno t),
                           t_cref := assign cref' (t_cref t)\<rparr>)
                    (turma conn)\<rparr>)))"

definition delete_turma :: "db \<Rightarrow> int \<Rightarrow> (error + unit) \<times> db" where
  "delete_turma conn id_turma' =
     execute_query (Inr (), cascade_turma (\<lambda>t. id_turma t = id_turma') conn)"

subsection \<open>Matriculas em turmas\<close>

text \<open>\<^verbatim>\<open>SELECT COUNT( * ) FROM turma_instrutor_aluno WHERE id_turma = %s\<close>.\<close>

definition alunos_matriculados :: "db \<Rightarrow> int \<Rightarrow> int" where
  "alunos_matriculados conn id_turma' =
     int (length (filter (\<lambda>e. tia_id_turma e = id_turma') (turma_instrutor_aluno conn)))"

text \<open>
  The trigger function \<^verbatim>\<open>verificar_vagas_turma\<close>, \<^verbatim>\<open>BEFORE INSERT ... FOR EACH ROW\<close>
  on \<^verbatim>\<open>turma_instrutor_aluno\<close>.  When the class does not exist,
  \<^verbatim>\<open>vagas_disponiveis\<close> is \<^verbatim>\<open>NULL\<close>, the comparison is not true and the row goes on
  to the foreign key.
\<close>

definition verificar_vagas_turma :: "db \<Rightarrow> turma_instrutor_aluno_row \<Rightarrow> pg_error + unit" where
  "verificar_vagas_turma conn new =
     (let vagas_disponiveis =
            first_row (map quantidade_vagas
              (filter (\<lambda>t. id_turma t = tia_id_turma new) (turma conn)));
          matriculados = alunos_matriculados conn (tia_id_turma new)
      in case vagas_disponiveis of
           None \<Rightarrow> Inr ()
         | Some vagas \<Rightarrow> if matriculados \<ge> vagas then Inl raise_exception else Inr ())"

text \<open>
  \<^verbatim>\<open>INSERT INTO turma_instrutor_aluno (id_turma, matricula) VALUES (%s, %s)\<close>: the
  trigger, the primary key \<^verbatim>\<open>(id_turma, matricula)\<close>, then the two foreign keys.
\<close>

definition insert_turma_instrutor_aluno ::
  "db \<Rightarrow> turma_instrutor_aluno_row \<Rightarrow> (pg_error + unit) \<times> db" where
  "insert_turma_instrutor_aluno conn new =
     (case verificar_vagas_turma conn new of
        Inl e \<Rightarrow> (Inl e, conn)
      | Inr _ \<Rightarrow>
          if new \<in> set (turma_instrutor_aluno conn) then (Inl unique_violation, conn)
          else if tia_id_turma new \<notin> set (map id_turma (turma conn))
              \<or> tia_matricula new \<notin> set (map a_matricula (aluno conn))
            then (Inl foreign_key_violation, conn)
          else (Inr (), conn\<lparr>turma_instrutor_aluno := turma_instrutor_aluno conn @ [new]\<rparr>))"

text \<open>
  \<^verbatim>\<open>create_matricula_turma\<close>: \<^verbatim>\<open>query_vagas\<close> returns one row
  \<^verbatim>\<open>(quantidade_vagas, alunos_matriculados)\<close> for each row of \<^verbatim>\<open>turma\<close> with the id;
  the function reads \<^verbatim>\<open>result[0]\<close>.  Its \<^verbatim>\<open>except\<close> clause prints and re-raises.
\<close>

definition create_matricula_turma :: "db \<Rightarrow> int \<Rightarrow> int \<Rightarrow> (error + unit) \<times> db" where
  "create_matricula_turma conn id_turma' matricula' =
     (let result = map (\<lambda>t. (quantidade_vagas t, alunos_matriculados conn id_turma'))
                     (filter (\<lambda>t. id_turma t = id_turma') (turma conn))
      in case result of
           [] \<Rightarrow> (Inl Turma_nao_encontrada, conn)
         | (vagas_totais, matriculados) # _ \<Rightarrow>
             if matriculados \<ge> vagas_totais then (Inl Turma_sem_vagas_disponiveis, conn)
             else execute_query
               (insert_turma_instrutor_aluno conn
                  \<lparr>tia_id_turma = id_turma', tia_matricula = matricula'\<rparr>))"

definition delete_matricula_turma :: "db \<Rightarrow> int \<Rightarrow> int \<Rightarrow> (error + unit) \<times> db" where
  "delete_matricula_turma conn id_turma' matricula' =
     execute_query
       (Inr (),
        conn\<lparr>turma_instrutor_aluno :=
          filter (\<lambda>e. \<not> (tia_id_turma e = id_turma' \<and> tia_matricula e = matricula'))
            (turma_instrutor_aluno conn)\<rparr>)"


subsection \<open>Alunos\<close>

text \<open>
  \<^verbatim>\<open>sexo CHAR(1) CHECK (sexo IN ('M', 'F'))\<close>, \<^verbatim>\<open>cpf VARCHAR(11) UNIQUE\<close> and
  \<^verbatim>\<open>FOREIGN KEY (codigo_plano) REFERENCES plano(codigo_plano)\<close>.
\<close>

definition create_aluno ::
  "db \<Rightarrow> string \<Rightarrow> string \<Rightarrow> string \<Rightarrow> date \<Rightarrow> date \<Rightarrow> int \<Rightarrow> (error + int list) \<times> db" where
  "create_aluno conn cpf' nome' sexo' data_nascimento' data_matricula' codigo_plano' =
     execute_query
       (let k = aluno_matricula_seq conn + 1;
            conn1 = conn\<lparr>aluno_matricula_seq := k\<rparr>
        in if sexo' \<notin> {''M'', ''F''} then (Inl check_violation, conn1)
           else if k \<in> set (map a_matricula (aluno conn)) \<or> cpf' \<in> set (map a_cpf (aluno conn))
             then (Inl unique_violation, conn1)
           else if codigo_plano' \<notin> set (map codigo_plano (plano conn))
             then (Inl foreign_key_violation, conn1)
           else (Inr [k],
                 conn1\<lparr>aluno := aluno conn @
                   [\<lparr>a_matricula = k, a_cpf = cpf', a_nome = nome', a_sexo = sexo',
                     a_data_nascimento = data_nascimento', a_data_matricula = data_matricula',
                     a_codigo_plano = codigo_plano'\<rparr>]\<rparr>))"

text \<open>
  \<^verbatim>\<open>UPDATE aluno SET ... WHERE matricula = %s\<close>.  A new \<^verbatim>\<open>cpf\<close> collides when a row
  the statement does not touch holds it, or when the statement gives it to two rows.
\<close>

definition sql_update_aluno ::
  "db \<Rightarrow> int \<Rightarrow> string option \<Rightarrow> string option \<Rightarrow> string option \<Rightarrow> date option \<Rightarrow>
     date option \<Rightarrow> int option \<Rightarrow> (pg_error + unit) \<times> db" where
  "sql_update_aluno conn matricula' cpf' nome' sexo' data_nascimento' data_matricula'
       codigo_plano' =
     (let matched = filter (\<lambda>a. a_matricula a = matricula') (aluno conn);
          others = filter (\<lambda>a. a_matricula a \<noteq> matricula') (aluno conn)
      in if matched \<noteq> [] \<and> (case sexo' of None \<Rightarrow> False | Some s \<Rightarrow> s \<notin> {''M'', ''F''})
           then (Inl check_violation, conn)
         else if matched \<noteq> [] \<and>
             (case cpf' of None \<Rightarrow> False
              | Some c \<Rightarrow> c \<in> set (map a_cpf others) \<or> length matched > 1)
           then (Inl unique_violation, conn)
         else if matched \<noteq> [] \<and>
             (case codigo_plano' of None \<Rightarrow> False
              | Some p \<Rightarrow> p \<notin> set (map codigo_plano (plano conn)))
           then (Inl foreign_key_violation, conn)
         else (Inr (),
               conn\<lparr>aluno := update_where (\<lambda>a. a_matricula a = matricula')
                 (\<lambda>a. a\<lparr>a_cpf := assign cpf' (a_cpf a),
                        a_nome := assign nome' (a_nome a),
                        a_sexo := assign sexo' (a_sexo a),
                        a_data_nascimento := assign data_nascimento' (a_data_nascimento a),
                        a_data_matricula := assign data_matricula' (a_data_matricula a),
                        a_codigo_plano := assign codigo_plano' (a_codigo_plano a)\<rparr>)
                 (aluno conn)\<rparr>))"

definition update_aluno ::
  "db \<Rightarrow> int \<Rightarrow> string option \<Rightarrow> string option \<Rightarrow> string option \<Rightarrow> date option \<Rightarrow>
     date option \<Rightarrow> int option \<Rightarrow> (error + unit) \<times> db" where
  "update_aluno conn matricula' cpf' nome' sexo' data_nascimento' data_matricula'
       codigo_plano' =
     (if cpf' = None \<and> nome' = None \<and> sexo' = None \<and> data_nascimento' = None
         \<and> data_matricula' = None \<and> codigo_plano' = None
      then (Inr (), conn)
      else execute_query
        (sql_update_aluno conn matricula' cpf' nome' sexo' data_nascimento' data_matricula'
           codigo_plano'))"

definition delete_aluno :: "db \<Rightarrow> int \<Rightarrow> (error + unit) \<times> db" where
  "delete_aluno conn matricula' =
     execute_query (Inr (), cascade_aluno (\<lambda>a. a_matricula a = matricula') conn)"

subsection \<open>Contatos\<close>

text \<open>
  \<^verbatim>\<open>telefone VARCHAR(15) PRIMARY KEY\<close> and the foreign key to the owner, in both
  contact tables.  The updates select by owner and may write the primary key.
\<close>

definition create_contato_aluno ::
  "db \<Rightarrow> int \<Rightarrow> string \<Rightarrow> string option \<Rightarrow> (error + unit) \<times> db" where
  "create_contato_aluno conn matricula' telefone' email' =
     execute_query
       (if telefone' \<in> set (map c_telefone (contato_aluno conn))
          then (Inl unique_violation, conn)
        else if matricula' \<notin> set (map a_matricula (aluno conn))
          then (Inl foreign_key_violation, conn)
        else (Inr (),
              conn\<lparr>contato_aluno := contato_aluno conn @
                [\<lparr>c_telefone = telefone', c_email = email', c_matricula = matricula'\<rparr>]\<rparr>))"

definition create_contato_instrutor ::
  "db \<Rightarrow> int \<Rightarrow> string \<Rightarrow> string option \<Rightarrow> (error + unit) \<times> db" where
  "create_contato_instrutor conn cref' telefone' email' =
     execute_query
       (if telefone' \<in> set (map ci_telefone (contato_instrutor conn))
          then (Inl unique_violation, conn)
        else if cref' \<notin> set (map i_cref (instrutor conn))
          then (Inl foreign_key_violation, conn)
        else (Inr (),
              conn\<lparr>contato_instrutor := contato_instrutor conn @
                [\<lparr>ci_telefone = telefone', ci_email = email', ci_cref = cref'\<rparr>]\<rparr>))"

definition update_contato_aluno ::
  "db \<Rightarrow> int \<Rightarrow> string option \<Rightarrow> string option \<Rightarrow> (error + unit) \<times> db" where
  "update_contato_aluno conn matricula' telefone' email' =
     (if telefone' = None \<and> email' = None then (Inr (), conn)
      else execute_query
        (let matched = filter (\<lambda>c. c_matricula c = matricula') (contato_aluno conn);
             others = filter (\<lambda>c. c_matricula c \<noteq> matricula') (contato_aluno conn)
         in if matched \<noteq> [] \<and>
               (case telefone' of None \<Rightarrow> False
                | Some t \<Rightarrow> t \<in> set (map c_telefone others) \<or> length matched > 1)
              then (Inl unique_violation, conn)
            else (Inr (),
                  conn\<lparr>contato_aluno := update_where (\<lambda>c. c_matricula c = matricula')
                    (\<lambda>c. c\<lparr>c_telefone := assign telefone' (c_telefone c),
                           c_email := (case email' of None \<Rightarrow> c_email c | Some e \<Rightarrow> Some e)\<rparr>)
                    (contato_aluno conn)\<rparr>)))"

definition update_contato_instrutor ::
  "db \<Rightarrow> int \<Rightarrow> string option \<Rightarrow> string option \<Rightarrow> (error + unit) \<times> db" where
  "update_contato_instrutor conn cref' telefone' email' =
     (if telefone' = None \<and> email' = None then (Inr (), conn)
      else execute_query
        (let matched = filter (\<lambda>c. ci_cref c = cref') (contato_instrutor conn);
             others = filter (\<lambda>c. ci_cref c \<noteq> cref') (contato_instrutor conn)
         in if matched \<noteq> [] \<and>
               (case telefone' of None \<Rightarrow> False
                | Some t \<Rightarrow> t \<in> set (map ci_telefone others) \<or> length matched > 1)
              then (Inl unique_violation, conn)
            else (Inr (),
                  conn\<lparr>contato_instrutor := update_where (\<lambda>c. ci_cref c = cref')
                    (\<lambda>c. c\<lparr>ci_telefone := assign telefone' (ci_telefone c),
                           ci_email := (case email' of None \<Rightarrow> ci_email c | Some e \<Rightarrow> Some e)\<rparr>)
                    (contato_instrutor conn)\<rparr>)))"


subsection \<open>Bioimpedancia\<close>

text \<open>
  \<^verbatim>\<open>matricula INTEGER PRIMARY KEY\<close>, so a student has at most one measurement, and
  \<^verbatim>\<open>FOREIGN KEY (matricula) REFERENCES aluno(matricula)\<close>.
\<close>

definition create_bioimpedancia ::
  "db \<Rightarrow> int \<Rightarrow> numeric \<Rightarrow> numeric \<Rightarrow> int \<Rightarrow> numeric \<Rightarrow> numeric \<Rightarrow> (error + unit) \<times> db" where
  "create_bioimpedancia conn matricula' peso' altura' tmb' percentual_gordura' quantidade_agua' =
     execute_query
       (if matricula' \<in> set (map b_matricula (bioimpedancia conn))
          then (Inl unique_violation, conn)
        else if matricula' \<notin> set (map a_matricula (aluno conn))
          then (Inl foreign_key_violation, conn)
        else (Inr (),
              conn\<lparr>bioimpedancia := bioimpedancia conn @
                [\<lparr>b_matricula = matricula', peso = peso', altura = altura', tmb = tmb',
                  percentual_gordura = percentual_gordura',
                  quantidade_agua = quantidade_agua'\<rparr>]\<rparr>))"

definition update_bioimpedancia ::
  "db \<Rightarrow> int \<Rightarrow> numeric option \<Rightarrow> numeric option \<Rightarrow> int option \<Rightarrow> numeric option \<Rightarrow>
     numeric option \<Rightarrow> (error + unit) \<times> db" where
  "update_bioimpedancia conn matricula' peso' altura' tmb' percentual_gordura' quantidade_agua' =
     (if peso' = None \<and> altura' = None \<and> tmb' = None \<and> percentual_gordura' = None
         \<and> quantidade_agua' = None
      then (Inr (), conn)
      else execute_query
        (Inr (),
         conn\<lparr>bioimpedancia := update_where (\<lambda>b. b_matricula b = matricula')
           (\<lambda>b. b\<lparr>peso := assign peso' (peso b),
                  altura := assign altura' (altura b),
                  tmb := assign tmb' (tmb b),
                  percentual_gordura := assign percentual_gordura' (percentual_gordura b),
                  quantidade_agua := assign quantidade_agua' (quantidade_agua b)\<rparr>)
           (bioimpedancia conn)\<rparr>))"

definition delete_bioimpedancia :: "db \<Rightarrow> int \<Rightarrow> (error + unit) \<times> db" where
  "delete_bioimpedancia conn matricula' =
     execute_query
       (Inr (),
        conn\<lparr>bioimpedancia := filter (\<lambda>b. b_matricula b \<noteq> matricula') (bioimpedancia conn)\<rparr>)"

subsection \<open>Instrutores\<close>

text \<open>
  \<^verbatim>\<open>cref INTEGER PRIMARY KEY\<close> (given by the caller), \<^verbatim>\<open>cpf VARCHAR(11) UNIQUE\<close> and
  \<^verbatim>\<open>CHECK (AGE(current_date, data_nascimento) >= INTERVAL '18 years')\<close>.  The check
  depends on the day the statement runs and on PostgreSQL's interval arithmetic; it is the
  parameter \<open>adult\<close>, a predicate on the date of birth.  An update evaluates it on the row
  it writes, whichever columns it sets.
\<close>

definition create_instrutor ::
  "(date \<Rightarrow> bool) \<Rightarrow> db \<Rightarrow> int \<Rightarrow> string \<Rightarrow> string \<Rightarrow> date \<Rightarrow> date \<Rightarrow> string \<Rightarrow>
     (error + unit) \<times> db" where
  "create_instrutor adult conn cref' cpf' nome' data_nascimento' data_admissao' turno' =
     execute_query
       (if \<not> adult data_nascimento' then (Inl check_violation, conn)
        else if cref' \<in> set (map i_cref (instrutor conn))
            \<or> cpf' \<in> set (map i_cpf (instrutor conn))
          then (Inl unique_violation, conn)
        else (Inr (),
              conn\<lparr>instrutor := instrutor conn @
                [\<lparr>i_cref = cref', i_cpf = cpf', i_nome = nome',
                  i_data_nascimento = data_nascimento', i_data_admissao = data_admissao',
                  i_turno = turno'\<rparr>]\<rparr>))"

definition update_instrutor ::
  "(date \<Rightarrow> bool) \<Rightarrow> db \<Rightarrow> int \<Rightarrow> string option \<Rightarrow> string option \<Rightarrow> date option \<Rightarrow>
     date option \<Rightarrow> string option \<Rightarrow> (error + unit) \<times> db" where
  "update_instrutor adult conn cref' cpf' nome' data_nascimento' data_admissao' turno' =
     (if cpf' = None \<and> nome' = None \<and> data_nascimento' = None \<and> data_admissao' = None
         \<and> turno' = None
      then (Inr (), conn)
      else execute_query
        (let matched = filter (\<lambda>i. i_cref i = cref') (instrutor conn);
             others = filter (\<lambda>i. i_cref i \<noteq> cref') (instrutor conn)
         in if \<exists>i \<in> set matched. \<not> adult (assign data_nascimento' (i_data_nascimento i))
              then (Inl check_violation, conn)
            else if matched \<noteq> [] \<and>
                (case cpf' of None \<Rightarrow> False
                 | Some c \<Rightarrow> c \<in> set (map i_cpf others) \<or> length matched > 1)
              then (Inl unique_violation, conn)
            else (Inr (),
                  conn\<lparr>instrutor := update_where (\<lambda>i. i_cref i = cref')
                    (\<lambda>i. i\<lparr>i_cpf := assign cpf' (i_cpf i),
                           i_nome := assign nome' (i_nome i),
                           i_data_nascimento := assign data_nascimento' (i_data_nascimento i),
                           i_data_admissao := assign data_admissao' (i_data_admissao i),
                           i_turno := assign turno' (i_turno i)\<rparr>)
                    (instrutor conn)\<rparr>)))"

text \<open>
  \<^verbatim>\<open>DELETE FROM instrutor WHERE cref = %s\<close>: the instructor, and by the cascading
  foreign keys the rows of \<^verbatim>\<open>contato_instrutor\<close> and of \<^verbatim>\<open>turma\<close> that reference
  it, and with the classes their enrolments.
\<close>

definition delete_instrutor :: "db \<Rightarrow> int \<Rightarrow> (error + unit) \<times> db" where
  "delete_instrutor conn cref' =
     execute_query
       (Inr (),
        (if cref' \<in> set (map i_cref (instrutor conn))
         then (cascade_turma (\<lambda>t. t_cref t = cref') conn)
                \<lparr>contato_instrutor :=
                   filter (\<lambda>c. ci_cref c \<noteq> cref') (contato_instrutor conn)\<rparr>
         else conn)
        \<lparr>instrutor := filter (\<lambda>i. i_cref i \<noteq> cref') (instrutor conn)\<rparr>)"

subsection \<open>The stored function atualizar_plano_aluno\<close>

text \<open>
  The PL/pgSQL function \<^verbatim>\<open>atualizar_plano_aluno(p_matricula, p_novo_plano)\<close> of
  \<^verbatim>\<open>init_database\<close>; \<open>today\<close> is \<^verbatim>\<open>CURRENT_DATE\<close>.  A price that
  \<^verbatim>\<open>SELECT ... INTO\<close> does not find is \<^verbatim>\<open>NULL\<close>, and \<^verbatim>\<open>IF NULL\<close> does not take
  its branch.  The function returns its verdict as text; only the \<^verbatim>\<open>UPDATE\<close> can raise.
\<close>

definition atualizar_plano_aluno :: "date \<Rightarrow> db \<Rightarrow> int \<Rightarrow> int \<Rightarrow> (pg_error + string) \<times> db" where
  "atualizar_plano_aluno today conn p_matricula p_novo_plano =
     (let preco_atual =
            first_row (concat (map
              (\<lambda>a. map preco (filter (\<lambda>p. a_codigo_plano a = codigo_plano p) (plano conn)))
              (filter (\<lambda>a. a_matricula a = p_matricula) (aluno conn))));
          preco_novo =
            first_row (map preco (filter (\<lambda>p. codigo_plano p = p_novo_plano) (plano conn)))
      in if (case (preco_novo, preco_atual) of
               (Some novo, Some atual) \<Rightarrow> novo \<le> atual
             | _ \<Rightarrow> False)
         then (Inr ''Erro: O novo plano deve ser mais caro que o atual!'', conn)
         else (case sql_update_aluno conn p_matricula None None None None (Some today)
                      (Some p_novo_plano) of
                 (Inl e, conn') \<Rightarrow> (Inl e, conn')
               | (Inr _, conn') \<Rightarrow> (Inr ''Plano alterado com sucesso!'', conn')))"


section \<open>Transactions\<close>

text \<open>
  Every endpoint of \<^verbatim>\<open>api.py\<close> opens a connection, calls one or more of the writing
  query functions and commits; an exception leaves the endpoint before the commit, so
  nothing of the transaction is kept.  \<open>stmt\<close> names the writing query functions with
  their arguments (and the stored function, which a client of the store can call), and a
  transaction is a list of them run on one day.  \<open>age_ok today\<close> is the instructors'
  age check on that day.
\<close>

datatype stmt =
  Create_plano string numeric "string option"
  | Update_plano int "string option" "numeric option" "string option"
  | Delete_plano int
  | Create_turma string int string int
  | Update_turma int "string option" "int option" "string option" "int option"
  | Delete_turma int
  | Create_matricula_turma int int
  | Delete_matricula_turma int int
  | Create_aluno string string string date date int
  | Update_aluno int "string option" "string option" "string option" "date option"
      "date option" "int option"
  | Delete_aluno int
  | Create_contato_aluno int string "string option"
  | Create_contato_instrutor int string "string option"
  | Update_contato_aluno int "string option" "string option"
  | Update_contato_instrutor int "string option" "string option"
  | Create_bioimpedancia int numeric numeric int numeric numeric
  | Update_bioimpedancia int "numeric option" "numeric option" "int option" "numeric option"
      "numeric option"
  | Delete_bioimpedancia int
  | Create_instrutor int string string date date string
  | Update_instrutor int "string option" "string option" "date option" "date option"
      "string option"
  | Delete_instrutor int
  | Atualizar_plano_aluno int int

definition outcome :: "(error + 'a) \<times> db \<Rightarrow> error option \<times> db" where
  "outcome r = (case r of (Inl e, conn) \<Rightarrow> (Some e, conn) | (Inr _, conn) \<Rightarrow> (None, conn))"

fun exec_stmt :: "(date \<Rightarrow> date \<Rightarrow> bool) \<Rightarrow> date \<Rightarrow> stmt \<Rightarrow> db \<Rightarrow> error option \<times> db" where
  "exec_stmt age_ok today (Create_plano n p d) conn = outcome (create_plano conn n p d)"
| "exec_stmt age_ok today (Update_plano k n p d) conn = outcome (update_plano conn k n p d)"
| "exec_stmt age_ok today (Delete_plano k) conn = outcome (delete_plano conn k)"
| "exec_stmt age_ok today (Create_turma n v t c) conn = outcome (create_turma conn n v t c)"
| "exec_stmt age_ok today (Update_turma k n v t c) conn = outcome (update_turma conn k n v t c)"
| "exec_stmt age_ok today (Delete_turma k) conn = outcome (delete_turma conn k)"
| "exec_stmt age_ok today (Create_matricula_turma k m) conn =
     outcome (create_matricula_turma conn k m)"
| "exec_stmt age_ok today (Delete_matricula_turma k m) conn =
     outcome (delete_matricula_turma conn k m)"
| "exec_stmt age_ok today (Create_aluno c n s dn dm p) conn =
     outcome (create_aluno conn c n s dn dm p)"
| "exec_stmt age_ok today (Update_aluno m c n s dn dm p) conn =
     outcome (update_aluno conn m c n s dn dm p)"
| "exec_stmt age_ok today (Delete_aluno m) conn = outcome (delete_aluno conn m)"
| "exec_stmt age_ok today (Create_contato_aluno m t e) conn =
     outcome (create_contato_aluno conn m t e)"
| "exec_stmt age_ok today (Create_contato_instrutor c t e) conn =
     outcome (create_contato_instrutor conn c t e)"
| "exec_stmt age_ok today (Update_contato_aluno m t e) conn =
     outcome (update_contato_aluno conn m t e)"
| "exec_stmt age_ok today (Update_contato_instrutor c t e) conn =
     outcome (update_contato_instrutor conn c t e)"
| "exec_stmt age_ok today (Create_bioimpedancia m p a t g q) conn =
     outcome (create_bioimpedancia conn m p a t g q)"
| "exec_stmt age_ok today (Update_bioimpedancia m p a t g q) conn =
     outcome (update_bioimpedancia conn m p a t g q)"
| "exec_stmt age_ok today (Delete_bioimpedancia m) conn = outcome (delete_bioimpedancia conn m)"
| "exec_stmt age_ok today (Create_instrutor c cp n dn da t) conn =
     outcome (create_instrutor (age_ok today) conn c cp n dn da t)"
| "exec_stmt age_ok today (Update_instrutor c cp n dn da t) conn =
     outcome (update_instrutor (age_ok today) conn c cp n dn da t)"
| "exec_stmt age_ok today (Delete_instrutor c) conn = outcome (delete_instrutor conn c)"
| "exec_stmt age_ok today (Atualizar_plano_aluno m p) conn =
     outcome (execute_query (atualizar_plano_aluno today conn m p))"

text \<open>The statements of a transaction run in order and stop at the first exception.\<close>

fun exec_stmts ::
  "(date \<Rightarrow> date \<Rightarrow> bool) \<Rightarrow> date \<Rightarrow> stmt list \<Rightarrow> db \<Rightarrow> error option \<times> db" where
  "exec_stmts age_ok today [] conn = (None, conn)"
| "exec_stmts age_ok today (s # ss) conn =
     (case exec_stmt age_ok today s conn of
        (Some e, conn') \<Rightarrow> (Some e, conn')
      | (None, conn') \<Rightarrow> exec_stmts age_ok today ss conn')"

text \<open>
  The committed state after a transaction: the working state when every statement
  succeeded (\<^verbatim>\<open>conn.commit()\<close>), the rolled-back state otherwise.
\<close>

definition run_transaction :: "(date \<Rightarrow> date \<Rightarrow> bool) \<Rightarrow> db \<Rightarrow> date \<times> stmt list \<Rightarrow> db" where
  "run_transaction age_ok committed tx =
     (case exec_stmts age_ok (fst tx) (snd tx) committed of
        (None, conn) \<Rightarrow> conn
      | (Some e, conn) \<Rightarrow> rollback committed conn)"

definition run_history :: "(date \<Rightarrow> date \<Rightarrow> bool) \<Rightarrow> db \<Rightarrow> (date \<times> stmt list) list \<Rightarrow> db" where
  "run_history age_ok committed txs = foldl (run_transaction age_ok) committed txs"


section \<open>Reading: the SELECT queries and helpers.py\<close>

text \<open>
  \<^verbatim>\<open>if matricula:\<close> treats \<^verbatim>\<open>None\<close> and \<^verbatim>\<open>0\<close> alike.  The truth value of a
  nullable text column (\<^verbatim>\<open>row[7] or row[8]\<close>) is false for \<^verbatim>\<open>None\<close> and for the
  empty string.
\<close>

definition given :: "int option \<Rightarrow> int option" where
  "given arg = (case arg of None \<Rightarrow> None | Some k \<Rightarrow> if k = 0 then None else Some k)"

definition truthy :: "string option \<Rightarrow> bool" where
  "truthy v = (case v of None \<Rightarrow> False | Some s \<Rightarrow> s \<noteq> [])"

text \<open>
  \<^verbatim>\<open>FROM aluno a LEFT JOIN contato_aluno c ON a.matricula = c.matricula\<close>: a student
  with no contact gives one row with \<^verbatim>\<open>NULL\<close> in the contact columns.  The rows of the
  listing are \<^verbatim>\<open>ORDER BY a.nome\<close>; the collation of the store is the parameter
  \<open>collate\<close>, a key whose order is the order of the names.
\<close>

definition aluno_left_join_contato ::
  "db \<Rightarrow> aluno_row \<Rightarrow> (aluno_row \<times> string option \<times> string option) list" where
  "aluno_left_join_contato conn a =
     (case filter (\<lambda>c. a_matricula a = c_matricula c) (contato_aluno conn) of
        [] \<Rightarrow> [(a, None, None)]
      | cs \<Rightarrow> map (\<lambda>c. (a, Some (c_telefone c), c_email c)) cs)"

definition read_aluno ::
  "(string \<Rightarrow> 'k::linorder) \<Rightarrow> db \<Rightarrow> int option \<Rightarrow>
     (aluno_row \<times> string option \<times> string option) list" where
  "read_aluno collate conn matricula' =
     (case given matricula' of
        Some k \<Rightarrow>
          concat (map (aluno_left_join_contato conn)
            (filter (\<lambda>a. a_matricula a = k) (aluno conn)))
      | None \<Rightarrow>
          sort_key (\<lambda>row. collate (a_nome (fst row)))
            (concat (map (aluno_left_join_contato conn) (aluno conn))))"











text \<open>
  The dictionaries of \<^verbatim>\<open>helpers.py\<close>.  A plan's and a measurement's dictionary have the
  keys of the row, so they are values of the row's record; \<^verbatim>\<open>float(...)\<close> changes the
  representation of a number, which the model does not have.  A student's and an
  instructor's dictionary hold the row and, under \<^verbatim>\<open>"contato"\<close>, the contact or
  \<^verbatim>\<open>None\<close>.
\<close>

record contato_dict =
  telefone :: "string option"
  email :: "string option"


definition contato_to_dict :: "string option \<Rightarrow> string option \<Rightarrow> contato_dict option" where
  "contato_to_dict tel mail =
     (if truthy tel \<or> truthy mail then Some \<lparr>telefone = tel, email = mail\<rparr> else None)"

definition aluno_to_dict ::
  "aluno_row \<times> string option \<times> string option \<Rightarrow> aluno_row \<times> contato_dict option" where
  "aluno_to_dict row =
     (case row of (a, tel, mail) \<Rightarrow> (a, contato_to_dict tel mail))"




section \<open>The endpoints of api.py\<close>

text \<open>
  An endpoint runs on the committed state of the store and returns its answer and the
  committed state after it.  \<^verbatim>\<open>raise HTTPException(status_code=400, detail=str(e))\<close> is
  the answer of every \<^verbatim>\<open>except Exception as e\<close> clause; the detail is the text of the
  exception, kept here as the exception itself (\<open>Of_http\<close> for the text of an
  \<^verbatim>\<open>HTTPException\<close> caught by such a clause).  The status of a successful answer is the
  one of the route's decorator (200, 201 on a creation, 204 on a deletion); what the
  \<^verbatim>\<open>response_model\<close> of the decorator does to the answer is \<open>response_model\<close>
  below.  The messages are written without their accents.
\<close>

datatype detail =
  Of_error error
  | Of_http int detail
  | Text string

datatype http_exception = HTTPException (status_code: int) (detail: detail)


subsection \<open>The models of schemas.py\<close>

text \<open>
  A pydantic model is modelled by its constructor: the value it builds from the fields it
  is given, or \<open>Inl ValidationError\<close> when a field breaks a constraint of the model.
  Validating a dictionary against a model is the constructor on the entries of the
  dictionary.

  The request body \<^verbatim>\<open>PlanoUpdate\<close> and the constructor of \<^verbatim>\<open>PlanoResponse\<close>.
  \<^verbatim>\<open>PlanoUpdate\<close> makes \<^verbatim>\<open>nome_plano\<close> and \<^verbatim>\<open>preco\<close>
  optional; \<^verbatim>\<open>PlanoResponse\<close> inherits them from \<^verbatim>\<open>PlanoBase\<close>, where they are
  required (\<^verbatim>\<open>Field(...)\<close>), so pydantic raises a \<^verbatim>\<open>ValidationError\<close> when one of
  them is \<^verbatim>\<open>None\<close>.  A response has the keys of the row and is a value of the row's
  record.
\<close>

record PlanoUpdate =
  upd_nome_plano :: "string option"
  upd_preco :: "numeric option"
  upd_descricao :: "string option"

definition valid_PlanoUpdate :: "PlanoUpdate \<Rightarrow> bool" where
  "valid_PlanoUpdate plano' =
     ((case upd_nome_plano plano' of None \<Rightarrow> True | Some n \<Rightarrow> length n \<le> 45)
      \<and> (case upd_preco plano' of None \<Rightarrow> True | Some p \<Rightarrow> p > 0)
      \<and> (case upd_descricao plano' of None \<Rightarrow> True | Some d \<Rightarrow> length d \<le> 180))"

definition PlanoResponse ::
  "int \<Rightarrow> string option \<Rightarrow> numeric option \<Rightarrow> string option \<Rightarrow> error + plano_row" where
  "PlanoResponse codigo_plano' nome_plano' preco' descricao' =
     (case (nome_plano', preco') of
        (Some n, Some p) \<Rightarrow>
          if length n \<le> 45 \<and> p > 0
             \<and> (case descricao' of None \<Rightarrow> True | Some d \<Rightarrow> length d \<le> 180)
          then Inr \<lparr>codigo_plano = codigo_plano', nome_plano = n, preco = p,
                    descricao = descricao'\<rparr>
          else Inl ValidationError
      | _ \<Rightarrow> Inl ValidationError)"


text \<open>
  \<^verbatim>\<open>ContatoBase\<close>: the telephone is required, has at most 15 characters and matches
  \<^verbatim>\<open>^\(\d{2}\)\d{4,5}-\d{4}$\<close>; the e-mail is an \<^verbatim>\<open>Optional[EmailStr]\<close>.  pydantic
  matches a pattern with the regular expressions of Rust, whose \<^verbatim>\<open>$\<close> is the end of the
  text; among the characters of the model \<^verbatim>\<open>\d\<close> is one of the ten digits.
  \<^verbatim>\<open>EmailStr\<close> belongs to the library \<^verbatim>\<open>email-validator\<close>: it rejects a text, or
  accepts it and gives the address in its normal form, which is the value of the field.
  It is the parameter \<open>EmailStr\<close>.
\<close>

definition digit :: "char \<Rightarrow> bool" where
  "digit c = (c \<in> set ''0123456789'')"

definition telefone_pattern :: "string \<Rightarrow> bool" where
  "telefone_pattern s =
     (case s of
        a # d1 # d2 # b # rest \<Rightarrow>
          a = CHR ''('' \<and> digit d1 \<and> digit d2 \<and> b = CHR '')''
          \<and> (length rest = 9 \<or> length rest = 10)
          \<and> list_all digit (take (length rest - 5) rest)
          \<and> rest ! (length rest - 5) = CHR ''-''
          \<and> list_all digit (drop (length rest - 4) rest)
      | _ \<Rightarrow> False)"

definition ContatoBase ::
  "(string \<Rightarrow> string option) \<Rightarrow> string option \<Rightarrow> string option \<Rightarrow> error + contato_dict" where
  "ContatoBase EmailStr telefone' email' =
     (case telefone' of
        None \<Rightarrow> Inl ValidationError
      | Some t \<Rightarrow>
          if length t \<le> 15 \<and> telefone_pattern t
          then (case email' of
                  None \<Rightarrow> Inr \<lparr>telefone = Some t, email = None\<rparr>
                | Some e \<Rightarrow>
                    (case EmailStr e of
                       None \<Rightarrow> Inl ValidationError
                     | Some normalized \<Rightarrow> Inr \<lparr>telefone = Some t, email = Some normalized\<rparr>))
          else Inl ValidationError)"

text \<open>
  A field \<^verbatim>\<open>contato: Optional[ContatoBase]\<close> given the dictionary of a contact, or
  \<^verbatim>\<open>None\<close>.
\<close>

definition Optional_ContatoBase ::
  "(string \<Rightarrow> string option) \<Rightarrow> contato_dict option \<Rightarrow> error + contato_dict option" where
  "Optional_ContatoBase EmailStr contato' =
     (case contato' of
        None \<Rightarrow> Inr None
      | Some c \<Rightarrow>
          (case ContatoBase EmailStr (telefone c) (email c) of
             Inl e \<Rightarrow> Inl e
           | Inr contato \<Rightarrow> Inr (Some contato)))"

text \<open>
  \<^verbatim>\<open>AlunoResponse\<close> is \<^verbatim>\<open>AlunoBase\<close> with the \<^verbatim>\<open>matricula\<close> and the optional
  contact: a \<^verbatim>\<open>cpf\<close> of 11 characters that matches \<^verbatim>\<open>^\d{11}$\<close>, a name of at most
  45 characters, a \<^verbatim>\<open>sexo\<close> of \<^verbatim>\<open>SexoEnum\<close>.
\<close>

definition SexoEnum :: "string set" where
  "SexoEnum = {''M'', ''F''}"

definition AlunoResponse ::
  "(string \<Rightarrow> string option) \<Rightarrow> aluno_row \<times> contato_dict option \<Rightarrow>
     error + aluno_row \<times> contato_dict option" where
  "AlunoResponse EmailStr aluno' =
     (case aluno' of (a, contato') \<Rightarrow>
        if length (a_cpf a) = 11 \<and> list_all digit (a_cpf a) \<and> length (a_nome a) \<le> 45
           \<and> a_sexo a \<in> SexoEnum
        then (case Optional_ContatoBase EmailStr contato' of
                Inl e \<Rightarrow> Inl e
              | Inr contato \<Rightarrow> Inr (a, contato))
        else Inl ValidationError)"








text \<open>
  The \<^verbatim>\<open>response_model\<close> of a route's decorator.  FastAPI validates what the endpoint
  returns against the model and sends the validated value.  It does so after the endpoint
  has returned, outside the \<^verbatim>\<open>try\<close> of the endpoint: a value the model rejects is a
  \<^verbatim>\<open>ResponseValidationError\<close>, which no handler of the application catches, and the
  client gets the answer 500, written here as an \<open>HTTPException\<close> too.  An exception of
  the endpoint passes through.  A value that is an instance of the model already, as
  \<^verbatim>\<open>atualizar_plano\<close> and \<^verbatim>\<open>listar_turmas\<close> return, is what the constructor
  accepted and is sent as it is: its model is \<open>Inr\<close>.
\<close>

definition Internal_Server_Error :: http_exception where
  "Internal_Server_Error = HTTPException 500 (Text ''Internal Server Error'')"

definition response_model ::
  "('a \<Rightarrow> error + 'b) \<Rightarrow> http_exception + 'a \<Rightarrow> http_exception + 'b" where
  "response_model model answer =
     (case answer of
        Inl e \<Rightarrow> Inl e
      | Inr content \<Rightarrow>
          (case model content of
             Inl e \<Rightarrow> Inl Internal_Server_Error
           | Inr validated \<Rightarrow> Inr validated))"

subsection \<open>Listings\<close>







subsection \<open>Planos\<close>

text \<open>
  \<^verbatim>\<open>atualizar_plano\<close>: the update, the commit, and then the response built from the path
  parameter and \<^verbatim>\<open>plano.model_dump()\<close>.  The constructor runs inside the \<^verbatim>\<open>try\<close>,
  after the commit.
\<close>

definition atualizar_plano :: "db \<Rightarrow> int \<Rightarrow> PlanoUpdate \<Rightarrow> (http_exception + plano_row) \<times> db" where
  "atualizar_plano committed codigo_plano' plano' =
     (case update_plano committed codigo_plano' (upd_nome_plano plano') (upd_preco plano')
             (upd_descricao plano') of
        (Inl e, conn) \<Rightarrow> (Inl (HTTPException 400 (Of_error e)), rollback committed conn)
      | (Inr _, conn) \<Rightarrow>
          (case PlanoResponse codigo_plano' (upd_nome_plano plano') (upd_preco plano')
                  (upd_descricao plano') of
             Inl e \<Rightarrow> (Inl (HTTPException 400 (Of_error e)), conn)
           | Inr response \<Rightarrow> (Inr response, conn)))"


subsection \<open>Deletions\<close>

text \<open>
  The six deleting endpoints: the \<^verbatim>\<open>DELETE\<close>, the commit and the message.  None of
  them looks at the number of rows the statement deleted.
\<close>

definition deletar_plano :: "db \<Rightarrow> int \<Rightarrow> (http_exception + string) \<times> db" where
  "deletar_plano committed codigo_plano' =
     (case delete_plano committed codigo_plano' of
        (Inl e, conn) \<Rightarrow> (Inl (HTTPException 400 (Of_error e)), rollback committed conn)
      | (Inr _, conn) \<Rightarrow> (Inr ''Plano deletado com sucesso'', conn))"

definition deletar_aluno :: "db \<Rightarrow> int \<Rightarrow> (http_exception + string) \<times> db" where
  "deletar_aluno committed matricula' =
     (case delete_aluno committed matricula' of
        (Inl e, conn) \<Rightarrow> (Inl (HTTPException 400 (Of_error e)), rollback committed conn)
      | (Inr _, conn) \<Rightarrow> (Inr ''Aluno deletado com sucesso'', conn))"

definition deletar_bioimpedancia :: "db \<Rightarrow> int \<Rightarrow> (http_exception + string) \<times> db" where
  "deletar_bioimpedancia committed matricula' =
     (case delete_bioimpedancia committed matricula' of
        (Inl e, conn) \<Rightarrow> (Inl (HTTPException 400 (Of_error e)), rollback committed conn)
      | (Inr _, conn) \<Rightarrow> (Inr ''Medicao deletada com sucesso'', conn))"

definition deletar_instrutor :: "db \<Rightarrow> int \<Rightarrow> (http_exception + string) \<times> db" where
  "deletar_instrutor committed cref' =
     (case delete_instrutor committed cref' of
        (Inl e, conn) \<Rightarrow> (Inl (HTTPException 400 (Of_error e)), rollback committed conn)
      | (Inr _, conn) \<Rightarrow> (Inr ''Instrutor deletado com sucesso'', conn))"

definition deletar_turma :: "db \<Rightarrow> int \<Rightarrow> (http_exception + string) \<times> db" where
  "deletar_turma committed id_turma' =
     (case delete_turma committed id_turma' of
        (Inl e, conn) \<Rightarrow> (Inl (HTTPException 400 (Of_error e)), rollback committed conn)
      | (Inr _, conn) \<Rightarrow> (Inr ''Turma deletada com sucesso'', conn))"

definition remover_aluno_turma :: "db \<Rightarrow> int \<Rightarrow> int \<Rightarrow> (http_exception + string) \<times> db" where
  "remover_aluno_turma committed id_turma' matricula' =
     (case delete_matricula_turma committed id_turma' matricula' of
        (Inl e, conn) \<Rightarrow> (Inl (HTTPException 400 (Of_error e)), rollback committed conn)
      | (Inr _, conn) \<Rightarrow> (Inr ''Aluno removido da turma com sucesso'', conn))"

subsection \<open>Matricular um aluno; atualizar um aluno\<close>

definition matricular_aluno_turma :: "db \<Rightarrow> int \<Rightarrow> int \<Rightarrow> (http_exception + string) \<times> db" where
  "matricular_aluno_turma committed id_turma' matricula' =
     (case create_matricula_turma committed id_turma' matricula' of
        (Inl e, conn) \<Rightarrow> (Inl (HTTPException 400 (Of_error e)), rollback committed conn)
      | (Inr _, conn) \<Rightarrow> (Inr ''Aluno matriculado com sucesso'', conn))"

text \<open>
  \<^verbatim>\<open>buscar_aluno\<close> as the function that \<^verbatim>\<open>atualizar_aluno\<close> calls: the dictionary
  of the student, or the 404.  A call of the function does not go through the
  \<^verbatim>\<open>response_model\<close> of its route.
\<close>

definition buscar_aluno ::
  "(string \<Rightarrow> 'k::linorder) \<Rightarrow> db \<Rightarrow> int \<Rightarrow> http_exception + aluno_row \<times> contato_dict option" where
  "buscar_aluno collate conn matricula' =
     (case read_aluno collate conn (Some matricula') of
        [] \<Rightarrow> Inl (HTTPException 404 (Text ''Aluno nao encontrado''))
      | row # _ \<Rightarrow> Inr (aluno_to_dict row))"

text \<open>
  The request body \<^verbatim>\<open>AlunoUpdate\<close>; its fields have no constraint, and its
  \<^verbatim>\<open>contato\<close> is a \<^verbatim>\<open>ContatoBase\<close>, whose \<^verbatim>\<open>telefone\<close> is required.
  \<^verbatim>\<open>atualizar_aluno\<close> passes the fields to \<^verbatim>\<open>update_aluno\<close> as they are, the
  plan among them, commits, and answers with \<^verbatim>\<open>buscar_aluno\<close>, whose 404 the
  \<^verbatim>\<open>except\<close> clause turns into a 400.  The route's \<^verbatim>\<open>response_model\<close> is
  \<^verbatim>\<open>AlunoResponse\<close>; it validates the dictionary after the commit.
\<close>

record AlunoUpdate =
  upd_cpf :: "string option"
  upd_nome :: "string option"
  upd_sexo :: "string option"
  upd_data_nascimento :: "date option"
  upd_data_matricula :: "date option"
  upd_codigo_plano :: "int option"
  upd_contato :: "(string \<times> string option) option"

definition atualizar_aluno ::
  "(string \<Rightarrow> string option) \<Rightarrow> (string \<Rightarrow> 'k::linorder) \<Rightarrow> db \<Rightarrow> int \<Rightarrow> AlunoUpdate \<Rightarrow>
     (http_exception + aluno_row \<times> contato_dict option) \<times> db" where
  "atualizar_aluno EmailStr collate committed matricula' aluno' =
     apfst (response_model (AlunoResponse EmailStr))
       (case update_aluno committed matricula' (upd_cpf aluno') (upd_nome aluno')
               (upd_sexo aluno') (upd_data_nascimento aluno') (upd_data_matricula aluno')
               (upd_codigo_plano aluno') of
          (Inl e, conn) \<Rightarrow> (Inl (HTTPException 400 (Of_error e)), rollback committed conn)
        | (Inr _, conn) \<Rightarrow>
            (case (case upd_contato aluno' of
                     None \<Rightarrow> (Inr (), conn)
                   | Some (telefone', email') \<Rightarrow>
                       update_contato_aluno conn matricula' (Some telefone') email') of
               (Inl e, conn') \<Rightarrow> (Inl (HTTPException 400 (Of_error e)), rollback committed conn')
             | (Inr _, conn') \<Rightarrow>
                 (case buscar_aluno collate conn' matricula' of
                    Inl (HTTPException status d) \<Rightarrow>
                      (Inl (HTTPException 400 (Of_http status d)), conn')
                  | Inr response \<Rightarrow> (Inr response, conn'))))"


section \<open>Properties of a state of the store\<close>

text \<open>
  The seats of a class: no class has more enrolments than \<^verbatim>\<open>quantidade_vagas\<close>.
\<close>

definition within_capacity :: "db \<Rightarrow> bool" where
  "within_capacity conn =
     (\<forall>t \<in> set (turma conn). alunos_matriculados conn (id_turma t) \<le> quantidade_vagas t)"

text \<open>
  The seven foreign keys of the schema: no row references a parent that is not there.
\<close>

definition foreign_keys_hold :: "db \<Rightarrow> bool" where
  "foreign_keys_hold conn =
     ((\<forall>a \<in> set (aluno conn). a_codigo_plano a \<in> set (map codigo_plano (plano conn)))
      \<and> (\<forall>c \<in> set (contato_aluno conn). c_matricula c \<in> set (map a_matricula (aluno conn)))
      \<and> (\<forall>b \<in> set (bioimpedancia conn). b_matricula b \<in> set (map a_matricula (aluno conn)))
      \<and> (\<forall>c \<in> set (contato_instrutor conn). ci_cref c \<in> set (map i_cref (instrutor conn)))
      \<and> (\<forall>t \<in> set (turma conn). t_cref t \<in> set (map i_cref (instrutor conn)))
      \<and> (\<forall>e \<in> set (turma_instrutor_aluno conn).
            tia_id_turma e \<in> set (map id_turma (turma conn))
            \<and> tia_matricula e \<in> set (map a_matricula (aluno conn))))"

text \<open>The primary keys of the tables whose key the statements select by.\<close>

definition primary_keys_hold :: "db \<Rightarrow> bool" where
  "primary_keys_hold conn =
     (distinct (map codigo_plano (plano conn))
      \<and> distinct (map a_matricula (aluno conn))
      \<and> distinct (map c_telefone (contato_aluno conn))
      \<and> distinct (map b_matricula (bioimpedancia conn))
      \<and> distinct (map i_cref (instrutor conn))
      \<and> distinct (map ci_telefone (contato_instrutor conn))
      \<and> distinct (map id_turma (turma conn))
      \<and> distinct (turma_instrutor_aluno conn))"

text \<open>
  What the store keeps about the seats: the classes have distinct ids, every enrolment is
  in a class that exists, and no class is over its capacity.
\<close>

definition seats_invariant :: "db \<Rightarrow> bool" where
  "seats_invariant conn =
     (distinct (map id_turma (turma conn))
      \<and> (\<forall>e \<in> set (turma_instrutor_aluno conn).
            tia_id_turma e \<in> set (map id_turma (turma conn)))
      \<and> within_capacity conn)"





text \<open>
  A statement keeps the seats when it is not an update of a class that sets
  \<^verbatim>\<open>quantidade_vagas\<close> below the number of students enrolled in the class; a history
  keeps the seats when every statement it runs does, in the state it runs in.
\<close>

definition keeps_capacity :: "db \<Rightarrow> stmt \<Rightarrow> bool" where
  "keeps_capacity conn s =
     (case s of
        Update_turma k n (Some v) t c \<Rightarrow> alunos_matriculados conn k \<le> v
      | _ \<Rightarrow> True)"

fun stmts_keep_capacity ::
  "(date \<Rightarrow> date \<Rightarrow> bool) \<Rightarrow> date \<Rightarrow> stmt list \<Rightarrow> db \<Rightarrow> bool" where
  "stmts_keep_capacity age_ok today [] conn = True"
| "stmts_keep_capacity age_ok today (s # ss) conn =
     (keeps_capacity conn s \<and>
      (case exec_stmt age_ok today s conn of
         (Some e, conn') \<Rightarrow> True
       | (None, conn') \<Rightarrow> stmts_keep_capacity age_ok today ss conn'))"

fun history_keeps_capacity ::
  "(date \<Rightarrow> date \<Rightarrow> bool) \<Rightarrow> db \<Rightarrow> (date \<times> stmt list) list \<Rightarrow> bool" where
  "history_keeps_capacity age_ok committed [] = True"
| "history_keeps_capacity age_ok committed (tx # txs) =
     (stmts_keep_capacity age_ok (fst tx) (snd tx) committed \<and>
      history_keeps_capacity age_ok (run_transaction age_ok committed tx) txs)"

section \<open>An example gym\<close>

text \<open>
  An instance of the age check for the examples (it compares the years only), and a
  history of nine transactions, each the statements of one endpoint: two plans, an
  instructor with a contact, a class of two seats, two students with their contacts, a
  measurement of the first student, and the two students enrolled in the class.
\<close>

definition age_by_year :: "date \<Rightarrow> date \<Rightarrow> bool" where
  "age_by_year today birth = (year birth + 18 < year today)"

text \<open>
  An instance of \<open>EmailStr\<close> for the examples: a text is an address when it has an
  \<open>@\<close> and no space, and is its own normal form.
\<close>

definition address_with_at :: "string \<Rightarrow> string option" where
  "address_with_at e = (if CHR ''@'' \<in> set e \<and> CHR '' '' \<notin> set e then Some e else None)"

definition gym_history :: "(date \<times> stmt list) list" where
  "gym_history =
     [(Date 2024 3 1, [Create_plano ''Basic'' 50 None]),
      (Date 2024 3 1, [Create_plano ''Premium'' 100 (Some ''Todas as modalidades'')]),
      (Date 2024 3 1,
         [Create_instrutor 123456 ''12345678901'' ''Jose Santos'' (Date 1985 1 1)
            (Date 2024 1 1) ''Noite'',
          Create_contato_instrutor 123456 ''(11)99999-9999'' None]),
      (Date 2024 3 2, [Create_turma ''Yoga'' 2 ''Noite'' 123456]),
      (Date 2024 3 2,
         [Create_aluno ''11111111111'' ''Ana'' ''F'' (Date 2000 1 1) (Date 2024 3 2) 1,
          Create_contato_aluno 1 ''(11)98888-0001'' None]),
      (Date 2024 3 2,
         [Create_aluno ''22222222222'' ''Bruno'' ''M'' (Date 1999 5 5) (Date 2024 3 2) 2,
          Create_contato_aluno 2 ''(11)98888-0002'' (Some ''bruno@exemplo.com'')]),
      (Date 2024 3 2, [Create_bioimpedancia 1 (141 / 2) (7 / 4) 1800 (31 / 2) (301 / 5)]),
      (Date 2024 3 3, [Create_matricula_turma 1 1]),
      (Date 2024 3 3, [Create_matricula_turma 1 2])]"

definition gym :: db where
  "gym =
     \<lparr>plano =
        [\<lparr>codigo_plano = 1, nome_plano = ''Basic'', preco = 50, descricao = None\<rparr>,
         \<lparr>codigo_plano = 2, nome_plano = ''Premium'', preco = 100,
          descricao = Some ''Todas as modalidades''\<rparr>],
      aluno =
        [\<lparr>a_matricula = 1, a_cpf = ''11111111111'', a_nome = ''Ana'', a_sexo = ''F'',
          a_data_nascimento = Date 2000 1 1, a_data_matricula = Date 2024 3 2,
          a_codigo_plano = 1\<rparr>,
         \<lparr>a_matricula = 2, a_cpf = ''22222222222'', a_nome = ''Bruno'', a_sexo = ''M'',
          a_data_nascimento = Date 1999 5 5, a_data_matricula = Date 2024 3 2,
          a_codigo_plano = 2\<rparr>],
      contato_aluno =
        [\<lparr>c_telefone = ''(11)98888-0001'', c_email = None, c_matricula = 1\<rparr>,
         \<lparr>c_telefone = ''(11)98888-0002'', c_email = Some ''bruno@exemplo.com'',
          c_matricula = 2\<rparr>],
      bioimpedancia =
        [\<lparr>b_matricula = 1, peso = 141 / 2, altura = 7 / 4, tmb = 1800,
          percentual_gordura = 31 / 2, quantidade_agua = 301 / 5\<rparr>],
      instrutor =
        [\<lparr>i_cref = 123456, i_cpf = ''12345678901'', i_nome = ''Jose Santos'',
          i_data_nascimento = Date 1985 1 1, i_data_admissao = Date 2024 1 1,
          i_turno = ''Noite''\<rparr>],
      contato_instrutor =
        [\<lparr>ci_telefone = ''(11)99999-9999'', ci_email = None, ci_cref = 123456\<rparr>],
      turma =
        [\<lparr>id_turma = 1, nome_atividade = ''Yoga'', quantidade_vagas = 2, t_turno = ''Noite'',
          t_cref = 123456\<rparr>],
      turma_instrutor_aluno =
        [\<lparr>tia_id_turma = 1, tia_matricula = 1\<rparr>, \<lparr>tia_id_turma = 1, tia_matricula = 2\<rparr>],
      plano_codigo_plano_seq = 2, aluno_matricula_seq = 2, turma_id_turma_seq = 1\<rparr>"

text \<open>The gym before the second enrolment: the class has one seat left.\<close>

definition gym_one_seat :: db where
  "gym_one_seat = gym\<lparr>turma_instrutor_aluno := [\<lparr>tia_id_turma = 1, tia_matricula = 1\<rparr>]\<rparr>"


section \<open>Lemmas\<close>

lemmas query_defs = create_plano_def update_plano_def delete_plano_def create_turma_def
  update_turma_def delete_turma_def create_matricula_turma_def delete_matricula_turma_def
  create_aluno_def update_aluno_def sql_update_aluno_def delete_aluno_def
  create_contato_aluno_def create_contato_instrutor_def update_contato_aluno_def
  update_contato_instrutor_def create_bioimpedancia_def update_bioimpedancia_def
  delete_bioimpedancia_def create_instrutor_def update_instrutor_def delete_instrutor_def
  atualizar_plano_aluno_def execute_query_def insert_turma_instrutor_aluno_def
  verificar_vagas_turma_def alunos_matriculados_def first_row_def cascade_aluno_def
  cascade_turma_def update_where_def assign_def outcome_def rollback_def

text \<open>A key that is a primary key selects one row, a key that is not there selects none.\<close>

lemma filter_key_unique:
  "distinct (map f xs) \<Longrightarrow> x \<in> set xs \<Longrightarrow> filter (\<lambda>y. f y = f x) xs = [x]"
proof (induction xs)
  case Nil
  then show ?case by simp
next
  case (Cons a xs)
  show ?case
  proof (cases "a = x")
    case True
    have "f x \<notin> f ` set xs" using Cons.prems True by simp
    then have "\<forall>y \<in> set xs. f y \<noteq> f x" by (metis image_eqI)
    then have "filter (\<lambda>y. f y = f x) xs = []"
      by (simp add: filter_empty_conv)
    then show ?thesis using True by simp
  next
    case False
    then have "x \<in> set xs" using Cons.prems by simp
    moreover have "f a \<noteq> f x" using Cons.prems \<open>x \<in> set xs\<close> by auto
    ultimately show ?thesis using Cons by simp
  qed
qed

lemma filter_key_absent:
  "k \<notin> set (map f xs) \<Longrightarrow> filter (\<lambda>y. f y = k) xs = []"
  by (auto simp: filter_empty_conv)

lemma snd_outcome: "snd (outcome r) = snd r"
  by (cases r) (auto simp: outcome_def split: sum.splits)

lemma snd_execute_query: "snd (execute_query r) = snd r"
  by (cases r) (auto simp: execute_query_def split: sum.splits)

lemma key_eq:
  "distinct (map f xs) \<Longrightarrow> x \<in> set xs \<Longrightarrow> y \<in> set xs \<Longrightarrow> f x = f y \<Longrightarrow> x = y"
  by (simp add: distinct_map inj_on_def)

lemma map_update_where:
  "(\<And>r. g (f r) = g r) \<Longrightarrow> map g (update_where P f rows) = map g rows"
  by (simp add: update_where_def)

text \<open>Deleting by a key that is not there deletes nothing, and cascades to nothing.\<close>

lemma filter_neq_absent: "k \<notin> set (map f xs) \<Longrightarrow> filter (\<lambda>y. f y \<noteq> k) xs = xs"
  by (induction xs) auto

lemma cascade_aluno_none:
  "\<forall>a \<in> set (aluno conn). \<not> dead a \<Longrightarrow> cascade_aluno dead conn = conn"
proof -
  assume a: "\<forall>a \<in> set (aluno conn). \<not> dead a"
  then have "filter dead (aluno conn) = []" by (simp add: filter_empty_conv)
  moreover have "filter (\<lambda>a. \<not> dead a) (aluno conn) = aluno conn" using a by simp
  ultimately show ?thesis by (simp add: cascade_aluno_def)
qed

lemma cascade_turma_none:
  "\<forall>t \<in> set (turma conn). \<not> dead t \<Longrightarrow> cascade_turma dead conn = conn"
proof -
  assume a: "\<forall>t \<in> set (turma conn). \<not> dead t"
  then have "filter dead (turma conn) = []" by (simp add: filter_empty_conv)
  moreover have "filter (\<lambda>a. \<not> dead a) (turma conn) = turma conn" using a by simp
  ultimately show ?thesis by (simp add: cascade_turma_def)
qed

text \<open>The example history builds the example gym, and without its last transaction the gym
  with one seat left.\<close>

lemma gym_reached: "run_history age_by_year init_database gym_history = gym"
  by (simp add: run_history_def run_transaction_def gym_history_def gym_def init_database_def
      age_by_year_def query_defs)

lemma gym_one_seat_reached:
  "run_history age_by_year init_database (butlast gym_history) = gym_one_seat"
  by (simp add: run_history_def run_transaction_def gym_history_def gym_def gym_one_seat_def
      init_database_def age_by_year_def query_defs)

section \<open>The seats of a class\<close>

subsection \<open>Every statement keeps the seats, unless it lowers the capacity\<close>

lemma seats_invariant_cong:
  "turma conn' = turma conn \<Longrightarrow> turma_instrutor_aluno conn' = turma_instrutor_aluno conn \<Longrightarrow>
   seats_invariant conn' = seats_invariant conn"
  by (simp add: seats_invariant_def within_capacity_def alunos_matriculados_def)

lemma length_filter_conj_le:
  "length (filter (\<lambda>x. P x \<and> Q x) xs) \<le> length (filter Q xs)"
  by (induction xs) auto

lemma length_filter_filter_le:
  "length (filter Q (filter P xs)) \<le> length (filter Q xs)"
  by (simp add: length_filter_conj_le)

lemma seats_invariant_filter:
  assumes "seats_invariant conn" "turma conn' = turma conn"
    "turma_instrutor_aluno conn' = filter P (turma_instrutor_aluno conn)"
  shows "seats_invariant conn'"
proof -
  have "alunos_matriculados conn' k \<le> alunos_matriculados conn k" for k
    unfolding alunos_matriculados_def assms(3) using length_filter_filter_le by fastforce
  then have "within_capacity conn'"
    using assms(1,2) unfolding seats_invariant_def within_capacity_def
    by (metis order_trans)
  then show ?thesis
    using assms unfolding seats_invariant_def by auto
qed

lemma seats_invariant_cascade_turma:
  assumes "seats_invariant conn"
  shows "seats_invariant (cascade_turma dead conn)"
proof -
  let ?gone = "set (map id_turma (filter dead (turma conn)))"
  let ?c = "cascade_turma dead conn"
  have tu: "turma ?c = filter (\<lambda>t. \<not> dead t) (turma conn)"
    and ti: "turma_instrutor_aluno ?c =
      filter (\<lambda>e. tia_id_turma e \<notin> ?gone) (turma_instrutor_aluno conn)"
    by (simp_all add: cascade_turma_def Let_def)
  have d: "distinct (map id_turma (turma conn))"
    using assms by (simp add: seats_invariant_def)
  have alive: "id_turma t \<notin> ?gone" if "t \<in> set (turma conn)" "\<not> dead t" for t
  proof
    assume "id_turma t \<in> ?gone"
    then obtain u where u: "u \<in> set (turma conn)" "dead u" "id_turma u = id_turma t" by auto
    then have "u = t" using d that(1) by (meson distinct_map inj_onD)
    then show False using u that by simp
  qed
  have 1: "distinct (map id_turma (turma ?c))"
    using d by (simp add: tu distinct_map_filter)
  have 2: "\<forall>e \<in> set (turma_instrutor_aluno ?c). tia_id_turma e \<in> set (map id_turma (turma ?c))"
  proof
    fix e assume e: "e \<in> set (turma_instrutor_aluno ?c)"
    then have e1: "e \<in> set (turma_instrutor_aluno conn)" and e2: "tia_id_turma e \<notin> ?gone"
      by (simp_all add: ti)
    from e1 obtain t where t: "t \<in> set (turma conn)" "id_turma t = tia_id_turma e"
      using assms by (auto simp: seats_invariant_def)
    have "\<not> dead t"
    proof
      assume "dead t"
      then have "id_turma t \<in> ?gone" using t(1) by force
      then show False using e2 t(2) by simp
    qed
    then show "tia_id_turma e \<in> set (map id_turma (turma ?c))"
      using t by (force simp: tu)
  qed
  have 3: "within_capacity ?c"
    unfolding within_capacity_def
  proof
    fix t assume "t \<in> set (turma ?c)"
    then have t: "t \<in> set (turma conn)" "\<not> dead t" by (simp_all add: tu)
    have "alunos_matriculados ?c (id_turma t) \<le> alunos_matriculados conn (id_turma t)"
      unfolding alunos_matriculados_def ti using length_filter_filter_le by fastforce
    moreover have "alunos_matriculados conn (id_turma t) \<le> quantidade_vagas t"
      using assms t(1) by (simp add: seats_invariant_def within_capacity_def)
    ultimately show "alunos_matriculados ?c (id_turma t) \<le> quantidade_vagas t" by simp
  qed
  show ?thesis using 1 2 3 by (simp add: seats_invariant_def)
qed


lemma frame_create_plano:
  "turma (snd (create_plano conn n p d)) = turma conn
   \<and> turma_instrutor_aluno (snd (create_plano conn n p d)) = turma_instrutor_aluno conn"
  by (simp add: create_plano_def snd_execute_query Let_def)

lemma frame_update_plano:
  "turma (snd (update_plano conn k n p d)) = turma conn
   \<and> turma_instrutor_aluno (snd (update_plano conn k n p d)) = turma_instrutor_aluno conn"
  by (simp add: update_plano_def snd_execute_query)

lemma frame_create_aluno:
  "turma (snd (create_aluno conn c n s dn dm p)) = turma conn
   \<and> turma_instrutor_aluno (snd (create_aluno conn c n s dn dm p)) = turma_instrutor_aluno conn"
  by (simp add: create_aluno_def snd_execute_query Let_def)

lemma frame_sql_update_aluno:
  "turma (snd (sql_update_aluno conn m c n s dn dm p)) = turma conn
   \<and> turma_instrutor_aluno (snd (sql_update_aluno conn m c n s dn dm p)) =
       turma_instrutor_aluno conn"
  by (simp add: sql_update_aluno_def Let_def)

lemma frame_update_aluno:
  "turma (snd (update_aluno conn m c n s dn dm p)) = turma conn
   \<and> turma_instrutor_aluno (snd (update_aluno conn m c n s dn dm p)) = turma_instrutor_aluno conn"
  by (simp add: update_aluno_def snd_execute_query frame_sql_update_aluno)

lemma frame_create_contato_aluno:
  "turma (snd (create_contato_aluno conn m t e)) = turma conn
   \<and> turma_instrutor_aluno (snd (create_contato_aluno conn m t e)) = turma_instrutor_aluno conn"
  by (simp add: create_contato_aluno_def snd_execute_query)

lemma frame_create_contato_instrutor:
  "turma (snd (create_contato_instrutor conn m t e)) = turma conn
   \<and> turma_instrutor_aluno (snd (create_contato_instrutor conn m t e)) =
       turma_instrutor_aluno conn"
  by (simp add: create_contato_instrutor_def snd_execute_query)

lemma frame_update_contato_aluno:
  "turma (snd (update_contato_aluno conn m t e)) = turma conn
   \<and> turma_instrutor_aluno (snd (update_contato_aluno conn m t e)) = turma_instrutor_aluno conn"
  by (simp add: update_contato_aluno_def snd_execute_query Let_def)

lemma frame_update_contato_instrutor:
  "turma (snd (update_contato_instrutor conn m t e)) = turma conn
   \<and> turma_instrutor_aluno (snd (update_contato_instrutor conn m t e)) =
       turma_instrutor_aluno conn"
  by (simp add: update_contato_instrutor_def snd_execute_query Let_def)

lemma frame_create_bioimpedancia:
  "turma (snd (create_bioimpedancia conn m p a t g q)) = turma conn
   \<and> turma_instrutor_aluno (snd (create_bioimpedancia conn m p a t g q)) =
       turma_instrutor_aluno conn"
  by (simp add: create_bioimpedancia_def snd_execute_query)

lemma frame_update_bioimpedancia:
  "turma (snd (update_bioimpedancia conn m p a t g q)) = turma conn
   \<and> turma_instrutor_aluno (snd (update_bioimpedancia conn m p a t g q)) =
       turma_instrutor_aluno conn"
  by (simp add: update_bioimpedancia_def snd_execute_query)

lemma frame_delete_bioimpedancia:
  "turma (snd (delete_bioimpedancia conn m)) = turma conn
   \<and> turma_instrutor_aluno (snd (delete_bioimpedancia conn m)) = turma_instrutor_aluno conn"
  by (simp add: delete_bioimpedancia_def snd_execute_query)

lemma frame_create_instrutor:
  "turma (snd (create_instrutor adult conn c cp n dn da t)) = turma conn
   \<and> turma_instrutor_aluno (snd (create_instrutor adult conn c cp n dn da t)) =
       turma_instrutor_aluno conn"
  by (simp add: create_instrutor_def snd_execute_query)

lemma frame_update_instrutor:
  "turma (snd (update_instrutor adult conn c cp n dn da t)) = turma conn
   \<and> turma_instrutor_aluno (snd (update_instrutor adult conn c cp n dn da t)) =
       turma_instrutor_aluno conn"
  by (simp add: update_instrutor_def snd_execute_query Let_def)

lemma frame_atualizar_plano_aluno:
  "turma (snd (atualizar_plano_aluno today conn m p)) = turma conn
   \<and> turma_instrutor_aluno (snd (atualizar_plano_aluno today conn m p)) =
       turma_instrutor_aluno conn"
proof -
  obtain r c where rc: "sql_update_aluno conn m None None None None (Some today) (Some p) = (r, c)"
    by (cases "sql_update_aluno conn m None None None None (Some today) (Some p)") auto
  have "turma c = turma conn \<and> turma_instrutor_aluno c = turma_instrutor_aluno conn"
    using frame_sql_update_aluno[of conn m None None None None "Some today" "Some p"] rc by simp
  then show ?thesis
    by (cases r) (simp_all add: atualizar_plano_aluno_def Let_def rc)
qed


lemma seats_cascade_aluno:
  "seats_invariant conn \<Longrightarrow> seats_invariant (cascade_aluno dead conn)"
  by (rule seats_invariant_filter[where P = "\<lambda>e. tia_matricula e \<notin>
        set (map a_matricula (filter dead (aluno conn)))"])
     (simp_all add: cascade_aluno_def Let_def)

lemma seats_delete_plano:
  "seats_invariant conn \<Longrightarrow> seats_invariant (snd (delete_plano conn k))"
proof -
  assume a: "seats_invariant conn"
  have "seats_invariant (if k \<in> set (map codigo_plano (plano conn))
         then cascade_aluno (\<lambda>a. a_codigo_plano a = k) conn else conn)"
    using a by (simp add: seats_cascade_aluno)
  then show ?thesis
    by (simp add: delete_plano_def snd_execute_query
        seats_invariant_cong[of "_\<lparr>plano := _\<rparr>" "if _ then _ else _"])
qed

lemma seats_delete_aluno:
  "seats_invariant conn \<Longrightarrow> seats_invariant (snd (delete_aluno conn k))"
  by (simp add: delete_aluno_def snd_execute_query seats_cascade_aluno)

lemma seats_delete_turma:
  "seats_invariant conn \<Longrightarrow> seats_invariant (snd (delete_turma conn k))"
  by (simp add: delete_turma_def snd_execute_query seats_invariant_cascade_turma)

lemma seats_delete_instrutor:
  "seats_invariant conn \<Longrightarrow> seats_invariant (snd (delete_instrutor conn k))"
proof -
  assume a: "seats_invariant conn"
  have "seats_invariant (cascade_turma (\<lambda>t. t_cref t = k) conn)"
    using a by (rule seats_invariant_cascade_turma)
  then have "seats_invariant ((cascade_turma (\<lambda>t. t_cref t = k) conn)
     \<lparr>contato_instrutor := filter (\<lambda>c. ci_cref c \<noteq> k) (contato_instrutor conn)\<rparr>)"
    by (simp add: seats_invariant_cong[of "_\<lparr>contato_instrutor := _\<rparr>"])
  then have "seats_invariant (if k \<in> set (map i_cref (instrutor conn))
     then (cascade_turma (\<lambda>t. t_cref t = k) conn)
     \<lparr>contato_instrutor := filter (\<lambda>c. ci_cref c \<noteq> k) (contato_instrutor conn)\<rparr> else conn)"
    using a by simp
  then show ?thesis
    by (simp add: delete_instrutor_def snd_execute_query
        seats_invariant_cong[of "_\<lparr>instrutor := _\<rparr>" "if _ then _ else _"])
qed

lemma seats_delete_matricula_turma:
  "seats_invariant conn \<Longrightarrow> seats_invariant (snd (delete_matricula_turma conn k m))"
  by (rule seats_invariant_filter[where P = "\<lambda>e. \<not> (tia_id_turma e = k \<and> tia_matricula e = m)"])
     (simp_all add: delete_matricula_turma_def snd_execute_query)

lemma count_absent_class:
  assumes "\<forall>e \<in> set (turma_instrutor_aluno conn).
            tia_id_turma e \<in> set (map id_turma (turma conn))"
    "k \<notin> set (map id_turma (turma conn))"
  shows "alunos_matriculados conn k = 0"
  using assms by (auto simp: alunos_matriculados_def filter_empty_conv)

lemma seats_create_turma:
  assumes "seats_invariant conn"
  shows "seats_invariant (snd (create_turma conn n v t c))"
proof -
  let ?k = "turma_id_turma_seq conn + 1"
  let ?r = "snd (create_turma conn n v t c)"
  show ?thesis
  proof (cases "0 < v \<and> ?k \<notin> set (map id_turma (turma conn))
      \<and> c \<in> set (map i_cref (instrutor conn))")
    case False
    then have "turma ?r = turma conn \<and> turma_instrutor_aluno ?r = turma_instrutor_aluno conn"
      by (auto simp: create_turma_def snd_execute_query Let_def)
    then show ?thesis using assms seats_invariant_cong by blast
  next
    case True
    then have tu: "turma ?r = turma conn @
        [\<lparr>id_turma = ?k, nome_atividade = n, quantidade_vagas = v, t_turno = t, t_cref = c\<rparr>]"
      and ti: "turma_instrutor_aluno ?r = turma_instrutor_aluno conn"
      by (auto simp: create_turma_def snd_execute_query Let_def)
    have cnt: "alunos_matriculados ?r j = alunos_matriculados conn j" for j
      by (simp add: alunos_matriculados_def ti)
    have zero: "alunos_matriculados conn ?k = 0"
      using assms True by (intro count_absent_class) (simp_all add: seats_invariant_def)
    show ?thesis
      using assms True zero
      by (auto simp: seats_invariant_def within_capacity_def tu ti cnt)
  qed
qed


lemma seats_update_turma:
  assumes "seats_invariant conn"
    and "\<And>x. v = Some x \<Longrightarrow> alunos_matriculados conn k \<le> x"
  shows "seats_invariant (snd (update_turma conn k n v t c))"
proof -
  let ?r = "snd (update_turma conn k n v t c)"
  let ?f = "\<lambda>t'. t'\<lparr>nome_atividade := assign n (nome_atividade t'),
                           quantidade_vagas := assign v (quantidade_vagas t'),
                           t_turno := assign t (t_turno t'),
                           t_cref := assign c (t_cref t')\<rparr>"
  have ti: "turma_instrutor_aluno ?r = turma_instrutor_aluno conn"
    by (simp add: update_turma_def snd_execute_query Let_def)
  have "turma ?r = turma conn \<or> turma ?r = update_where (\<lambda>t. id_turma t = k) ?f (turma conn)"
    by (simp add: update_turma_def snd_execute_query Let_def)
  then show ?thesis
  proof
    assume "turma ?r = turma conn"
    then show ?thesis using assms(1) ti seats_invariant_cong by blast
  next
    assume tu: "turma ?r = update_where (\<lambda>t. id_turma t = k) ?f (turma conn)"
    have ids: "map id_turma (turma ?r) = map id_turma (turma conn)"
      unfolding tu by (rule map_update_where) simp
    have cnt: "alunos_matriculados ?r j = alunos_matriculados conn j" for j
      by (simp add: alunos_matriculados_def ti)
    have "within_capacity ?r"
      unfolding within_capacity_def
    proof
      fix u assume "u \<in> set (turma ?r)"
      then obtain w where w: "w \<in> set (turma conn)"
        "u = (if id_turma w = k then ?f w else w)"
        by (auto simp: tu update_where_def)
      have old: "alunos_matriculados conn (id_turma w) \<le> quantidade_vagas w"
        using assms(1) w(1) by (simp add: seats_invariant_def within_capacity_def)
      have idu: "id_turma u = id_turma w" using w(2) by simp
      have "alunos_matriculados conn (id_turma w) \<le> quantidade_vagas u"
      proof (cases "id_turma w = k")
        case False
        then show ?thesis using w old by simp
      next
        case True
        then have "quantidade_vagas u = assign v (quantidade_vagas w)" using w(2) by simp
        then show ?thesis
          using old assms(2) True by (cases v) (simp_all add: assign_def)
      qed
      then show "alunos_matriculados ?r (id_turma u) \<le> quantidade_vagas u"
        unfolding cnt idu .
    qed
    then show ?thesis
      using assms(1) by (simp add: seats_invariant_def ids ti)
  qed
qed

lemma seats_create_matricula_turma:
  assumes "seats_invariant conn"
  shows "seats_invariant (snd (create_matricula_turma conn k m))"
proof -
  let ?r = "snd (create_matricula_turma conn k m)"
  let ?new = "\<lparr>tia_id_turma = k, tia_matricula = m\<rparr>"
  have d: "distinct (map id_turma (turma conn))"
    using assms by (simp add: seats_invariant_def)
  have tu: "turma ?r = turma conn"
    by (simp add: create_matricula_turma_def insert_turma_instrutor_aluno_def
        snd_execute_query Let_def split: list.splits sum.splits)
  have "turma_instrutor_aluno ?r = turma_instrutor_aluno conn
      \<or> (turma_instrutor_aluno ?r = turma_instrutor_aluno conn @ [?new]
          \<and> (\<exists>t \<in> set (turma conn). id_turma t = k
                \<and> alunos_matriculados conn k < quantidade_vagas t))"
  proof (cases "k \<in> set (map id_turma (turma conn))")
    case False
    then show ?thesis
      by (simp add: create_matricula_turma_def filter_key_absent)
  next
    case True
    then obtain t where t: "t \<in> set (turma conn)" "id_turma t = k" by auto
    have f: "filter (\<lambda>y. id_turma y = k) (turma conn) = [t]"
      using filter_key_unique[OF d t(1)] t(2) by simp
    show ?thesis
      using t
      by (auto simp: create_matricula_turma_def insert_turma_instrutor_aluno_def f
          snd_execute_query Let_def split: sum.splits)
  qed
  then show ?thesis
  proof
    assume "turma_instrutor_aluno ?r = turma_instrutor_aluno conn"
    then show ?thesis using assms tu seats_invariant_cong by blast
  next
    assume a: "turma_instrutor_aluno ?r = turma_instrutor_aluno conn @ [?new]
          \<and> (\<exists>t \<in> set (turma conn). id_turma t = k
                \<and> alunos_matriculados conn k < quantidade_vagas t)"
    then obtain t where t: "t \<in> set (turma conn)" "id_turma t = k"
      "alunos_matriculados conn k < quantidade_vagas t" by auto
    have ti: "turma_instrutor_aluno ?r = turma_instrutor_aluno conn @ [?new]" using a by simp
    have cnt: "alunos_matriculados ?r j =
        (if j = k then alunos_matriculados conn k + 1 else alunos_matriculados conn j)" for j
      by (auto simp: alunos_matriculados_def ti)
    have "within_capacity ?r"
      unfolding within_capacity_def
    proof
      fix u assume "u \<in> set (turma ?r)"
      then have u: "u \<in> set (turma conn)" by (simp add: tu)
      have old: "alunos_matriculados conn (id_turma u) \<le> quantidade_vagas u"
        using assms u by (simp add: seats_invariant_def within_capacity_def)
      show "alunos_matriculados ?r (id_turma u) \<le> quantidade_vagas u"
      proof (cases "id_turma u = k")
        case False
        then show ?thesis using old by (simp add: cnt)
      next
        case True
        then have "u = t" using key_eq[OF d u t(1)] t(2) by simp
        then show ?thesis using t True by (simp add: cnt)
      qed
    qed
    moreover have "k \<in> set (map id_turma (turma conn))" using t by auto
    ultimately show ?thesis
      using assms by (auto simp: seats_invariant_def tu ti)
  qed
qed


lemma seats_frame:
  "seats_invariant conn \<Longrightarrow>
   turma conn' = turma conn \<and> turma_instrutor_aluno conn' = turma_instrutor_aluno conn \<Longrightarrow>
   seats_invariant conn'"
  by (simp add: seats_invariant_def within_capacity_def alunos_matriculados_def)

lemma seats_exec_stmt:
  assumes "seats_invariant conn" "keeps_capacity conn s"
  shows "seats_invariant (snd (exec_stmt age_ok today s conn))"
proof (cases s)
  case (Create_plano n p d)
  then show ?thesis
    using seats_frame[OF assms(1) frame_create_plano] by (simp add: snd_outcome)
next
  case (Update_plano k n p d)
  then show ?thesis
    using seats_frame[OF assms(1) frame_update_plano] by (simp add: snd_outcome)
next
  case (Delete_plano k)
  then show ?thesis using assms(1) by (simp add: snd_outcome seats_delete_plano)
next
  case (Create_turma n v t c)
  then show ?thesis using assms(1) by (simp add: snd_outcome seats_create_turma)
next
  case (Update_turma k n v t c)
  then have "\<And>x. v = Some x \<Longrightarrow> alunos_matriculados conn k \<le> x"
    using assms(2) by (simp add: keeps_capacity_def)
  then show ?thesis
    using assms(1) Update_turma by (simp add: snd_outcome seats_update_turma)
next
  case (Delete_turma k)
  then show ?thesis using assms(1) by (simp add: snd_outcome seats_delete_turma)
next
  case (Create_matricula_turma k m)
  then show ?thesis using assms(1) by (simp add: snd_outcome seats_create_matricula_turma)
next
  case (Delete_matricula_turma k m)
  then show ?thesis using assms(1) by (simp add: snd_outcome seats_delete_matricula_turma)
next
  case (Create_aluno c n s dn dm p)
  then show ?thesis
    using seats_frame[OF assms(1) frame_create_aluno] by (simp add: snd_outcome)
next
  case (Update_aluno m c n s dn dm p)
  then show ?thesis
    using seats_frame[OF assms(1) frame_update_aluno] by (simp add: snd_outcome)
next
  case (Delete_aluno m)
  then show ?thesis using assms(1) by (simp add: snd_outcome seats_delete_aluno)
next
  case (Create_contato_aluno m t e)
  then show ?thesis
    using seats_frame[OF assms(1) frame_create_contato_aluno] by (simp add: snd_outcome)
next
  case (Create_contato_instrutor c t e)
  then show ?thesis
    using seats_frame[OF assms(1) frame_create_contato_instrutor] by (simp add: snd_outcome)
next
  case (Update_contato_aluno m t e)
  then show ?thesis
    using seats_frame[OF assms(1) frame_update_contato_aluno] by (simp add: snd_outcome)
next
  case (Update_contato_instrutor c t e)
  then show ?thesis
    using seats_frame[OF assms(1) frame_update_contato_instrutor] by (simp add: snd_outcome)
next
  case (Create_bioimpedancia m p a t g q)
  then show ?thesis
    using seats_frame[OF assms(1) frame_create_bioimpedancia] by (simp add: snd_outcome)
next
  case (Update_bioimpedancia m p a t g q)
  then show ?thesis
    using seats_frame[OF assms(1) frame_update_bioimpedancia] by (simp add: snd_outcome)
next
  case (Delete_bioimpedancia m)
  then show ?thesis
    using seats_frame[OF assms(1) frame_delete_bioimpedancia] by (simp add: snd_outcome)
next
  case (Create_instrutor c cp n dn da t)
  then show ?thesis
    using seats_frame[OF assms(1) frame_create_instrutor] by (simp add: snd_outcome)
next
  case (Update_instrutor c cp n dn da t)
  then show ?thesis
    using seats_frame[OF assms(1) frame_update_instrutor] by (simp add: snd_outcome)
next
  case (Delete_instrutor c)
  then show ?thesis using assms(1) by (simp add: snd_outcome seats_delete_instrutor)
next
  case (Atualizar_plano_aluno m p)
  then show ?thesis
    using seats_frame[OF assms(1) frame_atualizar_plano_aluno]
    by (simp add: snd_outcome snd_execute_query)
qed

lemma seats_exec_stmts:
  "seats_invariant conn \<Longrightarrow> stmts_keep_capacity age_ok today ss conn \<Longrightarrow>
   seats_invariant (snd (exec_stmts age_ok today ss conn))"
proof (induction ss arbitrary: conn)
  case Nil
  then show ?case by simp
next
  case (Cons s ss)
  obtain r c where rc: "exec_stmt age_ok today s conn = (r, c)"
    by (cases "exec_stmt age_ok today s conn") auto
  have c: "seats_invariant c"
    using seats_exec_stmt[of conn s age_ok today] Cons.prems rc by simp
  show ?case
  proof (cases r)
    case None
    then show ?thesis using Cons c rc by simp
  next
    case (Some e)
    then show ?thesis using c rc by simp
  qed
qed

lemma seats_rollback:
  "seats_invariant committed \<Longrightarrow> seats_invariant (rollback committed working)"
  by (rule seats_frame) (simp_all add: rollback_def)

lemma seats_run_transaction:
  assumes "seats_invariant committed" "stmts_keep_capacity age_ok (fst tx) (snd tx) committed"
  shows "seats_invariant (run_transaction age_ok committed tx)"
proof -
  obtain r c where rc: "exec_stmts age_ok (fst tx) (snd tx) committed = (r, c)"
    by (cases "exec_stmts age_ok (fst tx) (snd tx) committed") auto
  have "seats_invariant c"
    using seats_exec_stmts[OF assms] rc by simp
  then show ?thesis
    using assms(1) rc by (cases r) (simp_all add: run_transaction_def seats_rollback)
qed

lemma seats_run_history:
  "seats_invariant committed \<Longrightarrow> history_keeps_capacity age_ok committed txs \<Longrightarrow>
   seats_invariant (run_history age_ok committed txs)"
  by (induction txs arbitrary: committed)
     (simp_all add: run_history_def seats_run_transaction)

lemma seats_init: "seats_invariant init_database"
  by (simp add: seats_invariant_def within_capacity_def init_database_def)


subsection \<open>Claim C1\<close>

text \<open>
  Claim C1, amended.  In every state that a history of transactions reaches from the empty
  store (each transaction a list of the writing statements, so every endpoint is one), as
  long as no update of a class sets \<^verbatim>\<open>quantidade_vagas\<close> below the number of students
  enrolled in it, the number of enrolment rows of every class is at most its capacity; and
  an enrolment in a class whose count has reached the capacity raises
  \<^verbatim>\<open>Turma sem vagas disponiveis\<close> and leaves the store as it was.  The update of a class
  itself is checked against \<^verbatim>\<open>quantidade_vagas > 0\<close> only.
\<close>

theorem seats_never_exceeded:
  assumes "history_keeps_capacity age_ok init_database txs"
    and "conn = run_history age_ok init_database txs"
  shows "\<forall>t \<in> set (turma conn).
           alunos_matriculados conn (id_turma t) \<le> quantidade_vagas t
           \<and> (quantidade_vagas t \<le> alunos_matriculados conn (id_turma t) \<longrightarrow>
                (\<forall>m. create_matricula_turma conn (id_turma t) m =
                        (Inl Turma_sem_vagas_disponiveis, conn)))"
proof
  fix t assume t: "t \<in> set (turma conn)"
  have inv: "seats_invariant conn"
    using seats_run_history[OF seats_init assms(1)] assms(2) by simp
  then have d: "distinct (map id_turma (turma conn))" by (simp add: seats_invariant_def)
  have f: "filter (\<lambda>y. id_turma y = id_turma t) (turma conn) = [t]"
    using filter_key_unique[OF d t] .
  have "alunos_matriculados conn (id_turma t) \<le> quantidade_vagas t"
    using inv t by (simp add: seats_invariant_def within_capacity_def)
  moreover have "quantidade_vagas t \<le> alunos_matriculados conn (id_turma t) \<longrightarrow>
                (\<forall>m. create_matricula_turma conn (id_turma t) m =
                        (Inl Turma_sem_vagas_disponiveis, conn))"
    by (simp add: create_matricula_turma_def f)
  ultimately show "alunos_matriculados conn (id_turma t) \<le> quantidade_vagas t
           \<and> (quantidade_vagas t \<le> alunos_matriculados conn (id_turma t) \<longrightarrow>
                (\<forall>m. create_matricula_turma conn (id_turma t) m =
                        (Inl Turma_sem_vagas_disponiveis, conn)))" by simp
qed


text \<open>The example history keeps the seats, and the class of the gym it builds is full.\<close>

theorem seats_never_exceeded_witness:
  "history_keeps_capacity age_by_year init_database gym_history
   \<and> run_history age_by_year init_database gym_history = gym
   \<and> map id_turma (turma gym) = [1]
   \<and> map quantidade_vagas (turma gym) = [2]
   \<and> alunos_matriculados gym 1 \<le> 2
   \<and> create_matricula_turma gym 1 9 = (Inl Turma_sem_vagas_disponiveis, gym)"
proof -
  have h: "history_keeps_capacity age_by_year init_database gym_history"
    by (simp add: gym_history_def run_transaction_def keeps_capacity_def init_database_def
        age_by_year_def query_defs)
  have t: "\<lparr>id_turma = 1, nome_atividade = ''Yoga'', quantidade_vagas = 2, t_turno = ''Noite'',
          t_cref = 123456\<rparr> \<in> set (turma gym)"
    by (simp add: gym_def)
  have full: "alunos_matriculados gym 1 = 2"
    by (simp add: gym_def alunos_matriculados_def)
  show ?thesis
    using seats_never_exceeded[OF h gym_reached[symmetric]] t h gym_reached full
    by (auto simp: gym_def)
qed

text \<open>
  The claim as it was stated fails: after the example history, the update of class 1 to
  one seat (\<^verbatim>\<open>PUT /turmas/1\<close> with \<^verbatim>\<open>quantidade_vagas = 1\<close>) is accepted, and the
  class then has two enrolments and a capacity of one.
\<close>

theorem seats_exceeded_counterexample:
  "alunos_matriculados
     (run_history age_by_year init_database
        (gym_history @ [(Date 2024 3 4, [Update_turma 1 None (Some 1) None None])])) 1 = 2
   \<and> map quantidade_vagas (turma
     (run_history age_by_year init_database
        (gym_history @ [(Date 2024 3 4, [Update_turma 1 None (Some 1) None None])]))) = [1]"
  by (simp add: run_history_def gym_reached[unfolded run_history_def] run_transaction_def)
     (simp add: gym_def query_defs)

section \<open>Enrolment: the outcomes of create_matricula_turma\<close>

text \<open>
  Claim C3, amended.  For every call \<open>create_matricula_turma conn k m\<close> on a store whose
  classes have distinct ids: if no class has the id \<open>k\<close> the call raises
  \<^verbatim>\<open>Turma nao encontrada\<close>; if the class exists and its enrolment count is at or above
  its \<^verbatim>\<open>quantidade_vagas\<close> the call raises \<^verbatim>\<open>Turma sem vagas disponiveis\<close>; in both
  cases the store is unchanged.  Otherwise the row \<open>(k, m)\<close> goes to the
  \<^verbatim>\<open>INSERT\<close>: when the student \<open>m\<close> exists and is not yet enrolled in the class,
  exactly that row is appended and the call succeeds; when the pair is already enrolled
  the store raises a unique violation, and when the student does not exist a foreign key
  violation, both surfaced as \<^verbatim>\<open>Erro ao executar query\<close>, with the store unchanged.
\<close>

theorem create_matricula_turma_outcomes:
  assumes "distinct (map id_turma (turma conn))"
  shows "(k \<notin> set (map id_turma (turma conn)) \<longrightarrow>
           create_matricula_turma conn k m = (Inl Turma_nao_encontrada, conn))
       \<and> (\<forall>t \<in> set (turma conn). id_turma t = k \<longrightarrow>
           (quantidade_vagas t \<le> alunos_matriculados conn k \<longrightarrow>
              create_matricula_turma conn k m = (Inl Turma_sem_vagas_disponiveis, conn))
         \<and> (alunos_matriculados conn k < quantidade_vagas t
              \<and> m \<in> set (map a_matricula (aluno conn))
              \<and> \<lparr>tia_id_turma = k, tia_matricula = m\<rparr> \<notin> set (turma_instrutor_aluno conn) \<longrightarrow>
              create_matricula_turma conn k m =
                (Inr (), conn\<lparr>turma_instrutor_aluno :=
                   turma_instrutor_aluno conn @ [\<lparr>tia_id_turma = k, tia_matricula = m\<rparr>]\<rparr>))
         \<and> (alunos_matriculados conn k < quantidade_vagas t
              \<and> \<lparr>tia_id_turma = k, tia_matricula = m\<rparr> \<in> set (turma_instrutor_aluno conn) \<longrightarrow>
              create_matricula_turma conn k m =
                (Inl (Erro_ao_executar_query unique_violation), conn))
         \<and> (alunos_matriculados conn k < quantidade_vagas t
              \<and> \<lparr>tia_id_turma = k, tia_matricula = m\<rparr> \<notin> set (turma_instrutor_aluno conn)
              \<and> m \<notin> set (map a_matricula (aluno conn)) \<longrightarrow>
              create_matricula_turma conn k m =
                (Inl (Erro_ao_executar_query foreign_key_violation), conn)))"
proof (intro conjI impI ballI)
  assume "k \<notin> set (map id_turma (turma conn))"
  then show "create_matricula_turma conn k m = (Inl Turma_nao_encontrada, conn)"
    by (simp add: create_matricula_turma_def filter_key_absent)
next
  fix t assume t: "t \<in> set (turma conn)" "id_turma t = k"
  have f: "filter (\<lambda>y. id_turma y = k) (turma conn) = [t]"
    using filter_key_unique[OF assms t(1)] t(2) by simp
  have kin: "k \<in> set (map id_turma (turma conn))" using t by auto
  note defs = create_matricula_turma_def f insert_turma_instrutor_aluno_def
          verificar_vagas_turma_def first_row_def execute_query_def
  {
    assume "quantidade_vagas t \<le> alunos_matriculados conn k"
    then show "create_matricula_turma conn k m = (Inl Turma_sem_vagas_disponiveis, conn)"
      by (simp add: create_matricula_turma_def f)
  }
  {
    assume "alunos_matriculados conn k < quantidade_vagas t
              \<and> m \<in> set (map a_matricula (aluno conn))
              \<and> \<lparr>tia_id_turma = k, tia_matricula = m\<rparr> \<notin> set (turma_instrutor_aluno conn)"
    then show "create_matricula_turma conn k m =
                (Inr (), conn\<lparr>turma_instrutor_aluno :=
                   turma_instrutor_aluno conn @ [\<lparr>tia_id_turma = k, tia_matricula = m\<rparr>]\<rparr>)"
      using kin by (simp add: defs)
  }
  {
    assume "alunos_matriculados conn k < quantidade_vagas t
              \<and> \<lparr>tia_id_turma = k, tia_matricula = m\<rparr> \<in> set (turma_instrutor_aluno conn)"
    then show "create_matricula_turma conn k m =
                (Inl (Erro_ao_executar_query unique_violation), conn)"
      using kin by (simp add: defs)
  }
  {
    assume "alunos_matriculados conn k < quantidade_vagas t
              \<and> \<lparr>tia_id_turma = k, tia_matricula = m\<rparr> \<notin> set (turma_instrutor_aluno conn)
              \<and> m \<notin> set (map a_matricula (aluno conn))"
    then show "create_matricula_turma conn k m =
                (Inl (Erro_ao_executar_query foreign_key_violation), conn)"
      using kin by (simp add: defs)
  }
qed

text \<open>
  The five outcomes in the example gym: an unknown class, the full class, the last seat
  taken by student 2, student 1 enrolled twice, and a student that does not exist.
\<close>

theorem create_matricula_turma_outcomes_witness:
  "distinct (map id_turma (turma gym_one_seat))
   \<and> create_matricula_turma gym_one_seat 7 2 = (Inl Turma_nao_encontrada, gym_one_seat)
   \<and> create_matricula_turma gym 1 2 = (Inl Turma_sem_vagas_disponiveis, gym)
   \<and> create_matricula_turma gym_one_seat 1 2 = (Inr (), gym)
   \<and> create_matricula_turma gym_one_seat 1 1 =
       (Inl (Erro_ao_executar_query unique_violation), gym_one_seat)
   \<and> create_matricula_turma gym_one_seat 1 9 =
       (Inl (Erro_ao_executar_query foreign_key_violation), gym_one_seat)"
proof -
  have d1: "distinct (map id_turma (turma gym_one_seat))"
    by (simp add: gym_one_seat_def gym_def)
  have d2: "distinct (map id_turma (turma gym))"
    by (simp add: gym_def)
  have t1: "\<lparr>id_turma = 1, nome_atividade = ''Yoga'', quantidade_vagas = 2, t_turno = ''Noite'',
          t_cref = 123456\<rparr> \<in> set (turma gym_one_seat)"
    by (simp add: gym_one_seat_def gym_def)
  have t2: "\<lparr>id_turma = 1, nome_atividade = ''Yoga'', quantidade_vagas = 2, t_turno = ''Noite'',
          t_cref = 123456\<rparr> \<in> set (turma gym)"
    by (simp add: gym_def)
  have a: "create_matricula_turma gym_one_seat 7 2 = (Inl Turma_nao_encontrada, gym_one_seat)"
    using create_matricula_turma_outcomes[OF d1, of 7 2]
    by (simp add: gym_one_seat_def gym_def)
  have b: "create_matricula_turma gym 1 2 = (Inl Turma_sem_vagas_disponiveis, gym)"
    using create_matricula_turma_outcomes[OF d2, of 1 2] t2
    by (simp add: gym_def alunos_matriculados_def)
  have c: "create_matricula_turma gym_one_seat 1 2 = (Inr (), gym)"
    using create_matricula_turma_outcomes[OF d1, of 1 2] t1
    by (simp add: gym_one_seat_def gym_def alunos_matriculados_def)
  have d: "create_matricula_turma gym_one_seat 1 1 =
       (Inl (Erro_ao_executar_query unique_violation), gym_one_seat)"
    using create_matricula_turma_outcomes[OF d1, of 1 1] t1
    by (simp add: gym_one_seat_def gym_def alunos_matriculados_def)
  have e: "create_matricula_turma gym_one_seat 1 9 =
       (Inl (Erro_ao_executar_query foreign_key_violation), gym_one_seat)"
    using create_matricula_turma_outcomes[OF d1, of 1 9] t1
    by (simp add: gym_one_seat_def gym_def alunos_matriculados_def)
  show ?thesis using d1 a b c d e by simp
qed

text \<open>
  The claim as it was stated fails: in the gym with one seat left (a state the example
  history reaches), class 1 exists and has a free seat, yet the call for the student 9,
  who does not exist, does not succeed and inserts nothing.
\<close>

theorem create_matricula_turma_counterexample:
  "run_history age_by_year init_database (butlast gym_history) = gym_one_seat
   \<and> map id_turma (turma gym_one_seat) = [1]
   \<and> map quantidade_vagas (turma gym_one_seat) = [2]
   \<and> alunos_matriculados gym_one_seat 1 = 1
   \<and> fst (create_matricula_turma gym_one_seat 1 9) \<noteq> Inr ()
   \<and> snd (create_matricula_turma gym_one_seat 1 9) = gym_one_seat"
  by (simp add: gym_one_seat_reached)
     (simp add: gym_one_seat_def gym_def query_defs)

section \<open>Enrolment of a student that does not exist\<close>

text \<open>
  Claim C8.  \<open>create_matricula_turma\<close> looks the class up and never the student.  In a
  store whose classes have distinct ids and whose enrolments reference existing students,
  for a class with a free seat and a \<open>matricula\<close> that no student has: the trigger lets
  the row pass, the \<^verbatim>\<open>INSERT\<close> itself fails on the foreign key to \<^verbatim>\<open>aluno\<close>, and
  the call raises that failure wrapped as the generic \<^verbatim>\<open>Erro ao executar query\<close>, with
  the store unchanged; the endpoint answers 400 with that error as its detail.
\<close>

theorem enrol_unknown_student_fails_at_insert:
  assumes "distinct (map id_turma (turma conn))"
    and "t \<in> set (turma conn)"
    and "alunos_matriculados conn (id_turma t) < quantidade_vagas t"
    and "m \<notin> set (map a_matricula (aluno conn))"
    and "\<forall>e \<in> set (turma_instrutor_aluno conn).
           tia_matricula e \<in> set (map a_matricula (aluno conn))"
  shows "verificar_vagas_turma conn \<lparr>tia_id_turma = id_turma t, tia_matricula = m\<rparr> = Inr ()
    \<and> insert_turma_instrutor_aluno conn \<lparr>tia_id_turma = id_turma t, tia_matricula = m\<rparr> =
        (Inl foreign_key_violation, conn)
    \<and> create_matricula_turma conn (id_turma t) m =
        execute_query
          (insert_turma_instrutor_aluno conn \<lparr>tia_id_turma = id_turma t, tia_matricula = m\<rparr>)
    \<and> create_matricula_turma conn (id_turma t) m =
        (Inl (Erro_ao_executar_query foreign_key_violation), conn)
    \<and> matricular_aluno_turma conn (id_turma t) m =
        (Inl (HTTPException 400 (Of_error (Erro_ao_executar_query foreign_key_violation))),
         conn)"
proof -
  let ?new = "\<lparr>tia_id_turma = id_turma t, tia_matricula = m\<rparr>"
  have f: "filter (\<lambda>y. id_turma y = id_turma t) (turma conn) = [t]"
    using filter_key_unique[OF assms(1,2)] .
  have fresh: "?new \<notin> set (turma_instrutor_aluno conn)"
    using assms(4,5) by force
  have trig: "verificar_vagas_turma conn ?new = Inr ()"
    using assms(3) by (simp add: verificar_vagas_turma_def f first_row_def)
  have ins: "insert_turma_instrutor_aluno conn ?new = (Inl foreign_key_violation, conn)"
    using fresh assms(4) by (simp add: insert_turma_instrutor_aluno_def trig)
  have call: "create_matricula_turma conn (id_turma t) m =
      execute_query (insert_turma_instrutor_aluno conn ?new)"
    using assms(3) by (simp add: create_matricula_turma_def f)
  show ?thesis
    using trig ins call
    by (simp add: execute_query_def matricular_aluno_turma_def rollback_def)
qed

text \<open>In the gym with one seat left, the student 9 does not exist.\<close>

theorem enrol_unknown_student_fails_at_insert_witness:
  "distinct (map id_turma (turma gym_one_seat))
   \<and> map id_turma (turma gym_one_seat) = [1]
   \<and> alunos_matriculados gym_one_seat 1 < 2
   \<and> 9 \<notin> set (map a_matricula (aluno gym_one_seat))
   \<and> insert_turma_instrutor_aluno gym_one_seat \<lparr>tia_id_turma = 1, tia_matricula = 9\<rparr> =
        (Inl foreign_key_violation, gym_one_seat)
   \<and> create_matricula_turma gym_one_seat 1 9 =
        (Inl (Erro_ao_executar_query foreign_key_violation), gym_one_seat)
   \<and> matricular_aluno_turma gym_one_seat 1 9 =
        (Inl (HTTPException 400 (Of_error (Erro_ao_executar_query foreign_key_violation))),
         gym_one_seat)"
proof -
  let ?t = "\<lparr>id_turma = 1, nome_atividade = ''Yoga'', quantidade_vagas = 2, t_turno = ''Noite'',
          t_cref = 123456\<rparr>"
  have 1: "distinct (map id_turma (turma gym_one_seat))"
    by (simp add: gym_one_seat_def gym_def)
  have 2: "?t \<in> set (turma gym_one_seat)"
    by (simp add: gym_one_seat_def gym_def)
  have 3: "alunos_matriculados gym_one_seat (id_turma ?t) < quantidade_vagas ?t"
    by (simp add: gym_one_seat_def gym_def alunos_matriculados_def)
  have 4: "9 \<notin> set (map a_matricula (aluno gym_one_seat))"
    by (simp add: gym_one_seat_def gym_def)
  have 5: "\<forall>e \<in> set (turma_instrutor_aluno gym_one_seat).
           tia_matricula e \<in> set (map a_matricula (aluno gym_one_seat))"
    by (simp add: gym_one_seat_def gym_def)
  have 6: "map id_turma (turma gym_one_seat) = [1]"
    by (simp add: gym_one_seat_def gym_def)
  show ?thesis
    using enrol_unknown_student_fails_at_insert[OF 1 2 3 4 5] 1 3 4 6
    by (simp add: execute_query_def)
qed


section \<open>Deleting what is not there\<close>

text \<open>
  Claim C7, amended.  For every entity type, the delete of an id that is not there changes
  no row of the store, and the endpoint answers with its message of success (the route's
  status 204): it does not look at the number of rows the statement matched and reports no
  not-found condition.
\<close>

theorem delete_missing_reports_success:
  "(k \<notin> set (map codigo_plano (plano conn)) \<longrightarrow>
      deletar_plano conn k = (Inr ''Plano deletado com sucesso'', conn))
   \<and> (k \<notin> set (map a_matricula (aluno conn)) \<longrightarrow>
      deletar_aluno conn k = (Inr ''Aluno deletado com sucesso'', conn))
   \<and> (k \<notin> set (map b_matricula (bioimpedancia conn)) \<longrightarrow>
      deletar_bioimpedancia conn k = (Inr ''Medicao deletada com sucesso'', conn))
   \<and> (k \<notin> set (map i_cref (instrutor conn)) \<longrightarrow>
      deletar_instrutor conn k = (Inr ''Instrutor deletado com sucesso'', conn))
   \<and> (k \<notin> set (map id_turma (turma conn)) \<longrightarrow>
      deletar_turma conn k = (Inr ''Turma deletada com sucesso'', conn))
   \<and> (\<lparr>tia_id_turma = k, tia_matricula = m\<rparr> \<notin> set (turma_instrutor_aluno conn) \<longrightarrow>
      remover_aluno_turma conn k m = (Inr ''Aluno removido da turma com sucesso'', conn))"
proof (intro conjI impI)
  assume "k \<notin> set (map codigo_plano (plano conn))"
  then show "deletar_plano conn k = (Inr ''Plano deletado com sucesso'', conn)"
    by (simp add: deletar_plano_def delete_plano_def execute_query_def filter_neq_absent)
next
  assume "k \<notin> set (map a_matricula (aluno conn))"
  then have "\<forall>a \<in> set (aluno conn). \<not> a_matricula a = k" by auto
  then show "deletar_aluno conn k = (Inr ''Aluno deletado com sucesso'', conn)"
    by (simp add: deletar_aluno_def delete_aluno_def execute_query_def cascade_aluno_none)
next
  assume "k \<notin> set (map b_matricula (bioimpedancia conn))"
  then show "deletar_bioimpedancia conn k = (Inr ''Medicao deletada com sucesso'', conn)"
    by (simp add: deletar_bioimpedancia_def delete_bioimpedancia_def execute_query_def
        filter_neq_absent)
next
  assume "k \<notin> set (map i_cref (instrutor conn))"
  then show "deletar_instrutor conn k = (Inr ''Instrutor deletado com sucesso'', conn)"
    by (simp add: deletar_instrutor_def delete_instrutor_def execute_query_def filter_neq_absent)
next
  assume "k \<notin> set (map id_turma (turma conn))"
  then have "\<forall>t \<in> set (turma conn). \<not> id_turma t = k" by auto
  then show "deletar_turma conn k = (Inr ''Turma deletada com sucesso'', conn)"
    by (simp add: deletar_turma_def delete_turma_def execute_query_def cascade_turma_none)
next
  assume "\<lparr>tia_id_turma = k, tia_matricula = m\<rparr> \<notin> set (turma_instrutor_aluno conn)"
  then have "\<forall>e \<in> set (turma_instrutor_aluno conn).
      \<not> (tia_id_turma e = k \<and> tia_matricula e = m)"
    by (metis (full_types) old.unit.exhaust turma_instrutor_aluno_row.surjective)
  then have "filter (\<lambda>e. \<not> (tia_id_turma e = k \<and> tia_matricula e = m))
      (turma_instrutor_aluno conn) = turma_instrutor_aluno conn"
    by (simp only: filter_True)
  then show "remover_aluno_turma conn k m = (Inr ''Aluno removido da turma com sucesso'', conn)"
    by (simp add: remover_aluno_turma_def delete_matricula_turma_def execute_query_def)
qed

text \<open>No plan, student, measurement, instructor or class of the gym has the id 7.\<close>

theorem delete_missing_reports_success_witness:
  "7 \<notin> set (map codigo_plano (plano gym))
   \<and> deletar_plano gym 7 = (Inr ''Plano deletado com sucesso'', gym)
   \<and> deletar_aluno gym 7 = (Inr ''Aluno deletado com sucesso'', gym)
   \<and> deletar_bioimpedancia gym 7 = (Inr ''Medicao deletada com sucesso'', gym)
   \<and> deletar_instrutor gym 7 = (Inr ''Instrutor deletado com sucesso'', gym)
   \<and> deletar_turma gym 7 = (Inr ''Turma deletada com sucesso'', gym)
   \<and> remover_aluno_turma gym 7 1 = (Inr ''Aluno removido da turma com sucesso'', gym)"
  using delete_missing_reports_success[of 7 gym 1]
  by (simp add: gym_def)

text \<open>
  The claim as it was stated fails: the gym has no plan 7, and \<^verbatim>\<open>DELETE /planos/7\<close>
  answers with the message of success, not with an \<^verbatim>\<open>HTTPException\<close>.
\<close>

theorem delete_missing_counterexample:
  "7 \<notin> set (map codigo_plano (plano gym))
   \<and> fst (deletar_plano gym 7) = Inr ''Plano deletado com sucesso''
   \<and> (\<forall>status d. fst (deletar_plano gym 7) \<noteq> Inl (HTTPException status d))"
  by (simp add: gym_def deletar_plano_def delete_plano_def execute_query_def)

section \<open>Cascading deletes\<close>

lemma fk_cascade_aluno:
  assumes "foreign_keys_hold conn"
  shows "foreign_keys_hold (cascade_aluno dead conn)"
proof -
  let ?gone = "set (map a_matricula (filter dead (aluno conn)))"
  let ?c = "cascade_aluno dead conn"
  have al: "aluno ?c = filter (\<lambda>a. \<not> dead a) (aluno conn)"
    and co: "contato_aluno ?c = filter (\<lambda>c. c_matricula c \<notin> ?gone) (contato_aluno conn)"
    and bi: "bioimpedancia ?c = filter (\<lambda>b. b_matricula b \<notin> ?gone) (bioimpedancia conn)"
    and ti: "turma_instrutor_aluno ?c =
      filter (\<lambda>e. tia_matricula e \<notin> ?gone) (turma_instrutor_aluno conn)"
    and rest: "plano ?c = plano conn" "instrutor ?c = instrutor conn"
      "contato_instrutor ?c = contato_instrutor conn" "turma ?c = turma conn"
    by (simp_all add: cascade_aluno_def Let_def)
  have alive: "m \<in> set (map a_matricula (aluno ?c))"
    if "m \<in> set (map a_matricula (aluno conn))" "m \<notin> ?gone" for m
  proof -
    from that(1) obtain a where a: "a \<in> set (aluno conn)" "a_matricula a = m" by auto
    have "\<not> dead a"
    proof
      assume "dead a"
      then have "a_matricula a \<in> ?gone" using a(1) by force
      then show False using that(2) a(2) by simp
    qed
    then show ?thesis using a by (force simp: al)
  qed
  show ?thesis
    using assms alive
    unfolding foreign_keys_hold_def rest
    by (auto simp: al co bi ti)
qed

lemma fk_cascade_turma:
  assumes "foreign_keys_hold conn"
  shows "foreign_keys_hold (cascade_turma dead conn)"
proof -
  let ?gone = "set (map id_turma (filter dead (turma conn)))"
  let ?c = "cascade_turma dead conn"
  have tu: "turma ?c = filter (\<lambda>t. \<not> dead t) (turma conn)"
    and ti: "turma_instrutor_aluno ?c =
      filter (\<lambda>e. tia_id_turma e \<notin> ?gone) (turma_instrutor_aluno conn)"
    and rest: "plano ?c = plano conn" "instrutor ?c = instrutor conn"
      "contato_instrutor ?c = contato_instrutor conn" "aluno ?c = aluno conn"
      "contato_aluno ?c = contato_aluno conn" "bioimpedancia ?c = bioimpedancia conn"
    by (simp_all add: cascade_turma_def Let_def)
  have alive: "k \<in> set (map id_turma (turma ?c))"
    if "k \<in> set (map id_turma (turma conn))" "k \<notin> ?gone" for k
  proof -
    from that(1) obtain t where t: "t \<in> set (turma conn)" "id_turma t = k" by auto
    have "\<not> dead t"
    proof
      assume "dead t"
      then have "id_turma t \<in> ?gone" using t(1) by force
      then show False using that(2) t(2) by simp
    qed
    then show ?thesis using t by (force simp: tu)
  qed
  show ?thesis
    using assms alive
    unfolding foreign_keys_hold_def rest
    by (auto simp: tu ti)
qed


lemma cascade_delete_plano:
  assumes "foreign_keys_hold conn"
  shows "fst (delete_plano conn k) = Inr ()
    \<and> k \<notin> set (map codigo_plano (plano (snd (delete_plano conn k))))
    \<and> (\<forall>a \<in> set (aluno conn). a_codigo_plano a = k \<longrightarrow>
          a \<notin> set (aluno (snd (delete_plano conn k)))
          \<and> a_matricula a \<notin> set (map c_matricula (contato_aluno (snd (delete_plano conn k))))
          \<and> a_matricula a \<notin> set (map b_matricula (bioimpedancia (snd (delete_plano conn k))))
          \<and> a_matricula a \<notin>
              set (map tia_matricula (turma_instrutor_aluno (snd (delete_plano conn k)))))
    \<and> foreign_keys_hold (snd (delete_plano conn k))"
proof (cases "k \<in> set (map codigo_plano (plano conn))")
  case False
  then have nobody: "\<forall>a \<in> set (aluno conn). a_codigo_plano a \<noteq> k"
    using assms by (auto simp: foreign_keys_hold_def)
  have r: "snd (delete_plano conn k) = conn"
    using False by (simp add: delete_plano_def execute_query_def filter_neq_absent)
  show ?thesis
    unfolding r using False nobody assms by (simp add: delete_plano_def execute_query_def)
next
  case True
  let ?dead = "\<lambda>a. a_codigo_plano a = k"
  let ?c = "cascade_aluno ?dead conn"
  let ?gone = "set (map a_matricula (filter ?dead (aluno conn)))"
  have r: "snd (delete_plano conn k) = ?c\<lparr>plano := filter (\<lambda>p. codigo_plano p \<noteq> k) (plano conn)\<rparr>"
    using True by (simp add: delete_plano_def execute_query_def)
  have al: "aluno ?c = filter (\<lambda>a. \<not> ?dead a) (aluno conn)"
    and co: "contato_aluno ?c = filter (\<lambda>c. c_matricula c \<notin> ?gone) (contato_aluno conn)"
    and bi: "bioimpedancia ?c = filter (\<lambda>b. b_matricula b \<notin> ?gone) (bioimpedancia conn)"
    and ti: "turma_instrutor_aluno ?c =
      filter (\<lambda>e. tia_matricula e \<notin> ?gone) (turma_instrutor_aluno conn)"
    and pl: "plano ?c = plano conn"
    by (simp_all add: cascade_aluno_def Let_def)
  have gone: "a_matricula a \<in> ?gone" if "a \<in> set (aluno conn)" "a_codigo_plano a = k" for a
    using that by force
  have fk: "foreign_keys_hold ?c" using assms by (rule fk_cascade_aluno)
  have fk': "foreign_keys_hold (?c\<lparr>plano := filter (\<lambda>p. codigo_plano p \<noteq> k) (plano conn)\<rparr>)"
    using fk unfolding foreign_keys_hold_def
    by (auto simp: al pl)
  have kept: "\<forall>x \<in> set (contato_aluno ?c). c_matricula x \<notin> ?gone"
    "\<forall>x \<in> set (bioimpedancia ?c). b_matricula x \<notin> ?gone"
    "\<forall>x \<in> set (turma_instrutor_aluno ?c). tia_matricula x \<notin> ?gone"
    by (simp_all add: co bi ti)
  have dep: "\<forall>a \<in> set (aluno conn). a_codigo_plano a = k \<longrightarrow>
          a \<notin> set (aluno ?c)
          \<and> a_matricula a \<notin> set (map c_matricula (contato_aluno ?c))
          \<and> a_matricula a \<notin> set (map b_matricula (bioimpedancia ?c))
          \<and> a_matricula a \<notin> set (map tia_matricula (turma_instrutor_aluno ?c))"
  proof (intro ballI impI)
    fix a assume a: "a \<in> set (aluno conn)" "a_codigo_plano a = k"
    have g: "a_matricula a \<in> ?gone" using gone[OF a] .
    have 1: "a \<notin> set (aluno ?c)" using a(2) by (simp add: al)
    have 2: "a_matricula a \<notin> set (map c_matricula (contato_aluno ?c))"
      using g kept(1) by (metis (no_types, lifting) image_iff list.set_map)
    have 3: "a_matricula a \<notin> set (map b_matricula (bioimpedancia ?c))"
      using g kept(2) by (metis (no_types, lifting) image_iff list.set_map)
    have 4: "a_matricula a \<notin> set (map tia_matricula (turma_instrutor_aluno ?c))"
      using g kept(3) by (metis (no_types, lifting) image_iff list.set_map)
    show "a \<notin> set (aluno ?c)
          \<and> a_matricula a \<notin> set (map c_matricula (contato_aluno ?c))
          \<and> a_matricula a \<notin> set (map b_matricula (bioimpedancia ?c))
          \<and> a_matricula a \<notin> set (map tia_matricula (turma_instrutor_aluno ?c))"
      using 1 2 3 4 by simp
  qed
  have nok: "k \<notin> set (map codigo_plano (filter (\<lambda>p. codigo_plano p \<noteq> k) (plano conn)))"
    by auto
  show ?thesis
    unfolding r using dep fk' nok by (simp add: delete_plano_def execute_query_def)
qed

lemma cascade_delete_aluno:
  assumes "foreign_keys_hold conn"
  shows "fst (delete_aluno conn m) = Inr ()
    \<and> m \<notin> set (map a_matricula (aluno (snd (delete_aluno conn m))))
    \<and> m \<notin> set (map c_matricula (contato_aluno (snd (delete_aluno conn m))))
    \<and> m \<notin> set (map b_matricula (bioimpedancia (snd (delete_aluno conn m))))
    \<and> m \<notin> set (map tia_matricula (turma_instrutor_aluno (snd (delete_aluno conn m))))
    \<and> foreign_keys_hold (snd (delete_aluno conn m))"
proof (cases "m \<in> set (map a_matricula (aluno conn))")
  case False
  then have "\<forall>a \<in> set (aluno conn). \<not> a_matricula a = m" by auto
  then have r: "snd (delete_aluno conn m) = conn"
    by (simp add: delete_aluno_def execute_query_def cascade_aluno_none)
  show ?thesis
    unfolding r using False assms
    by (auto simp: foreign_keys_hold_def delete_aluno_def execute_query_def)
next
  case True
  let ?dead = "\<lambda>a. a_matricula a = m"
  have g: "m \<in> set (map a_matricula (filter ?dead (aluno conn)))"
    using True by force
  have r: "snd (delete_aluno conn m) = cascade_aluno ?dead conn"
    by (simp add: delete_aluno_def execute_query_def)
  show ?thesis
    unfolding r using g fk_cascade_aluno[OF assms, of ?dead]
    by (auto simp: cascade_aluno_def Let_def delete_aluno_def execute_query_def)
qed

lemma cascade_delete_turma:
  assumes "foreign_keys_hold conn"
  shows "fst (delete_turma conn k) = Inr ()
    \<and> k \<notin> set (map id_turma (turma (snd (delete_turma conn k))))
    \<and> k \<notin> set (map tia_id_turma (turma_instrutor_aluno (snd (delete_turma conn k))))
    \<and> foreign_keys_hold (snd (delete_turma conn k))"
proof (cases "k \<in> set (map id_turma (turma conn))")
  case False
  then have "\<forall>t \<in> set (turma conn). \<not> id_turma t = k" by auto
  then have r: "snd (delete_turma conn k) = conn"
    by (simp add: delete_turma_def execute_query_def cascade_turma_none)
  show ?thesis
    unfolding r using False assms
    by (auto simp: foreign_keys_hold_def delete_turma_def execute_query_def)
next
  case True
  let ?dead = "\<lambda>t. id_turma t = k"
  have g: "k \<in> set (map id_turma (filter ?dead (turma conn)))"
    using True by force
  have r: "snd (delete_turma conn k) = cascade_turma ?dead conn"
    by (simp add: delete_turma_def execute_query_def)
  show ?thesis
    unfolding r using g fk_cascade_turma[OF assms, of ?dead]
    by (auto simp: cascade_turma_def Let_def delete_turma_def execute_query_def)
qed

lemma cascade_delete_instrutor:
  assumes "foreign_keys_hold conn"
  shows "fst (delete_instrutor conn c) = Inr ()
    \<and> c \<notin> set (map i_cref (instrutor (snd (delete_instrutor conn c))))
    \<and> c \<notin> set (map ci_cref (contato_instrutor (snd (delete_instrutor conn c))))
    \<and> c \<notin> set (map t_cref (turma (snd (delete_instrutor conn c))))
    \<and> (\<forall>t \<in> set (turma conn). t_cref t = c \<longrightarrow>
          id_turma t \<notin>
            set (map tia_id_turma (turma_instrutor_aluno (snd (delete_instrutor conn c)))))
    \<and> foreign_keys_hold (snd (delete_instrutor conn c))"
proof (cases "c \<in> set (map i_cref (instrutor conn))")
  case False
  then have no: "\<forall>t \<in> set (turma conn). t_cref t \<noteq> c"
    "\<forall>x \<in> set (contato_instrutor conn). ci_cref x \<noteq> c"
    using assms by (auto simp: foreign_keys_hold_def)
  have r: "snd (delete_instrutor conn c) = conn"
    using False by (simp add: delete_instrutor_def execute_query_def filter_neq_absent)
  show ?thesis
    unfolding r using False no assms
    by (auto simp: delete_instrutor_def execute_query_def)
next
  case True
  let ?dead = "\<lambda>t. t_cref t = c"
  let ?c = "cascade_turma ?dead conn"
  let ?gone = "set (map id_turma (filter ?dead (turma conn)))"
  let ?r = "?c\<lparr>contato_instrutor := filter (\<lambda>x. ci_cref x \<noteq> c) (contato_instrutor conn),
              instrutor := filter (\<lambda>i. i_cref i \<noteq> c) (instrutor conn)\<rparr>"
  have r: "snd (delete_instrutor conn c) = ?r"
    using True by (simp add: delete_instrutor_def execute_query_def)
  have tu: "turma ?c = filter (\<lambda>t. \<not> ?dead t) (turma conn)"
    and ti: "turma_instrutor_aluno ?c =
      filter (\<lambda>e. tia_id_turma e \<notin> ?gone) (turma_instrutor_aluno conn)"
    by (simp_all add: cascade_turma_def Let_def)
  have gone: "id_turma t \<in> ?gone" if "t \<in> set (turma conn)" "t_cref t = c" for t
    using that by force
  have fk: "foreign_keys_hold ?c" using assms by (rule fk_cascade_turma)
  have fk': "foreign_keys_hold ?r"
    using fk unfolding foreign_keys_hold_def
    by (auto simp: tu cascade_turma_def Let_def)
  have kept: "\<forall>x \<in> set (turma_instrutor_aluno ?c). tia_id_turma x \<notin> ?gone"
    by (simp add: ti)
  have dep: "\<forall>t \<in> set (turma conn). t_cref t = c \<longrightarrow>
          id_turma t \<notin> set (map tia_id_turma (turma_instrutor_aluno ?r))"
  proof (intro ballI impI)
    fix t assume t: "t \<in> set (turma conn)" "t_cref t = c"
    have g: "id_turma t \<in> ?gone" using gone[OF t] .
    have "id_turma t \<notin> set (map tia_id_turma (turma_instrutor_aluno ?c))"
      using g kept by (metis (no_types, lifting) image_iff list.set_map)
    then show "id_turma t \<notin> set (map tia_id_turma (turma_instrutor_aluno ?r))"
      by simp
  qed
  show ?thesis
    unfolding r using dep fk' by (auto simp: delete_instrutor_def execute_query_def tu)
qed


text \<open>
  Claim C6.  In a store whose foreign keys hold, each of the four deletes succeeds and
  cascades.  Deleting a plan removes the plan, every student that references it, and every
  contact, measurement and enrolment of such a student; deleting an instructor removes the
  instructor, its contacts, its classes and the enrolments in those classes; deleting a
  student removes the student with its contacts, measurement and enrolments; deleting a
  class removes the class and its enrolments.  After each of them the foreign keys hold
  again: no row references a parent that is no longer there.
\<close>

theorem cascading_deletes_leave_no_orphans:
  assumes "foreign_keys_hold conn"
  shows "(fst (delete_plano conn k) = Inr ()
      \<and> k \<notin> set (map codigo_plano (plano (snd (delete_plano conn k))))
      \<and> (\<forall>a \<in> set (aluno conn). a_codigo_plano a = k \<longrightarrow>
            a \<notin> set (aluno (snd (delete_plano conn k)))
            \<and> a_matricula a \<notin> set (map c_matricula (contato_aluno (snd (delete_plano conn k))))
            \<and> a_matricula a \<notin> set (map b_matricula (bioimpedancia (snd (delete_plano conn k))))
            \<and> a_matricula a \<notin>
                set (map tia_matricula (turma_instrutor_aluno (snd (delete_plano conn k)))))
      \<and> foreign_keys_hold (snd (delete_plano conn k)))
    \<and> (fst (delete_instrutor conn c) = Inr ()
      \<and> c \<notin> set (map i_cref (instrutor (snd (delete_instrutor conn c))))
      \<and> c \<notin> set (map ci_cref (contato_instrutor (snd (delete_instrutor conn c))))
      \<and> c \<notin> set (map t_cref (turma (snd (delete_instrutor conn c))))
      \<and> (\<forall>t \<in> set (turma conn). t_cref t = c \<longrightarrow>
            id_turma t \<notin>
              set (map tia_id_turma (turma_instrutor_aluno (snd (delete_instrutor conn c)))))
      \<and> foreign_keys_hold (snd (delete_instrutor conn c)))
    \<and> (fst (delete_aluno conn m) = Inr ()
      \<and> m \<notin> set (map a_matricula (aluno (snd (delete_aluno conn m))))
      \<and> m \<notin> set (map c_matricula (contato_aluno (snd (delete_aluno conn m))))
      \<and> m \<notin> set (map b_matricula (bioimpedancia (snd (delete_aluno conn m))))
      \<and> m \<notin> set (map tia_matricula (turma_instrutor_aluno (snd (delete_aluno conn m))))
      \<and> foreign_keys_hold (snd (delete_aluno conn m)))
    \<and> (fst (delete_turma conn j) = Inr ()
      \<and> j \<notin> set (map id_turma (turma (snd (delete_turma conn j))))
      \<and> j \<notin> set (map tia_id_turma (turma_instrutor_aluno (snd (delete_turma conn j))))
      \<and> foreign_keys_hold (snd (delete_turma conn j)))"
  using cascade_delete_plano[OF assms, of k] cascade_delete_instrutor[OF assms, of c]
    cascade_delete_aluno[OF assms, of m] cascade_delete_turma[OF assms, of j]
  by (intro conjI) blast+

text \<open>
  In the gym: plan 1 has the student 1, who has a contact, a measurement and an enrolment;
  the instructor 123456 has a contact and the class 1 with its two enrolments.
\<close>

lemma gym_foreign_keys: "foreign_keys_hold gym"
  by (simp add: foreign_keys_hold_def gym_def)

theorem cascading_deletes_leave_no_orphans_witness:
  "foreign_keys_hold gym
   \<and> map a_matricula (aluno gym) = [1, 2] \<and> map a_codigo_plano (aluno gym) = [1, 2]
   \<and> map a_matricula (aluno (snd (delete_plano gym 1))) = [2]
   \<and> map c_matricula (contato_aluno (snd (delete_plano gym 1))) = [2]
   \<and> map b_matricula (bioimpedancia (snd (delete_plano gym 1))) = []
   \<and> map tia_matricula (turma_instrutor_aluno (snd (delete_plano gym 1))) = [2]
   \<and> foreign_keys_hold (snd (delete_plano gym 1))
   \<and> contato_instrutor (snd (delete_instrutor gym 123456)) = []
   \<and> turma (snd (delete_instrutor gym 123456)) = []
   \<and> turma_instrutor_aluno (snd (delete_instrutor gym 123456)) = []
   \<and> foreign_keys_hold (snd (delete_instrutor gym 123456))
   \<and> map c_matricula (contato_aluno (snd (delete_aluno gym 1))) = [2]
   \<and> bioimpedancia (snd (delete_aluno gym 1)) = []
   \<and> map tia_matricula (turma_instrutor_aluno (snd (delete_aluno gym 1))) = [2]
   \<and> foreign_keys_hold (snd (delete_aluno gym 1))
   \<and> turma_instrutor_aluno (snd (delete_turma gym 1)) = []
   \<and> foreign_keys_hold (snd (delete_turma gym 1))"
proof -
  have fk: "foreign_keys_hold (snd (delete_plano gym 1))
      \<and> foreign_keys_hold (snd (delete_instrutor gym 123456))
      \<and> foreign_keys_hold (snd (delete_aluno gym 1))
      \<and> foreign_keys_hold (snd (delete_turma gym 1))"
    using cascading_deletes_leave_no_orphans[OF gym_foreign_keys, of 1 123456 1 1] by simp
  have rows: "map a_matricula (aluno gym) = [1, 2] \<and> map a_codigo_plano (aluno gym) = [1, 2]
   \<and> map a_matricula (aluno (snd (delete_plano gym 1))) = [2]
   \<and> map c_matricula (contato_aluno (snd (delete_plano gym 1))) = [2]
   \<and> map b_matricula (bioimpedancia (snd (delete_plano gym 1))) = []
   \<and> map tia_matricula (turma_instrutor_aluno (snd (delete_plano gym 1))) = [2]
   \<and> contato_instrutor (snd (delete_instrutor gym 123456)) = []
   \<and> turma (snd (delete_instrutor gym 123456)) = []
   \<and> turma_instrutor_aluno (snd (delete_instrutor gym 123456)) = []
   \<and> map c_matricula (contato_aluno (snd (delete_aluno gym 1))) = [2]
   \<and> bioimpedancia (snd (delete_aluno gym 1)) = []
   \<and> map tia_matricula (turma_instrutor_aluno (snd (delete_aluno gym 1))) = [2]
   \<and> turma_instrutor_aluno (snd (delete_turma gym 1)) = []"
    by (simp add: gym_def query_defs)
  show ?thesis using fk rows gym_foreign_keys by simp
qed

section \<open>Partial updates\<close>

lemma list_all2_update_where:
  "(\<And>r. r \<in> set rows \<Longrightarrow> R r (if P r then f r else r)) \<Longrightarrow>
   list_all2 R rows (update_where P f rows)"
  by (simp add: update_where_def list_all2_map2 list_all2_same)

lemma partial_update_plano:
  "update_plano conn k1 None None None = (Inr (), conn)
   \<and> (snd (update_plano conn k1 n1 p1 d1))\<lparr>plano := plano conn\<rparr> = conn
   \<and> list_all2
        (\<lambda>old new.
           codigo_plano new = codigo_plano old
           \<and> (codigo_plano old \<noteq> k1 \<longrightarrow> new = old)
           \<and> (n1 = None \<longrightarrow> nome_plano new = nome_plano old)
           \<and> (p1 = None \<longrightarrow> preco new = preco old)
           \<and> (d1 = None \<longrightarrow> descricao new = descricao old)
           \<and> (fst (update_plano conn k1 n1 p1 d1) = Inr () \<and> codigo_plano old = k1 \<longrightarrow>
                (\<forall>x. n1 = Some x \<longrightarrow> nome_plano new = x)
                \<and> (\<forall>x. p1 = Some x \<longrightarrow> preco new = x)
                \<and> (\<forall>x. d1 = Some x \<longrightarrow> descricao new = Some x)))
        (plano conn) (plano (snd (update_plano conn k1 n1 p1 d1)))"
proof (intro conjI)
  show "update_plano conn k1 None None None = (Inr (), conn)"
    by (simp add: update_plano_def)
  show "(snd (update_plano conn k1 n1 p1 d1))\<lparr>plano := plano conn\<rparr> = conn"
    by (simp add: update_plano_def execute_query_def Let_def)
  show "list_all2
        (\<lambda>old new.
           codigo_plano new = codigo_plano old
           \<and> (codigo_plano old \<noteq> k1 \<longrightarrow> new = old)
           \<and> (n1 = None \<longrightarrow> nome_plano new = nome_plano old)
           \<and> (p1 = None \<longrightarrow> preco new = preco old)
           \<and> (d1 = None \<longrightarrow> descricao new = descricao old)
           \<and> (fst (update_plano conn k1 n1 p1 d1) = Inr () \<and> codigo_plano old = k1 \<longrightarrow>
                (\<forall>x. n1 = Some x \<longrightarrow> nome_plano new = x)
                \<and> (\<forall>x. p1 = Some x \<longrightarrow> preco new = x)
                \<and> (\<forall>x. d1 = Some x \<longrightarrow> descricao new = Some x)))
        (plano conn) (plano (snd (update_plano conn k1 n1 p1 d1)))"
  proof (cases "n1 = None \<and> p1 = None \<and> d1 = None")
    case True
    then show ?thesis
      by (simp add: update_plano_def list_all2_same)
  next
    case False
    then show ?thesis
      by (auto simp: update_plano_def execute_query_def assign_def Let_def list_all2_same
          intro!: list_all2_update_where)
  qed
qed

lemma partial_update_aluno:
  "update_aluno conn k2 None None None None None None = (Inr (), conn)
   \<and> (snd (update_aluno conn k2 c2 n2 s2 b2 d2 p2))\<lparr>aluno := aluno conn\<rparr> = conn
   \<and> list_all2
        (\<lambda>old new.
           a_matricula new = a_matricula old
           \<and> (a_matricula old \<noteq> k2 \<longrightarrow> new = old)
           \<and> (c2 = None \<longrightarrow> a_cpf new = a_cpf old)
           \<and> (n2 = None \<longrightarrow> a_nome new = a_nome old)
           \<and> (s2 = None \<longrightarrow> a_sexo new = a_sexo old)
           \<and> (b2 = None \<longrightarrow> a_data_nascimento new = a_data_nascimento old)
           \<and> (d2 = None \<longrightarrow> a_data_matricula new = a_data_matricula old)
           \<and> (p2 = None \<longrightarrow> a_codigo_plano new = a_codigo_plano old)
           \<and> (fst (update_aluno conn k2 c2 n2 s2 b2 d2 p2) = Inr () \<and> a_matricula old = k2 \<longrightarrow>
                (\<forall>x. c2 = Some x \<longrightarrow> a_cpf new = x)
                \<and> (\<forall>x. n2 = Some x \<longrightarrow> a_nome new = x)
                \<and> (\<forall>x. s2 = Some x \<longrightarrow> a_sexo new = x)
                \<and> (\<forall>x. b2 = Some x \<longrightarrow> a_data_nascimento new = x)
                \<and> (\<forall>x. d2 = Some x \<longrightarrow> a_data_matricula new = x)
                \<and> (\<forall>x. p2 = Some x \<longrightarrow> a_codigo_plano new = x)))
        (aluno conn) (aluno (snd (update_aluno conn k2 c2 n2 s2 b2 d2 p2)))"
proof (intro conjI)
  show "update_aluno conn k2 None None None None None None = (Inr (), conn)"
    by (simp add: update_aluno_def)
  show "(snd (update_aluno conn k2 c2 n2 s2 b2 d2 p2))\<lparr>aluno := aluno conn\<rparr> = conn"
    by (simp add: update_aluno_def execute_query_def Let_def sql_update_aluno_def)
  show "list_all2
        (\<lambda>old new.
           a_matricula new = a_matricula old
           \<and> (a_matricula old \<noteq> k2 \<longrightarrow> new = old)
           \<and> (c2 = None \<longrightarrow> a_cpf new = a_cpf old)
           \<and> (n2 = None \<longrightarrow> a_nome new = a_nome old)
           \<and> (s2 = None \<longrightarrow> a_sexo new = a_sexo old)
           \<and> (b2 = None \<longrightarrow> a_data_nascimento new = a_data_nascimento old)
           \<and> (d2 = None \<longrightarrow> a_data_matricula new = a_data_matricula old)
           \<and> (p2 = None \<longrightarrow> a_codigo_plano new = a_codigo_plano old)
           \<and> (fst (update_aluno conn k2 c2 n2 s2 b2 d2 p2) = Inr () \<and> a_matricula old = k2 \<longrightarrow>
                (\<forall>x. c2 = Some x \<longrightarrow> a_cpf new = x)
                \<and> (\<forall>x. n2 = Some x \<longrightarrow> a_nome new = x)
                \<and> (\<forall>x. s2 = Some x \<longrightarrow> a_sexo new = x)
                \<and> (\<forall>x. b2 = Some x \<longrightarrow> a_data_nascimento new = x)
                \<and> (\<forall>x. d2 = Some x \<longrightarrow> a_data_matricula new = x)
                \<and> (\<forall>x. p2 = Some x \<longrightarrow> a_codigo_plano new = x)))
        (aluno conn) (aluno (snd (update_aluno conn k2 c2 n2 s2 b2 d2 p2)))"
  proof (cases "c2 = None \<and> n2 = None \<and> s2 = None \<and> b2 = None \<and> d2 = None \<and> p2 = None")
    case True
    then show ?thesis
      by (simp add: update_aluno_def list_all2_same)
  next
    case False
    then show ?thesis
      by (auto simp: update_aluno_def execute_query_def assign_def Let_def list_all2_same sql_update_aluno_def
          intro!: list_all2_update_where)
  qed
qed

lemma partial_update_instrutor:
  "update_instrutor adult conn k3 None None None None None = (Inr (), conn)
   \<and> (snd (update_instrutor adult conn k3 c3 n3 b3 d3 t3))\<lparr>instrutor := instrutor conn\<rparr> = conn
   \<and> list_all2
        (\<lambda>old new.
           i_cref new = i_cref old
           \<and> (i_cref old \<noteq> k3 \<longrightarrow> new = old)
           \<and> (c3 = None \<longrightarrow> i_cpf new = i_cpf old)
           \<and> (n3 = None \<longrightarrow> i_nome new = i_nome old)
           \<and> (b3 = None \<longrightarrow> i_data_nascimento new = i_data_nascimento old)
           \<and> (d3 = None \<longrightarrow> i_data_admissao new = i_data_admissao old)
           \<and> (t3 = None \<longrightarrow> i_turno new = i_turno old)
           \<and> (fst (update_instrutor adult conn k3 c3 n3 b3 d3 t3) = Inr () \<and> i_cref old = k3 \<longrightarrow>
                (\<forall>x. c3 = Some x \<longrightarrow> i_cpf new = x)
                \<and> (\<forall>x. n3 = Some x \<longrightarrow> i_nome new = x)
                \<and> (\<forall>x. b3 = Some x \<longrightarrow> i_data_nascimento new = x)
                \<and> (\<forall>x. d3 = Some x \<longrightarrow> i_data_admissao new = x)
                \<and> (\<forall>x. t3 = Some x \<longrightarrow> i_turno new = x)))
        (instrutor conn) (instrutor (snd (update_instrutor adult conn k3 c3 n3 b3 d3 t3)))"
proof (intro conjI)
  show "update_instrutor adult conn k3 None None None None None = (Inr (), conn)"
    by (simp add: update_instrutor_def)
  show "(snd (update_instrutor adult conn k3 c3 n3 b3 d3 t3))\<lparr>instrutor := instrutor conn\<rparr> = conn"
    by (simp add: update_instrutor_def execute_query_def Let_def)
  show "list_all2
        (\<lambda>old new.
           i_cref new = i_cref old
           \<and> (i_cref old \<noteq> k3 \<longrightarrow> new = old)
           \<and> (c3 = None \<longrightarrow> i_cpf new = i_cpf old)
           \<and> (n3 = None \<longrightarrow> i_nome new = i_nome old)
           \<and> (b3 = None \<longrightarrow> i_data_nascimento new = i_data_nascimento old)
           \<and> (d3 = None \<longrightarrow> i_data_admissao new = i_data_admissao old)
           \<and> (t3 = None \<longrightarrow> i_turno new = i_turno old)
           \<and> (fst (update_instrutor adult conn k3 c3 n3 b3 d3 t3) = Inr () \<and> i_cref old = k3 \<longrightarrow>
                (\<forall>x. c3 = Some x \<longrightarrow> i_cpf new = x)
                \<and> (\<forall>x. n3 = Some x \<longrightarrow> i_nome new = x)
                \<and> (\<forall>x. b3 = Some x \<longrightarrow> i_data_nascimento new = x)
                \<and> (\<forall>x. d3 = Some x \<longrightarrow> i_data_admissao new = x)
                \<and> (\<forall>x. t3 = Some x \<longrightarrow> i_turno new = x)))
        (instrutor conn) (instrutor (snd (update_instrutor adult conn k3 c3 n3 b3 d3 t3)))"
  proof (cases "c3 = None \<and> n3 = None \<and> b3 = None \<and> d3 = None \<and> t3 = None")
    case True
    then show ?thesis
      by (simp add: update_instrutor_def list_all2_same)
  next
    case False
    then show ?thesis
      by (auto simp: update_instrutor_def execute_query_def assign_def Let_def list_all2_same
          intro!: list_all2_update_where)
  qed
qed

lemma partial_update_turma:
  "update_turma conn k4 None None None None = (Inr (), conn)
   \<and> (snd (update_turma conn k4 n4 v4 t4 c4))\<lparr>turma := turma conn\<rparr> = conn
   \<and> list_all2
        (\<lambda>old new.
           id_turma new = id_turma old
           \<and> (id_turma old \<noteq> k4 \<longrightarrow> new = old)
           \<and> (n4 = None \<longrightarrow> nome_atividade new = nome_atividade old)
           \<and> (v4 = None \<longrightarrow> quantidade_vagas new = quantidade_vagas old)
           \<and> (t4 = None \<longrightarrow> t_turno new = t_turno old)
           \<and> (c4 = None \<longrightarrow> t_cref new = t_cref old)
           \<and> (fst (update_turma conn k4 n4 v4 t4 c4) = Inr () \<and> id_turma old = k4 \<longrightarrow>
                (\<forall>x. n4 = Some x \<longrightarrow> nome_atividade new = x)
                \<and> (\<forall>x. v4 = Some x \<longrightarrow> quantidade_vagas new = x)
                \<and> (\<forall>x. t4 = Some x \<longrightarrow> t_turno new = x)
                \<and> (\<forall>x. c4 = Some x \<longrightarrow> t_cref new = x)))
        (turma conn) (turma (snd (update_turma conn k4 n4 v4 t4 c4)))"
proof (intro conjI)
  show "update_turma conn k4 None None None None = (Inr (), conn)"
    by (simp add: update_turma_def)
  show "(snd (update_turma conn k4 n4 v4 t4 c4))\<lparr>turma := turma conn\<rparr> = conn"
    by (simp add: update_turma_def execute_query_def Let_def)
  show "list_all2
        (\<lambda>old new.
           id_turma new = id_turma old
           \<and> (id_turma old \<noteq> k4 \<longrightarrow> new = old)
           \<and> (n4 = None \<longrightarrow> nome_atividade new = nome_atividade old)
           \<and> (v4 = None \<longrightarrow> quantidade_vagas new = quantidade_vagas old)
           \<and> (t4 = None \<longrightarrow> t_turno new = t_turno old)
           \<and> (c4 = None \<longrightarrow> t_cref new = t_cref old)
           \<and> (fst (update_turma conn k4 n4 v4 t4 c4) = Inr () \<and> id_turma old = k4 \<longrightarrow>
                (\<forall>x. n4 = Some x \<longrightarrow> nome_atividade new = x)
                \<and> (\<forall>x. v4 = Some x \<longrightarrow> quantidade_vagas new = x)
                \<and> (\<forall>x. t4 = Some x \<longrightarrow> t_turno new = x)
                \<and> (\<forall>x. c4 = Some x \<longrightarrow> t_cref new = x)))
        (turma conn) (turma (snd (update_turma conn k4 n4 v4 t4 c4)))"
  proof (cases "n4 = None \<and> v4 = None \<and> t4 = None \<and> c4 = None")
    case True
    then show ?thesis
      by (simp add: update_turma_def list_all2_same)
  next
    case False
    then show ?thesis
      by (auto simp: update_turma_def execute_query_def assign_def Let_def list_all2_same
          intro!: list_all2_update_where)
  qed
qed

lemma partial_update_contato_aluno:
  "update_contato_aluno conn k5 None None = (Inr (), conn)
   \<and> (snd (update_contato_aluno conn k5 t5 e5))\<lparr>contato_aluno := contato_aluno conn\<rparr> = conn
   \<and> list_all2
        (\<lambda>old new.
           c_matricula new = c_matricula old
           \<and> (c_matricula old \<noteq> k5 \<longrightarrow> new = old)
           \<and> (t5 = None \<longrightarrow> c_telefone new = c_telefone old)
           \<and> (e5 = None \<longrightarrow> c_email new = c_email old)
           \<and> (fst (update_contato_aluno conn k5 t5 e5) = Inr () \<and> c_matricula old = k5 \<longrightarrow>
                (\<forall>x. t5 = Some x \<longrightarrow> c_telefone new = x)
                \<and> (\<forall>x. e5 = Some x \<longrightarrow> c_email new = Some x)))
        (contato_aluno conn) (contato_aluno (snd (update_contato_aluno conn k5 t5 e5)))"
proof (intro conjI)
  show "update_contato_aluno conn k5 None None = (Inr (), conn)"
    by (simp add: update_contato_aluno_def)
  show "(snd (update_contato_aluno conn k5 t5 e5))\<lparr>contato_aluno := contato_aluno conn\<rparr> = conn"
    by (simp add: update_contato_aluno_def execute_query_def Let_def)
  show "list_all2
        (\<lambda>old new.
           c_matricula new = c_matricula old
           \<and> (c_matricula old \<noteq> k5 \<longrightarrow> new = old)
           \<and> (t5 = None \<longrightarrow> c_telefone new = c_telefone old)
           \<and> (e5 = None \<longrightarrow> c_email new = c_email old)
           \<and> (fst (update_contato_aluno conn k5 t5 e5) = Inr () \<and> c_matricula old = k5 \<longrightarrow>
                (\<forall>x. t5 = Some x \<longrightarrow> c_telefone new = x)
                \<and> (\<forall>x. e5 = Some x \<longrightarrow> c_email new = Some x)))
        (contato_aluno conn) (contato_aluno (snd (update_contato_aluno conn k5 t5 e5)))"
  proof (cases "t5 = None \<and> e5 = None")
    case True
    then show ?thesis
      by (simp add: update_contato_aluno_def list_all2_same)
  next
    case False
    then show ?thesis
      by (auto simp: update_contato_aluno_def execute_query_def assign_def Let_def list_all2_same
          intro!: list_all2_update_where)
  qed
qed

lemma partial_update_contato_instrutor:
  "update_contato_instrutor conn k6 None None = (Inr (), conn)
   \<and> (snd (update_contato_instrutor conn k6 t6 e6))\<lparr>contato_instrutor := contato_instrutor conn\<rparr> = conn
   \<and> list_all2
        (\<lambda>old new.
           ci_cref new = ci_cref old
           \<and> (ci_cref old \<noteq> k6 \<longrightarrow> new = old)
           \<and> (t6 = None \<longrightarrow> ci_telefone new = ci_telefone old)
           \<and> (e6 = None \<longrightarrow> ci_email new = ci_email old)
           \<and> (fst (update_contato_instrutor conn k6 t6 e6) = Inr () \<and> ci_cref old = k6 \<longrightarrow>
                (\<forall>x. t6 = Some x \<longrightarrow> ci_telefone new = x)
                \<and> (\<forall>x. e6 = Some x \<longrightarrow> ci_email new = Some x)))
        (contato_instrutor conn) (contato_instrutor (snd (update_contato_instrutor conn k6 t6 e6)))"
proof (intro conjI)
  show "update_contato_instrutor conn k6 None None = (Inr (), conn)"
    by (simp add: update_contato_instrutor_def)
  show "(snd (update_contato_instrutor conn k6 t6 e6))\<lparr>contato_instrutor := contato_instrutor conn\<rparr> = conn"
    by (simp add: update_contato_instrutor_def execute_query_def Let_def)
  show "list_all2
        (\<lambda>old new.
           ci_cref new = ci_cref old
           \<and> (ci_cref old \<noteq> k6 \<longrightarrow> new = old)
           \<and> (t6 = None \<longrightarrow> ci_telefone new = ci_telefone old)
           \<and> (e6 = None \<longrightarrow> ci_email new = ci_email old)
           \<and> (fst (update_contato_instrutor conn k6 t6 e6) = Inr () \<and> ci_cref old = k6 \<longrightarrow>
                (\<forall>x. t6 = Some x \<longrightarrow> ci_telefone new = x)
                \<and> (\<forall>x. e6 = Some x \<longrightarrow> ci_email new = Some x)))
        (contato_instrutor conn) (contato_instrutor (snd (update_contato_instrutor conn k6 t6 e6)))"
  proof (cases "t6 = None \<and> e6 = None")
    case True
    then show ?thesis
      by (simp add: update_contato_instrutor_def list_all2_same)
  next
    case False
    then show ?thesis
      by (auto simp: update_contato_instrutor_def execute_query_def assign_def Let_def list_all2_same
          intro!: list_all2_update_where)
  qed
qed

lemma partial_update_bioimpedancia:
  "update_bioimpedancia conn k7 None None None None None = (Inr (), conn)
   \<and> (snd (update_bioimpedancia conn k7 p7 a7 t7 g7 q7))\<lparr>bioimpedancia := bioimpedancia conn\<rparr> = conn
   \<and> list_all2
        (\<lambda>old new.
           b_matricula new = b_matricula old
           \<and> (b_matricula old \<noteq> k7 \<longrightarrow> new = old)
           \<and> (p7 = None \<longrightarrow> peso new = peso old)
           \<and> (a7 = None \<longrightarrow> altura new = altura old)
           \<and> (t7 = None \<longrightarrow> tmb new = tmb old)
           \<and> (g7 = None \<longrightarrow> percentual_gordura new = percentual_gordura old)
           \<and> (q7 = None \<longrightarrow> quantidade_agua new = quantidade_agua old)
           \<and> (fst (update_bioimpedancia conn k7 p7 a7 t7 g7 q7) = Inr () \<and> b_matricula old = k7 \<longrightarrow>
                (\<forall>x. p7 = Some x \<longrightarrow> peso new = x)
                \<and> (\<forall>x. a7 = Some x \<longrightarrow> altura new = x)
                \<and> (\<forall>x. t7 = Some x \<longrightarrow> tmb new = x)
                \<and> (\<forall>x. g7 = Some x \<longrightarrow> percentual_gordura new = x)
                \<and> (\<forall>x. q7 = Some x \<longrightarrow> quantidade_agua new = x)))
        (bioimpedancia conn) (bioimpedancia (snd (update_bioimpedancia conn k7 p7 a7 t7 g7 q7)))"
proof (intro conjI)
  show "update_bioimpedancia conn k7 None None None None None = (Inr (), conn)"
    by (simp add: update_bioimpedancia_def)
  show "(snd (update_bioimpedancia conn k7 p7 a7 t7 g7 q7))\<lparr>bioimpedancia := bioimpedancia conn\<rparr> = conn"
    by (simp add: update_bioimpedancia_def execute_query_def Let_def)
  show "list_all2
        (\<lambda>old new.
           b_matricula new = b_matricula old
           \<and> (b_matricula old \<noteq> k7 \<longrightarrow> new = old)
           \<and> (p7 = None \<longrightarrow> peso new = peso old)
           \<and> (a7 = None \<longrightarrow> altura new = altura old)
           \<and> (t7 = None \<longrightarrow> tmb new = tmb old)
           \<and> (g7 = None \<longrightarrow> percentual_gordura new = percentual_gordura old)
           \<and> (q7 = None \<longrightarrow> quantidade_agua new = quantidade_agua old)
           \<and> (fst (update_bioimpedancia conn k7 p7 a7 t7 g7 q7) = Inr () \<and> b_matricula old = k7 \<longrightarrow>
                (\<forall>x. p7 = Some x \<longrightarrow> peso new = x)
                \<and> (\<forall>x. a7 = Some x \<longrightarrow> altura new = x)
                \<and> (\<forall>x. t7 = Some x \<longrightarrow> tmb new = x)
                \<and> (\<forall>x. g7 = Some x \<longrightarrow> percentual_gordura new = x)
                \<and> (\<forall>x. q7 = Some x \<longrightarrow> quantidade_agua new = x)))
        (bioimpedancia conn) (bioimpedancia (snd (update_bioimpedancia conn k7 p7 a7 t7 g7 q7)))"
  proof (cases "p7 = None \<and> a7 = None \<and> t7 = None \<and> g7 = None \<and> q7 = None")
    case True
    then show ?thesis
      by (simp add: update_bioimpedancia_def list_all2_same)
  next
    case False
    then show ?thesis
      by (auto simp: update_bioimpedancia_def execute_query_def assign_def Let_def list_all2_same
          intro!: list_all2_update_where)
  qed
qed

text \<open>
  Claim C5.  For each of the partial updates (plan, student, instructor, class, the two
  contacts, measurement), whatever the combination of present and absent arguments: the
  call with every field absent returns at once with the store as it was; no other table
  changes; the table keeps its rows in place with their keys; a row the \<^verbatim>\<open>WHERE\<close>
  clause does not select is unchanged; in every row, a column whose argument is absent
  keeps its stored value (it is never set to \<^verbatim>\<open>NULL\<close>); and when the update succeeds,
  a column whose argument is present holds that argument in the selected rows.  An update
  that the store rejects changes nothing.
\<close>

theorem partial_update_keeps_absent_fields:
  "(update_plano conn k1 None None None = (Inr (), conn)
   \<and> (snd (update_plano conn k1 n1 p1 d1))\<lparr>plano := plano conn\<rparr> = conn
   \<and> list_all2
        (\<lambda>old new.
           codigo_plano new = codigo_plano old
           \<and> (codigo_plano old \<noteq> k1 \<longrightarrow> new = old)
           \<and> (n1 = None \<longrightarrow> nome_plano new = nome_plano old)
           \<and> (p1 = None \<longrightarrow> preco new = preco old)
           \<and> (d1 = None \<longrightarrow> descricao new = descricao old)
           \<and> (fst (update_plano conn k1 n1 p1 d1) = Inr () \<and> codigo_plano old = k1 \<longrightarrow>
                (\<forall>x. n1 = Some x \<longrightarrow> nome_plano new = x)
                \<and> (\<forall>x. p1 = Some x \<longrightarrow> preco new = x)
                \<and> (\<forall>x. d1 = Some x \<longrightarrow> descricao new = Some x)))
        (plano conn) (plano (snd (update_plano conn k1 n1 p1 d1))))
   \<and> (update_aluno conn k2 None None None None None None = (Inr (), conn)
   \<and> (snd (update_aluno conn k2 c2 n2 s2 b2 d2 p2))\<lparr>aluno := aluno conn\<rparr> = conn
   \<and> list_all2
        (\<lambda>old new.
           a_matricula new = a_matricula old
           \<and> (a_matricula old \<noteq> k2 \<longrightarrow> new = old)
           \<and> (c2 = None \<longrightarrow> a_cpf new = a_cpf old)
           \<and> (n2 = None \<longrightarrow> a_nome new = a_nome old)
           \<and> (s2 = None \<longrightarrow> a_sexo new = a_sexo old)
           \<and> (b2 = None \<longrightarrow> a_data_nascimento new = a_data_nascimento old)
           \<and> (d2 = None \<longrightarrow> a_data_matricula new = a_data_matricula old)
           \<and> (p2 = None \<longrightarrow> a_codigo_plano new = a_codigo_plano old)
           \<and> (fst (update_aluno conn k2 c2 n2 s2 b2 d2 p2) = Inr () \<and> a_matricula old = k2 \<longrightarrow>
                (\<forall>x. c2 = Some x \<longrightarrow> a_cpf new = x)
                \<and> (\<forall>x. n2 = Some x \<longrightarrow> a_nome new = x)
                \<and> (\<forall>x. s2 = Some x \<longrightarrow> a_sexo new = x)
                \<and> (\<forall>x. b2 = Some x \<longrightarrow> a_data_nascimento new = x)
                \<and> (\<forall>x. d2 = Some x \<longrightarrow> a_data_matricula new = x)
                \<and> (\<forall>x. p2 = Some x \<longrightarrow> a_codigo_plano new = x)))
        (aluno conn) (aluno (snd (update_aluno conn k2 c2 n2 s2 b2 d2 p2))))
   \<and> (update_instrutor adult conn k3 None None None None None = (Inr (), conn)
   \<and> (snd (update_instrutor adult conn k3 c3 n3 b3 d3 t3))\<lparr>instrutor := instrutor conn\<rparr> = conn
   \<and> list_all2
        (\<lambda>old new.
           i_cref new = i_cref old
           \<and> (i_cref old \<noteq> k3 \<longrightarrow> new = old)
           \<and> (c3 = None \<longrightarrow> i_cpf new = i_cpf old)
           \<and> (n3 = None \<longrightarrow> i_nome new = i_nome old)
           \<and> (b3 = None \<longrightarrow> i_data_nascimento new = i_data_nascimento old)
           \<and> (d3 = None \<longrightarrow> i_data_admissao new = i_data_admissao old)
           \<and> (t3 = None \<longrightarrow> i_turno new = i_turno old)
           \<and> (fst (update_instrutor adult conn k3 c3 n3 b3 d3 t3) = Inr () \<and> i_cref old = k3 \<longrightarrow>
                (\<forall>x. c3 = Some x \<longrightarrow> i_cpf new = x)
                \<and> (\<forall>x. n3 = Some x \<longrightarrow> i_nome new = x)
                \<and> (\<forall>x. b3 = Some x \<longrightarrow> i_data_nascimento new = x)
                \<and> (\<forall>x. d3 = Some x \<longrightarrow> i_data_admissao new = x)
                \<and> (\<forall>x. t3 = Some x \<longrightarrow> i_turno new = x)))
        (instrutor conn) (instrutor (snd (update_instrutor adult conn k3 c3 n3 b3 d3 t3))))
   \<and> (update_turma conn k4 None None None None = (Inr (), conn)
   \<and> (snd (update_turma conn k4 n4 v4 t4 c4))\<lparr>turma := turma conn\<rparr> = conn
   \<and> list_all2
        (\<lambda>old new.
           id_turma new = id_turma old
           \<and> (id_turma old \<noteq> k4 \<longrightarrow> new = old)
           \<and> (n4 = None \<longrightarrow> nome_atividade new = nome_atividade old)
           \<and> (v4 = None \<longrightarrow> quantidade_vagas new = quantidade_vagas old)
           \<and> (t4 = None \<longrightarrow> t_turno new = t_turno old)
           \<and> (c4 = None \<longrightarrow> t_cref new = t_cref old)
           \<and> (fst (update_turma conn k4 n4 v4 t4 c4) = Inr () \<and> id_turma old = k4 \<longrightarrow>
                (\<forall>x. n4 = Some x \<longrightarrow> nome_atividade new = x)
                \<and> (\<forall>x. v4 = Some x \<longrightarrow> quantidade_vagas new = x)
                \<and> (\<forall>x. t4 = Some x \<longrightarrow> t_turno new = x)
                \<and> (\<forall>x. c4 = Some x \<longrightarrow> t_cref new = x)))
        (turma conn) (turma (snd (update_turma conn k4 n4 v4 t4 c4))))
   \<and> (update_contato_aluno conn k5 None None = (Inr (), conn)
   \<and> (snd (update_contato_aluno conn k5 t5 e5))\<lparr>contato_aluno := contato_aluno conn\<rparr> = conn
   \<and> list_all2
        (\<lambda>old new.
           c_matricula new = c_matricula old
           \<and> (c_matricula old \<noteq> k5 \<longrightarrow> new = old)
           \<and> (t5 = None \<longrightarrow> c_telefone new = c_telefone old)
           \<and> (e5 = None \<longrightarrow> c_email new = c_email old)
           \<and> (fst (update_contato_aluno conn k5 t5 e5) = Inr () \<and> c_matricula old = k5 \<longrightarrow>
                (\<forall>x. t5 = Some x \<longrightarrow> c_telefone new = x)
                \<and> (\<forall>x. e5 = Some x \<longrightarrow> c_email new = Some x)))
        (contato_aluno conn) (contato_aluno (snd (update_contato_aluno conn k5 t5 e5))))
   \<and> (update_contato_instrutor conn k6 None None = (Inr (), conn)
   \<and> (snd (update_contato_instrutor conn k6 t6 e6))\<lparr>contato_instrutor := contato_instrutor conn\<rparr> = conn
   \<and> list_all2
        (\<lambda>old new.
           ci_cref new = ci_cref old
           \<and> (ci_cref old \<noteq> k6 \<longrightarrow> new = old)
           \<and> (t6 = None \<longrightarrow> ci_telefone new = ci_telefone old)
           \<and> (e6 = None \<longrightarrow> ci_email new = ci_email old)
           \<and> (fst (update_contato_instrutor conn k6 t6 e6) = Inr () \<and> ci_cref old = k6 \<longrightarrow>
                (\<forall>x. t6 = Some x \<longrightarrow> ci_telefone new = x)
                \<and> (\<forall>x. e6 = Some x \<longrightarrow> ci_email new = Some x)))
        (contato_instrutor conn) (contato_instrutor (snd (update_contato_instrutor conn k6 t6 e6))))
   \<and> (update_bioimpedancia conn k7 None None None None None = (Inr (), conn)
   \<and> (snd (update_bioimpedancia conn k7 p7 a7 t7 g7 q7))\<lparr>bioimpedancia := bioimpedancia conn\<rparr> = conn
   \<and> list_all2
        (\<lambda>old new.
           b_matricula new = b_matricula old
           \<and> (b_matricula old \<noteq> k7 \<longrightarrow> new = old)
           \<and> (p7 = None \<longrightarrow> peso new = peso old)
           \<and> (a7 = None \<longrightarrow> altura new = altura old)
           \<and> (t7 = None \<longrightarrow> tmb new = tmb old)
           \<and> (g7 = None \<longrightarrow> percentual_gordura new = percentual_gordura old)
           \<and> (q7 = None \<longrightarrow> quantidade_agua new = quantidade_agua old)
           \<and> (fst (update_bioimpedancia conn k7 p7 a7 t7 g7 q7) = Inr () \<and> b_matricula old = k7 \<longrightarrow>
                (\<forall>x. p7 = Some x \<longrightarrow> peso new = x)
                \<and> (\<forall>x. a7 = Some x \<longrightarrow> altura new = x)
                \<and> (\<forall>x. t7 = Some x \<longrightarrow> tmb new = x)
                \<and> (\<forall>x. g7 = Some x \<longrightarrow> percentual_gordura new = x)
                \<and> (\<forall>x. q7 = Some x \<longrightarrow> quantidade_agua new = x)))
        (bioimpedancia conn) (bioimpedancia (snd (update_bioimpedancia conn k7 p7 a7 t7 g7 q7))))"
  by (intro conjI
      partial_update_plano[THEN conjunct1] partial_update_plano[THEN conjunct2, THEN conjunct1]
      partial_update_plano[THEN conjunct2, THEN conjunct2]
      partial_update_aluno[THEN conjunct1] partial_update_aluno[THEN conjunct2, THEN conjunct1]
      partial_update_aluno[THEN conjunct2, THEN conjunct2]
      partial_update_instrutor[THEN conjunct1] partial_update_instrutor[THEN conjunct2, THEN conjunct1]
      partial_update_instrutor[THEN conjunct2, THEN conjunct2]
      partial_update_turma[THEN conjunct1] partial_update_turma[THEN conjunct2, THEN conjunct1]
      partial_update_turma[THEN conjunct2, THEN conjunct2]
      partial_update_contato_aluno[THEN conjunct1] partial_update_contato_aluno[THEN conjunct2, THEN conjunct1]
      partial_update_contato_aluno[THEN conjunct2, THEN conjunct2]
      partial_update_contato_instrutor[THEN conjunct1] partial_update_contato_instrutor[THEN conjunct2, THEN conjunct1]
      partial_update_contato_instrutor[THEN conjunct2, THEN conjunct2]
      partial_update_bioimpedancia[THEN conjunct1] partial_update_bioimpedancia[THEN conjunct2, THEN conjunct1]
      partial_update_bioimpedancia[THEN conjunct2, THEN conjunct2])


text \<open>
  In the gym: a new price for plan 2, a new name for student 1, a new activity for class 1;
  the columns that were not given keep their values.
\<close>

lemma list_all2_same_column:
  "list_all2 R old new \<Longrightarrow> (\<And>x y. R x y \<Longrightarrow> f y = f x) \<Longrightarrow> map f new = map f old"
  by (induction rule: list_all2_induct) auto

theorem partial_update_keeps_absent_fields_witness:
  "update_plano gym 2 None None None = (Inr (), gym)
   \<and> map nome_plano (plano (snd (update_plano gym 2 None (Some 120) None))) =
       [''Basic'', ''Premium'']
   \<and> map preco (plano (snd (update_plano gym 2 None (Some 120) None))) = [50, 120]
   \<and> map descricao (plano (snd (update_plano gym 2 None (Some 120) None))) =
       [None, Some ''Todas as modalidades'']
   \<and> update_aluno gym 1 None None None None None None = (Inr (), gym)
   \<and> map a_nome (aluno (snd (update_aluno gym 1 None (Some ''Ana Lima'') None None None None))) =
       [''Ana Lima'', ''Bruno'']
   \<and> map a_codigo_plano
         (aluno (snd (update_aluno gym 1 None (Some ''Ana Lima'') None None None None))) = [1, 2]
   \<and> update_turma gym 1 None None None None = (Inr (), gym)
   \<and> map nome_atividade (turma (snd (update_turma gym 1 (Some ''Pilates'') None None None))) =
       [''Pilates'']
   \<and> map quantidade_vagas (turma (snd (update_turma gym 1 (Some ''Pilates'') None None None))) =
       [2]"
proof -
  note T = partial_update_keeps_absent_fields[where conn = gym and ?k1.0 = 2 and ?n1.0 = None
      and ?p1.0 = "Some 120" and ?d1.0 = None and ?k2.0 = 1 and ?c2.0 = None
      and ?n2.0 = "Some ''Ana Lima''" and ?s2.0 = None and ?b2.0 = None and ?d2.0 = None
      and ?p2.0 = None and ?k4.0 = 1 and ?n4.0 = "Some ''Pilates''" and ?v4.0 = None
      and ?t4.0 = None and ?c4.0 = None]
  have none: "update_plano gym 2 None None None = (Inr (), gym)"
    "update_aluno gym 1 None None None None None None = (Inr (), gym)"
    "update_turma gym 1 None None None None = (Inr (), gym)"
    using T by blast+
  have kept_plano:
    "map nome_plano (plano (snd (update_plano gym 2 None (Some 120) None))) =
       map nome_plano (plano gym)"
    "map descricao (plano (snd (update_plano gym 2 None (Some 120) None))) =
       map descricao (plano gym)"
    using T[THEN conjunct1, THEN conjunct2, THEN conjunct2]
    by (auto elim!: list_all2_same_column)
  have kept_aluno:
    "map a_codigo_plano
       (aluno (snd (update_aluno gym 1 None (Some ''Ana Lima'') None None None None))) =
       map a_codigo_plano (aluno gym)"
    using T[THEN conjunct2, THEN conjunct1, THEN conjunct2, THEN conjunct2]
    by (auto elim!: list_all2_same_column)
  have kept_turma:
    "map quantidade_vagas (turma (snd (update_turma gym 1 (Some ''Pilates'') None None None))) =
       map quantidade_vagas (turma gym)"
    using T[THEN conjunct2, THEN conjunct2, THEN conjunct2, THEN conjunct1, THEN conjunct2,
        THEN conjunct2]
    by (auto elim!: list_all2_same_column)
  have written:
    "map preco (plano (snd (update_plano gym 2 None (Some 120) None))) = [50, 120]"
    "map a_nome (aluno (snd (update_aluno gym 1 None (Some ''Ana Lima'') None None None None))) =
       [''Ana Lima'', ''Bruno'']"
    "map nome_atividade (turma (snd (update_turma gym 1 (Some ''Pilates'') None None None))) =
       [''Pilates'']"
    by (simp_all add: gym_def query_defs)
  have old: "map nome_plano (plano gym) = [''Basic'', ''Premium'']"
    "map descricao (plano gym) = [None, Some ''Todas as modalidades'']"
    "map a_codigo_plano (aluno gym) = [1, 2]"
    "map quantidade_vagas (turma gym) = [2]"
    by (simp_all add: gym_def)
  show ?thesis
    unfolding kept_plano kept_aluno kept_turma old written none by simp
qed

section \<open>Changing the plan of a student\<close>

lemma filter_key_unique_sym:
  "distinct (map f xs) \<Longrightarrow> x \<in> set xs \<Longrightarrow> filter (\<lambda>y. f x = f y) xs = [x]"
  using filter_key_unique[of f xs x] by (simp add: eq_commute[of "f x"])

text \<open>
  The rule of the plan change is in the stored function \<^verbatim>\<open>atualizar_plano_aluno\<close>.
  In a store whose plans and students have distinct ids, for an existing student (whose
  current plan exists) and an existing new plan: the function reports success if and only
  if the price of the new plan is strictly greater than the price of the current one; on
  success the student's row, and no other, has the new plan and \<^verbatim>\<open>CURRENT_DATE\<close> as
  its enrolment date, with every other column and table as before; otherwise the function
  returns its message of error and the store is unchanged.
\<close>

lemma atualizar_plano_aluno_upgrade_only:
  assumes "distinct (map codigo_plano (plano conn))"
    and "distinct (map a_matricula (aluno conn))"
    and "a \<in> set (aluno conn)"
    and "atual \<in> set (plano conn)" and "codigo_plano atual = a_codigo_plano a"
    and "novo \<in> set (plano conn)"
  shows "(fst (atualizar_plano_aluno today conn (a_matricula a) (codigo_plano novo)) =
            Inr ''Plano alterado com sucesso!'') = (preco atual < preco novo)
    \<and> (preco atual < preco novo \<longrightarrow>
          (snd (atualizar_plano_aluno today conn (a_matricula a) (codigo_plano novo)))
            \<lparr>aluno := aluno conn\<rparr> = conn
          \<and> list_all2
              (\<lambda>old new.
                 if a_matricula old = a_matricula a
                 then new = old\<lparr>a_codigo_plano := codigo_plano novo, a_data_matricula := today\<rparr>
                 else new = old)
              (aluno conn)
              (aluno (snd (atualizar_plano_aluno today conn (a_matricula a) (codigo_plano novo)))))
    \<and> (preco novo \<le> preco atual \<longrightarrow>
          atualizar_plano_aluno today conn (a_matricula a) (codigo_plano novo) =
            (Inr ''Erro: O novo plano deve ser mais caro que o atual!'', conn))"
proof -
  let ?m = "a_matricula a" and ?p = "codigo_plano novo"
  have fa: "filter (\<lambda>x. a_matricula x = ?m) (aluno conn) = [a]"
    using filter_key_unique[OF assms(2,3)] .
  have fp: "filter (\<lambda>p. a_codigo_plano a = codigo_plano p) (plano conn) = [atual]"
    using filter_key_unique_sym[OF assms(1,4)] assms(5) by simp
  have fn: "filter (\<lambda>p. codigo_plano p = ?p) (plano conn) = [novo]"
    using filter_key_unique[OF assms(1,6)] .
  have pin: "?p \<in> set (map codigo_plano (plano conn))" using assms(6) by simp
  show ?thesis
  proof (cases "preco novo \<le> preco atual")
    case True
    then show ?thesis
      by (simp add: atualizar_plano_aluno_def fa fp fn first_row_def)
  next
    case False
    have upd: "sql_update_aluno conn ?m None None None None (Some today) (Some ?p) =
        (Inr (), conn\<lparr>aluno := update_where (\<lambda>x. a_matricula x = ?m)
           (\<lambda>x. x\<lparr>a_data_matricula := today, a_codigo_plano := ?p\<rparr>) (aluno conn)\<rparr>)"
      using pin by (simp add: sql_update_aluno_def fa assign_def)
    have res: "atualizar_plano_aluno today conn ?m ?p =
        (Inr ''Plano alterado com sucesso!'',
         conn\<lparr>aluno := update_where (\<lambda>x. a_matricula x = ?m)
           (\<lambda>x. x\<lparr>a_data_matricula := today, a_codigo_plano := ?p\<rparr>) (aluno conn)\<rparr>)"
      using False by (simp add: atualizar_plano_aluno_def fa fp fn first_row_def upd)
    have rows: "list_all2
              (\<lambda>old new.
                 if a_matricula old = ?m
                 then new = old\<lparr>a_codigo_plano := ?p, a_data_matricula := today\<rparr>
                 else new = old)
              (aluno conn)
              (update_where (\<lambda>x. a_matricula x = ?m)
                 (\<lambda>x. x\<lparr>a_data_matricula := today, a_codigo_plano := ?p\<rparr>) (aluno conn))"
      by (simp add: update_where_def list_all2_map2 list_all2_same)
    show ?thesis
      using False rows by (simp add: res)
  qed
qed

text \<open>
  In the gym: Ana goes from Basic (50) to Premium (100); Bruno, on Premium, is refused
  Basic, and also Premium itself.
\<close>

lemma atualizar_plano_aluno_in_gym:
  "atualizar_plano_aluno (Date 2024 4 1) gym 1 2 =
     (Inr ''Plano alterado com sucesso!'',
      gym\<lparr>aluno :=
        [\<lparr>a_matricula = 1, a_cpf = ''11111111111'', a_nome = ''Ana'', a_sexo = ''F'',
          a_data_nascimento = Date 2000 1 1, a_data_matricula = Date 2024 4 1,
          a_codigo_plano = 2\<rparr>,
         \<lparr>a_matricula = 2, a_cpf = ''22222222222'', a_nome = ''Bruno'', a_sexo = ''M'',
          a_data_nascimento = Date 1999 5 5, a_data_matricula = Date 2024 3 2,
          a_codigo_plano = 2\<rparr>]\<rparr>)
   \<and> atualizar_plano_aluno (Date 2024 4 1) gym 2 1 =
     (Inr ''Erro: O novo plano deve ser mais caro que o atual!'', gym)
   \<and> atualizar_plano_aluno (Date 2024 4 1) gym 2 2 =
     (Inr ''Erro: O novo plano deve ser mais caro que o atual!'', gym)"
proof -
  let ?ana = "\<lparr>a_matricula = 1, a_cpf = ''11111111111'', a_nome = ''Ana'', a_sexo = ''F'',
          a_data_nascimento = Date 2000 1 1, a_data_matricula = Date 2024 3 2,
          a_codigo_plano = 1\<rparr>"
  let ?bruno = "\<lparr>a_matricula = 2, a_cpf = ''22222222222'', a_nome = ''Bruno'', a_sexo = ''M'',
          a_data_nascimento = Date 1999 5 5, a_data_matricula = Date 2024 3 2,
          a_codigo_plano = 2\<rparr>"
  let ?basic = "\<lparr>codigo_plano = 1, nome_plano = ''Basic'', preco = 50, descricao = None\<rparr>"
  let ?premium = "\<lparr>codigo_plano = 2, nome_plano = ''Premium'', preco = 100,
          descricao = Some ''Todas as modalidades''\<rparr>"
  have d: "distinct (map codigo_plano (plano gym))" "distinct (map a_matricula (aluno gym))"
    by (simp_all add: gym_def)
  have rows: "?ana \<in> set (aluno gym)" "?bruno \<in> set (aluno gym)"
    "?basic \<in> set (plano gym)" "?premium \<in> set (plano gym)"
    by (simp_all add: gym_def)
  have down: "atualizar_plano_aluno (Date 2024 4 1) gym 2 1 =
     (Inr ''Erro: O novo plano deve ser mais caro que o atual!'', gym)"
    using atualizar_plano_aluno_upgrade_only[OF d rows(2) rows(4) _ rows(3), of "Date 2024 4 1"]
    by simp
  have same: "atualizar_plano_aluno (Date 2024 4 1) gym 2 2 =
     (Inr ''Erro: O novo plano deve ser mais caro que o atual!'', gym)"
    using atualizar_plano_aluno_upgrade_only[OF d rows(2) rows(4) _ rows(4), of "Date 2024 4 1"]
    by simp
  have "fst (atualizar_plano_aluno (Date 2024 4 1) gym 1 2) = Inr ''Plano alterado com sucesso!''"
    using atualizar_plano_aluno_upgrade_only[OF d rows(1) rows(3) _ rows(4), of "Date 2024 4 1"]
    by simp
  moreover have "snd (atualizar_plano_aluno (Date 2024 4 1) gym 1 2) = gym\<lparr>aluno :=
        [\<lparr>a_matricula = 1, a_cpf = ''11111111111'', a_nome = ''Ana'', a_sexo = ''F'',
          a_data_nascimento = Date 2000 1 1, a_data_matricula = Date 2024 4 1,
          a_codigo_plano = 2\<rparr>, ?bruno]\<rparr>"
    by (simp add: gym_def query_defs)
  ultimately have up: "atualizar_plano_aluno (Date 2024 4 1) gym 1 2 =
     (Inr ''Plano alterado com sucesso!'', gym\<lparr>aluno :=
        [\<lparr>a_matricula = 1, a_cpf = ''11111111111'', a_nome = ''Ana'', a_sexo = ''F'',
          a_data_nascimento = Date 2000 1 1, a_data_matricula = Date 2024 4 1,
          a_codigo_plano = 2\<rparr>, ?bruno]\<rparr>)"
    by (simp add: prod_eq_iff)
  show ?thesis using up down same by simp
qed


text \<open>
  The rule lives in the stored function only.  No function of \<^verbatim>\<open>queries.py\<close> or
  \<^verbatim>\<open>api.py\<close> calls it: the endpoint \<^verbatim>\<open>atualizar_aluno\<close> hands
  \<^verbatim>\<open>codigo_plano\<close> to the partial update of the student, which writes any existing plan
  and leaves the enrolment date alone.
\<close>

lemma update_aluno_sets_any_plan:
  assumes "p \<in> set (map codigo_plano (plano conn))"
  shows "update_aluno conn m None None None None None (Some p) =
           (Inr (), conn\<lparr>aluno := update_where (\<lambda>x. a_matricula x = m)
              (\<lambda>x. x\<lparr>a_codigo_plano := p\<rparr>) (aluno conn)\<rparr>)"
  using assms
  by (simp add: update_aluno_def sql_update_aluno_def execute_query_def assign_def)

text \<open>
  Claim C2, at the failing input.  The claim gives the plan change of the program the
  rule of the stored function.  The only plan change the program has is
  \<^verbatim>\<open>PUT /alunos/{matricula}\<close> with a \<^verbatim>\<open>codigo_plano\<close>.  In the gym, Basic costs 50
  and Premium 100.  For Bruno, who is on Premium, the request for Basic is answered with
  success and his row has the cheaper plan, where the claim has a policy violation and an
  unchanged record; for Ana, who is on Basic, the request for Premium is answered with
  success and her enrolment date stays as it was, where the claim has it reset to the
  current date.  The stored function, on the first input, refuses.
\<close>

theorem atualizar_aluno_downgrade_in_gym:
  "map (\<lambda>p. (codigo_plano p, preco p)) (plano gym) = [(1, 50), (2, 100)]
   \<and> atualizar_aluno address_with_at length gym 2
     \<lparr>upd_cpf = None, upd_nome = None, upd_sexo = None, upd_data_nascimento = None,
      upd_data_matricula = None, upd_codigo_plano = Some 1, upd_contato = None\<rparr> =
   (Inr (\<lparr>a_matricula = 2, a_cpf = ''22222222222'', a_nome = ''Bruno'', a_sexo = ''M'',
          a_data_nascimento = Date 1999 5 5, a_data_matricula = Date 2024 3 2,
          a_codigo_plano = 1\<rparr>,
         Some \<lparr>telefone = Some ''(11)98888-0002'', email = Some ''bruno@exemplo.com''\<rparr>),
    gym\<lparr>aluno :=
      [\<lparr>a_matricula = 1, a_cpf = ''11111111111'', a_nome = ''Ana'', a_sexo = ''F'',
        a_data_nascimento = Date 2000 1 1, a_data_matricula = Date 2024 3 2,
        a_codigo_plano = 1\<rparr>,
       \<lparr>a_matricula = 2, a_cpf = ''22222222222'', a_nome = ''Bruno'', a_sexo = ''M'',
        a_data_nascimento = Date 1999 5 5, a_data_matricula = Date 2024 3 2,
        a_codigo_plano = 1\<rparr>]\<rparr>)
   \<and> atualizar_aluno address_with_at length gym 1
     \<lparr>upd_cpf = None, upd_nome = None, upd_sexo = None, upd_data_nascimento = None,
      upd_data_matricula = None, upd_codigo_plano = Some 2, upd_contato = None\<rparr> =
   (Inr (\<lparr>a_matricula = 1, a_cpf = ''11111111111'', a_nome = ''Ana'', a_sexo = ''F'',
          a_data_nascimento = Date 2000 1 1, a_data_matricula = Date 2024 3 2,
          a_codigo_plano = 2\<rparr>,
         Some \<lparr>telefone = Some ''(11)98888-0001'', email = None\<rparr>),
    gym\<lparr>aluno :=
      [\<lparr>a_matricula = 1, a_cpf = ''11111111111'', a_nome = ''Ana'', a_sexo = ''F'',
        a_data_nascimento = Date 2000 1 1, a_data_matricula = Date 2024 3 2,
        a_codigo_plano = 2\<rparr>,
       \<lparr>a_matricula = 2, a_cpf = ''22222222222'', a_nome = ''Bruno'', a_sexo = ''M'',
        a_data_nascimento = Date 1999 5 5, a_data_matricula = Date 2024 3 2,
        a_codigo_plano = 2\<rparr>]\<rparr>)
   \<and> atualizar_plano_aluno (Date 2024 4 1) gym 2 1 =
     (Inr ''Erro: O novo plano deve ser mais caro que o atual!'', gym)"
proof -
  have tel: "telefone_pattern ''(11)98888-0002''" "telefone_pattern ''(11)98888-0001''"
    by (simp_all add: telefone_pattern_def digit_def)
  have 1: "map (\<lambda>p. (codigo_plano p, preco p)) (plano gym) = [(1, 50), (2, 100)]"
    by (simp add: gym_def)
  have 2: "atualizar_aluno address_with_at length gym 2
     \<lparr>upd_cpf = None, upd_nome = None, upd_sexo = None, upd_data_nascimento = None,
      upd_data_matricula = None, upd_codigo_plano = Some 1, upd_contato = None\<rparr> =
   (Inr (\<lparr>a_matricula = 2, a_cpf = ''22222222222'', a_nome = ''Bruno'', a_sexo = ''M'',
          a_data_nascimento = Date 1999 5 5, a_data_matricula = Date 2024 3 2,
          a_codigo_plano = 1\<rparr>,
         Some \<lparr>telefone = Some ''(11)98888-0002'', email = Some ''bruno@exemplo.com''\<rparr>),
    gym\<lparr>aluno :=
      [\<lparr>a_matricula = 1, a_cpf = ''11111111111'', a_nome = ''Ana'', a_sexo = ''F'',
        a_data_nascimento = Date 2000 1 1, a_data_matricula = Date 2024 3 2,
        a_codigo_plano = 1\<rparr>,
       \<lparr>a_matricula = 2, a_cpf = ''22222222222'', a_nome = ''Bruno'', a_sexo = ''M'',
        a_data_nascimento = Date 1999 5 5, a_data_matricula = Date 2024 3 2,
        a_codigo_plano = 1\<rparr>]\<rparr>)"
    by (simp add: atualizar_aluno_def buscar_aluno_def read_aluno_def given_def
        aluno_left_join_contato_def aluno_to_dict_def contato_to_dict_def truthy_def
        response_model_def AlunoResponse_def Optional_ContatoBase_def ContatoBase_def tel
        digit_def SexoEnum_def address_with_at_def gym_def query_defs)
  have 3: "atualizar_aluno address_with_at length gym 1
     \<lparr>upd_cpf = None, upd_nome = None, upd_sexo = None, upd_data_nascimento = None,
      upd_data_matricula = None, upd_codigo_plano = Some 2, upd_contato = None\<rparr> =
   (Inr (\<lparr>a_matricula = 1, a_cpf = ''11111111111'', a_nome = ''Ana'', a_sexo = ''F'',
          a_data_nascimento = Date 2000 1 1, a_data_matricula = Date 2024 3 2,
          a_codigo_plano = 2\<rparr>,
         Some \<lparr>telefone = Some ''(11)98888-0001'', email = None\<rparr>),
    gym\<lparr>aluno :=
      [\<lparr>a_matricula = 1, a_cpf = ''11111111111'', a_nome = ''Ana'', a_sexo = ''F'',
        a_data_nascimento = Date 2000 1 1, a_data_matricula = Date 2024 3 2,
        a_codigo_plano = 2\<rparr>,
       \<lparr>a_matricula = 2, a_cpf = ''22222222222'', a_nome = ''Bruno'', a_sexo = ''M'',
        a_data_nascimento = Date 1999 5 5, a_data_matricula = Date 2024 3 2,
        a_codigo_plano = 2\<rparr>]\<rparr>)"
    by (simp add: atualizar_aluno_def buscar_aluno_def read_aluno_def given_def
        aluno_left_join_contato_def aluno_to_dict_def contato_to_dict_def truthy_def
        response_model_def AlunoResponse_def Optional_ContatoBase_def ContatoBase_def tel
        digit_def SexoEnum_def address_with_at_def gym_def query_defs)
  have 4: "atualizar_plano_aluno (Date 2024 4 1) gym 2 1 =
     (Inr ''Erro: O novo plano deve ser mais caro que o atual!'', gym)"
    by (simp add: gym_def query_defs)
  show ?thesis using 1 2 3 4 by simp
qed

section \<open>Listings\<close>


































section \<open>The response of the plan update\<close>

text \<open>
  The response of \<^verbatim>\<open>atualizar_plano\<close> never reads the store.  A valid payload that gives
  \<^verbatim>\<open>nome_plano\<close> and \<^verbatim>\<open>preco\<close> is echoed with the path's id, an omitted
  \<^verbatim>\<open>descricao\<close> as \<^verbatim>\<open>None\<close>, whatever the store holds; when no plan has the id,
  the answer is the same and the store is unchanged.
\<close>

lemma atualizar_plano_full_payload:
  assumes "valid_PlanoUpdate payload"
    and "upd_nome_plano payload = Some n" and "upd_preco payload = Some v"
  shows "atualizar_plano conn k payload =
           (Inr \<lparr>codigo_plano = k, nome_plano = n, preco = v,
                  descricao = upd_descricao payload\<rparr>,
            snd (update_plano conn k (Some n) (Some v) (upd_descricao payload)))"
    and "k \<notin> set (map codigo_plano (plano conn)) \<Longrightarrow>
         snd (atualizar_plano conn k payload) = conn"
proof -
  have ok: "PlanoResponse k (Some n) (Some v) (upd_descricao payload) =
      Inr \<lparr>codigo_plano = k, nome_plano = n, preco = v, descricao = upd_descricao payload\<rparr>"
    using assms by (simp add: PlanoResponse_def valid_PlanoUpdate_def)
  show 1: "atualizar_plano conn k payload =
           (Inr \<lparr>codigo_plano = k, nome_plano = n, preco = v,
                  descricao = upd_descricao payload\<rparr>,
            snd (update_plano conn k (Some n) (Some v) (upd_descricao payload)))"
    using assms(2,3) ok
    by (simp add: atualizar_plano_def update_plano_def execute_query_def)
  assume "k \<notin> set (map codigo_plano (plano conn))"
  then have "\<forall>r \<in> set (plano conn). codigo_plano r \<noteq> k" by auto
  then have "update_where (\<lambda>p. codigo_plano p = k) f (plano conn) = plano conn" for f
    unfolding update_where_def by (induction "plano conn") (simp_all add: map_idI)
  then show "snd (atualizar_plano conn k payload) = conn"
    by (simp add: 1 update_plano_def execute_query_def)
qed

text \<open>
  A payload without \<^verbatim>\<open>nome_plano\<close> or without \<^verbatim>\<open>preco\<close> is not echoed: the update
  is committed, the constructor of \<^verbatim>\<open>PlanoResponse\<close> then raises, and the endpoint
  answers 400.
\<close>

lemma atualizar_plano_partial_payload:
  assumes "upd_nome_plano payload = None \<or> upd_preco payload = None"
  shows "fst (atualizar_plano conn k payload) = Inl (HTTPException 400 (Of_error ValidationError))"
    and "snd (atualizar_plano conn k payload) =
         snd (update_plano conn k (upd_nome_plano payload) (upd_preco payload)
                (upd_descricao payload))"
proof -
  have bad: "PlanoResponse k (upd_nome_plano payload) (upd_preco payload) (upd_descricao payload) =
      Inl ValidationError"
    using assms by (auto simp: PlanoResponse_def split: option.splits)
  obtain r c where rc: "update_plano conn k (upd_nome_plano payload) (upd_preco payload)
      (upd_descricao payload) = (r, c)"
    by (cases "update_plano conn k (upd_nome_plano payload) (upd_preco payload)
      (upd_descricao payload)") auto
  have r: "r = Inr ()"
    using rc by (auto simp: update_plano_def execute_query_def split: if_splits)
  show "fst (atualizar_plano conn k payload) = Inl (HTTPException 400 (Of_error ValidationError))"
    by (simp add: atualizar_plano_def rc r bad)
  show "snd (atualizar_plano conn k payload) =
         snd (update_plano conn k (upd_nome_plano payload) (upd_preco payload)
                (upd_descricao payload))"
    by (simp add: atualizar_plano_def rc r bad)
qed

text \<open>
  Claim C9, at the failing input.  The claim says that the fields a request omits appear
  as null in the response, and that a request for an id that matches no row is answered
  with success.  \<^verbatim>\<open>PUT /planos/1\<close> with only a \<^verbatim>\<open>descricao\<close> is a valid
  \<^verbatim>\<open>PlanoUpdate\<close>; the endpoint writes the description of plan 1, commits, and answers
  400 with a validation error instead of a response with nulls.  The same payload for the
  id 7, which no plan has, is answered 400 as well; only a payload with both
  \<^verbatim>\<open>nome_plano\<close> and \<^verbatim>\<open>preco\<close> is echoed for it.
\<close>

theorem atualizar_plano_partial_payload_in_gym:
  "valid_PlanoUpdate
     \<lparr>upd_nome_plano = None, upd_preco = None, upd_descricao = Some ''Plano de entrada''\<rparr>
   \<and> atualizar_plano gym 1
       \<lparr>upd_nome_plano = None, upd_preco = None, upd_descricao = Some ''Plano de entrada''\<rparr> =
     (Inl (HTTPException 400 (Of_error ValidationError)),
      gym\<lparr>plano :=
        [\<lparr>codigo_plano = 1, nome_plano = ''Basic'', preco = 50,
          descricao = Some ''Plano de entrada''\<rparr>,
         \<lparr>codigo_plano = 2, nome_plano = ''Premium'', preco = 100,
          descricao = Some ''Todas as modalidades''\<rparr>]\<rparr>)
   \<and> atualizar_plano gym 7
       \<lparr>upd_nome_plano = None, upd_preco = None, upd_descricao = Some ''Plano de entrada''\<rparr> =
     (Inl (HTTPException 400 (Of_error ValidationError)), gym)
   \<and> atualizar_plano gym 7
       \<lparr>upd_nome_plano = Some ''Gold'', upd_preco = Some 150, upd_descricao = None\<rparr> =
     (Inr \<lparr>codigo_plano = 7, nome_plano = ''Gold'', preco = 150, descricao = None\<rparr>, gym)"
  by (simp add: atualizar_plano_def PlanoResponse_def valid_PlanoUpdate_def gym_def query_defs)

end
